theory Spec2Isabelle
  imports Complex_Main "HOL-Library.Multiset"
begin

section \<open>Data model of the source comboer\<close>

text \<open>
  The development follows \<^verbatim>\<open>src/libraries/ANALYSIS/DSourceComboer.cc\<close>. Objects that
  the C++ code handles by address (detected particles and showers, combo infos, vectors of
  combos) are natural numbers here; a combo, immutable once \<^verbatim>\<open>Set_Members\<close> has run, is the
  tree of its members. The C++ \<^verbatim>\<open>double\<close> is read as an exact real number.
\<close>

type_synonym JObject = nat

text \<open>A few of the particle kinds of \<^verbatim>\<open>particleType.h\<close>; the comboer itself names only
  \<^verbatim>\<open>Unknown\<close> and \<^verbatim>\<open>Gamma\<close>.\<close>

datatype Particle_t =
  Unknown | Gamma | PiPlus | PiMinus | KPlus | KMinus | Proton | Neutron | KLong | Pi0 | Eta

datatype Charge_t = d_Charged | d_Neutral | d_AllCharges

datatype ComboingStage_t = d_ChargedStage | d_MixedStage_ZIndependent | d_MixedStage

text \<open>Modelled from the spec: the vertex-z bin of a use (a \<^verbatim>\<open>signed char\<close> in the code, with
  \<^verbatim>\<open>DSourceComboInfo::Get_VertexZIndex_ZIndependent()\<close> and
  \<^verbatim>\<open>Get_VertexZIndex_Unknown()\<close> as sentinels, declared in a header that is not among the
  sources) is a specific bin, the sentinel "z-independent" or the sentinel "unknown".\<close>

datatype VertexZBin = ZBin int | ZIndependent | ZUnknown

text \<open>A use is \<^verbatim>\<open>tuple<Particle_t, signed char, const DSourceComboInfo*>\<close>; \<open>None\<close> is the
  null pointer.\<close>

type_synonym DSourceComboUse = "Particle_t \<times> VertexZBin \<times> nat option"

text \<open>Modelled from the spec: a combo info holds the (particle kind, count) pairs of the
  directly detected particles and the (sub-use, count) pairs of the decays.\<close>

record DSourceComboInfo =
  dNumParticles :: "(Particle_t \<times> nat) list"
  dFurtherDecays :: "(DSourceComboUse \<times> nat) list"

text \<open>Modelled from the spec: a combo holds its ordered leaf members, the sub-combos by
  sub-use (a \<^verbatim>\<open>std::map\<close>, here the list of its entries in the order of the keys) and the flag
  that every constituent is vertex-z independent.\<close>

datatype DSourceCombo = DSourceCombo
  (dSourceParticles: "(Particle_t \<times> JObject) list")
  (dFurtherDecayCombos: "(DSourceComboUse \<times> DSourceCombo list) list")
  (dIsComboingZIndependent: bool)

section \<open>The standard algorithms the code calls\<close>

text \<open>\<^verbatim>\<open>std::lower_bound\<close>, \<^verbatim>\<open>std::upper_bound\<close> and \<^verbatim>\<open>std::binary_search\<close> by the
  positions the standard prescribes on a range partitioned with respect to the value.\<close>

definition std_lower_bound :: "('a \<Rightarrow> 'a \<Rightarrow> bool) \<Rightarrow> 'a list \<Rightarrow> 'a \<Rightarrow> nat" where
  "std_lower_bound lt xs v = length (takeWhile (\<lambda>x. lt x v) xs)"

definition std_upper_bound :: "('a \<Rightarrow> 'a \<Rightarrow> bool) \<Rightarrow> 'a list \<Rightarrow> 'a \<Rightarrow> nat" where
  "std_upper_bound lt xs v = length (takeWhile (\<lambda>x. \<not> lt v x) xs)"

definition std_binary_search :: "('a \<Rightarrow> 'a \<Rightarrow> bool) \<Rightarrow> 'a list \<Rightarrow> 'a \<Rightarrow> bool" where
  "std_binary_search lt xs v =
     (let i = std_lower_bound lt xs v in i < length xs \<and> \<not> lt v (xs ! i))"

text \<open>\<^verbatim>\<open>std::set_union\<close> on two ranges, as the merging loop of the standard.\<close>

fun std_set_union :: "('a \<Rightarrow> 'a \<Rightarrow> bool) \<Rightarrow> 'a list \<Rightarrow> 'a list \<Rightarrow> 'a list" where
  "std_set_union lt [] ys = ys"
| "std_set_union lt xs [] = xs"
| "std_set_union lt (x # xs) (y # ys) =
     (if lt x y then x # std_set_union lt xs (y # ys)
      else if lt y x then y # std_set_union lt (x # xs) ys
      else x # std_set_union lt xs ys)"

section \<open>Constructor: the photon vertex-z binning\<close>

text \<open>\<^verbatim>\<open>DGeometry::GetTargetZ\<close> and \<^verbatim>\<open>DGeometry::GetTargetLength\<close> of
  \<^verbatim>\<open>src/libraries/HDGEOMETRY/DGeometry.cc\<close> return \<^verbatim>\<open>false\<close> and leave the referenced
  variable as it was.\<close>

definition GetTargetZ :: "real \<Rightarrow> bool \<times> real" where
  "GetTargetZ z_target = (False, z_target)"

definition GetTargetLength :: "real \<Rightarrow> bool \<times> real" where
  "GetTargetLength target_length = (False, target_length)"

record photon_vertex_z_binning =
  dTargetCenterZ :: real
  dPhotonVertexZBinWidth :: real
  dPhotonVertexZRangeLow :: real
  dNumPhotonVertexZBins :: nat

text \<open>The \<^verbatim>\<open>do ... while\<close> loop of the constructor (bin width 10.0): it returns the counter and
  the lower edge of the range.\<close>

function binning_range_low :: "real \<Rightarrow> real \<Rightarrow> nat \<Rightarrow> nat \<times> real" where
  "binning_range_low locTargetCenterZ locTargetUpstreamZ locN =
     (if locTargetCenterZ - real (locN + 1) * 10 + 10 > locTargetUpstreamZ
      then binning_range_low locTargetCenterZ locTargetUpstreamZ (locN + 1)
      else (locN + 1, locTargetCenterZ - real (locN + 1) * 10))"
  by pat_completeness auto
termination
proof (relation "measure (\<lambda>(c, u, n). nat \<lceil>(c - u) / 10\<rceil> - n)")
  show "wf (measure (\<lambda>(c, u, n). nat \<lceil>(c - u) / 10\<rceil> - n))"
    by simp
next
  fix c u :: real and n :: nat
  assume "u < c - real (n + 1) * 10 + 10"
  then have "real n < (c - u) / 10"
    by (simp add: field_simps)
  then have "int n < \<lceil>(c - u) / 10\<rceil>"
    by (simp add: less_ceiling_iff)
  then show "((c, u, n + 1), (c, u, n)) \<in> measure (\<lambda>(c, u, n). nat \<lceil>(c - u) / 10\<rceil> - n)"
    by simp
qed

declare binning_range_low.simps [simp del]

text \<open>The second loop: \<^verbatim>\<open>while(dPhotonVertexZRangeLow + locN*dPhotonVertexZBinWidth <= locTargetDownstreamZ) ++locN;\<close>\<close>

function binning_count :: "real \<Rightarrow> real \<Rightarrow> nat \<Rightarrow> nat" where
  "binning_count low locTargetDownstreamZ locN =
     (if low + real locN * 10 \<le> locTargetDownstreamZ
      then binning_count low locTargetDownstreamZ (locN + 1)
      else locN)"
  by pat_completeness auto
termination
proof (relation "measure (\<lambda>(l, d, n). nat (\<lfloor>(d - l) / 10\<rfloor> + 1) - n)")
  show "wf (measure (\<lambda>(l, d, n). nat (\<lfloor>(d - l) / 10\<rfloor> + 1) - n))"
    by simp
next
  fix l d :: real and n :: nat
  assume "l + real n * 10 \<le> d"
  then have "real n \<le> (d - l) / 10"
    by (simp add: field_simps)
  then have "int n \<le> \<lfloor>(d - l) / 10\<rfloor>"
    by (simp add: le_floor_iff)
  then show "((l, d, n + 1), (l, d, n)) \<in> measure (\<lambda>(l, d, n). nat (\<lfloor>(d - l) / 10\<rfloor> + 1) - n)"
    by simp
qed

declare binning_count.simps [simp del]

text \<open>The binning part of \<^verbatim>\<open>DSourceComboer::DSourceComboer\<close>. \<^verbatim>\<open>locTargetLength\<close> is
  declared without an initial value and \<^verbatim>\<open>GetTargetLength\<close> does not assign it, so the
  value it holds is an argument of the model; \<^verbatim>\<open>size_t\<close> is \<open>nat\<close>.\<close>

definition DSourceComboer_binning :: "real \<Rightarrow> photon_vertex_z_binning" where
  "DSourceComboer_binning locTargetLength_initial =
     (let locTargetCenterZ = snd (GetTargetZ 65);
          locTargetLength = snd (GetTargetLength locTargetLength_initial);
          locTargetUpstreamZ = locTargetCenterZ - locTargetLength / 2;
          locTargetDownstreamZ = locTargetCenterZ + locTargetLength / 2;
          (locN, low) = binning_range_low locTargetCenterZ locTargetUpstreamZ 0;
          locN2 = binning_count low locTargetDownstreamZ locN
      in \<lparr> dTargetCenterZ = locTargetCenterZ, dPhotonVertexZBinWidth = 10,
           dPhotonVertexZRangeLow = low, dNumPhotonVertexZBins = locN2 + 1 \<rparr>)"

section \<open>Collaborators and state\<close>

text \<open>What the comboer calls in classes whose code is not among the sources: the particle
  table, the time handler, the vertexer, the four-momentum handler, the comparison of combo
  infos, the \<^verbatim>\<open>operator<\<close> of the pairs an info holds, the address order of combos, and
  the inline helpers of \<^verbatim>\<open>DSourceComboer.h\<close> that choose a memo table. They are
  parameters of the model.\<close>

record services =
  ParticleCharge :: "Particle_t \<Rightarrow> int"
  DCompare_SourceComboInfos :: "DSourceComboInfo \<Rightarrow> DSourceComboInfo \<Rightarrow> bool"
  Get_ChargeContent :: "DSourceComboInfo list \<Rightarrow> nat option \<Rightarrow> Charge_t"
  Get_HasMassiveNeutrals :: "DSourceComboInfo list \<Rightarrow> nat option \<Rightarrow> bool"
  Get_ValidRFBunches :: "JObject \<Rightarrow> VertexZBin \<Rightarrow> int list"
  Get_IsComboingZIndependent :: "JObject \<Rightarrow> Particle_t \<Rightarrow> bool"
  Get_CombosSoFar :: "ComboingStage_t \<Rightarrow> Charge_t \<Rightarrow> DSourceCombo option \<Rightarrow> nat"
  Get_SourceCombosByBeamBunchByUse :: "Charge_t \<Rightarrow> DSourceCombo option \<Rightarrow> nat"
  Get_ChargedCombo_WithNow :: "DSourceCombo option \<Rightarrow> DSourceCombo option"
  Get_VertexZBin :: "bool \<Rightarrow> DSourceCombo \<Rightarrow> VertexZBin"
  Cut_InvariantMass_NoMassiveNeutrals :: "DSourceCombo \<Rightarrow> Particle_t \<Rightarrow> VertexZBin \<Rightarrow> bool"
  less_particle_pair :: "Particle_t \<times> nat \<Rightarrow> Particle_t \<times> nat \<Rightarrow> bool"
  less_decay_pair :: "DSourceComboUse \<times> nat \<Rightarrow> DSourceComboUse \<times> nat \<Rightarrow> bool"
  less_combo_address :: "DSourceCombo \<Rightarrow> DSourceCombo \<Rightarrow> bool"

text \<open>Undefined behaviour and exceptions of the C++ code are values.\<close>

datatype error =
  NullPointerDereference | PrevOfBegin | EmptyVectorAccess | DereferenceOfEnd
  | LengthError | OutOfRange | OutOfFuel

text \<open>The members of \<^verbatim>\<open>DSourceComboer\<close> the modelled functions read or write.
  \<open>info_objects\<close> holds the objects made by \<^verbatim>\<open>new DSourceComboInfo\<close> and \<open>vector_objects\<close>
  the vectors handed out by \<^verbatim>\<open>dResourcePool_SourceComboVector\<close>; a pointer is an index.
  \<open>dSourceCombosByUse n\<close> is the table \<^verbatim>\<open>Get_CombosSoFar\<close> returns under the number \<open>n\<close>
  (\<^verbatim>\<open>dSourceCombosByUse_Charged\<close> or an entry of \<^verbatim>\<open>dMixedCombosByUseByChargedCombo\<close>);
  its values are pointers to vectors, \<open>None\<close> the null pointer. A map read only with
  \<^verbatim>\<open>operator[]\<close> is a total function (a missing key holds the default value).\<close>

record DSourceComboer =
  info_objects :: "DSourceComboInfo list"
  dSourceComboInfoSet :: "nat list"
  dSourceComboInfos :: "nat list"
  dComboInfoChargeContent :: "nat option \<Rightarrow> Charge_t"
  dComboInfosWithMassiveNeutrals :: "nat list"
  dTracksByPID :: "Particle_t \<Rightarrow> JObject list"
  dShowersByBeamBunchByZBin :: "VertexZBin \<Rightarrow> (int list \<rightharpoonup> JObject list)"
  vector_objects :: "DSourceCombo list list"
  dSourceCombosByUse :: "nat \<Rightarrow> (DSourceComboUse \<rightharpoonup> nat option)"
  dSourceCombosByBeamBunchByUse :: "nat \<Rightarrow> DSourceComboUse \<Rightarrow> (int list \<rightharpoonup> DSourceCombo list)"
  dValidRFBunches_ByCombo :: "DSourceCombo \<rightharpoonup> int list"
  dResumeSearchAfterIterators_Combos :: "DSourceCombo \<times> VertexZBin \<Rightarrow> (int list \<rightharpoonup> nat)"
  dResumeSearchAfterMap_Combos :: "DSourceCombo \<rightharpoonup> DSourceCombo"
  dResumeSearchAfterMap_Particles :: "DSourceCombo \<rightharpoonup> JObject"
  dZDependentUseToIndependentMap :: "DSourceComboUse \<rightharpoonup> DSourceComboUse"

text \<open>\<^verbatim>\<open>emplace\<close> (and the insertion \<^verbatim>\<open>operator[]\<close> makes) leaves an existing entry alone.\<close>

definition map_emplace :: "('k \<rightharpoonup> 'v) \<Rightarrow> 'k \<Rightarrow> 'v \<Rightarrow> ('k \<rightharpoonup> 'v)" where
  "map_emplace m k v = (case m k of None \<Rightarrow> m(k \<mapsto> v) | Some _ \<Rightarrow> m)"

definition map_value :: "('k \<rightharpoonup> 'v) \<Rightarrow> 'k \<Rightarrow> 'v \<Rightarrow> 'v" where
  "map_value m k d = (case m k of None \<Rightarrow> d | Some v \<Rightarrow> v)"

section \<open>The combo info registry\<close>

text \<open>\<^verbatim>\<open>MakeOrGet_SourceComboInfo\<close> (lines 498-520): the search object is built on the stack,
  looked up in \<^verbatim>\<open>dSourceComboInfoSet\<close> by the comparison, and made and inserted when no
  equivalent object is there. The set is the list of its pointers in the comparison's
  order.\<close>

definition MakeOrGet_SourceComboInfo ::
  "services \<Rightarrow> DSourceComboer \<Rightarrow> (Particle_t \<times> nat) list \<Rightarrow> (DSourceComboUse \<times> nat) list
     \<Rightarrow> nat \<times> DSourceComboer" where
  "MakeOrGet_SourceComboInfo sv st locNumParticles locFurtherDecays =
     (let locSearchForInfo =
            \<lparr> dNumParticles = locNumParticles, dFurtherDecays = locFurtherDecays \<rparr>;
          lt = DCompare_SourceComboInfos sv
      in case find (\<lambda>p. \<not> lt (info_objects st ! p) locSearchForInfo
                        \<and> \<not> lt locSearchForInfo (info_objects st ! p))
                (dSourceComboInfoSet st) of
           Some p \<Rightarrow> (p, st)
         | None \<Rightarrow>
             (let locComboInfo = length (info_objects st);
                  objs = info_objects st @ [locSearchForInfo];
                  pos = std_lower_bound lt (map ((!) (info_objects st)) (dSourceComboInfoSet st))
                          locSearchForInfo
              in (locComboInfo,
                  st \<lparr> info_objects := objs,
                       dSourceComboInfoSet :=
                         take pos (dSourceComboInfoSet st) @ [locComboInfo]
                           @ drop pos (dSourceComboInfoSet st),
                       dComboInfoChargeContent :=
                         (dComboInfoChargeContent st)
                           (Some locComboInfo := Get_ChargeContent sv objs (Some locComboInfo)),
                       dComboInfosWithMassiveNeutrals :=
                         (if Get_HasMassiveNeutrals sv objs (Some locComboInfo)
                          then List.insert locComboInfo (dComboInfosWithMassiveNeutrals st)
                          else dComboInfosWithMassiveNeutrals st) \<rparr>)))"

text \<open>\<^verbatim>\<open>GetOrMake_SourceComboInfo\<close> (lines 522-544): \<^verbatim>\<open>std::equal_range\<close> on the sorted
  vector \<^verbatim>\<open>dSourceComboInfos\<close>; a new object is put at the lower bound.\<close>

definition GetOrMake_SourceComboInfo ::
  "services \<Rightarrow> DSourceComboer \<Rightarrow> (Particle_t \<times> nat) list \<Rightarrow> (DSourceComboUse \<times> nat) list
     \<Rightarrow> nat \<times> DSourceComboer" where
  "GetOrMake_SourceComboInfo sv st locNumParticles locFurtherDecays =
     (let locSearchForInfo =
            \<lparr> dNumParticles = locNumParticles, dFurtherDecays = locFurtherDecays \<rparr>;
          lt = DCompare_SourceComboInfos sv;
          contents = map ((!) (info_objects st)) (dSourceComboInfos st);
          first = std_lower_bound lt contents locSearchForInfo;
          second = std_upper_bound lt contents locSearchForInfo
      in if first \<noteq> second then (dSourceComboInfos st ! first, st)
         else
           (let locComboInfo = length (info_objects st);
                objs = info_objects st @ [locSearchForInfo]
            in (locComboInfo,
                st \<lparr> info_objects := objs,
                     dSourceComboInfos :=
                       take first (dSourceComboInfos st) @ [locComboInfo]
                         @ drop first (dSourceComboInfos st),
                     dComboInfoChargeContent :=
                       (dComboInfoChargeContent st)
                         (Some locComboInfo := Get_ChargeContent sv objs (Some locComboInfo)),
                     dComboInfosWithMassiveNeutrals :=
                       (if Get_HasMassiveNeutrals sv objs (Some locComboInfo)
                        then List.insert locComboInfo (dComboInfosWithMassiveNeutrals st)
                        else dComboInfosWithMassiveNeutrals st) \<rparr>)))"

text \<open>The state of the registry the two functions rely on: every registered pointer is a
  made object, the vector is strictly sorted by the comparison, and no two objects of the
  set have the same content.\<close>

definition registry_ok :: "services \<Rightarrow> DSourceComboer \<Rightarrow> bool" where
  "registry_ok sv st =
     (list_all (\<lambda>p. p < length (info_objects st)) (dSourceComboInfos st)
      \<and> list_all (\<lambda>p. p < length (info_objects st)) (dSourceComboInfoSet st)
      \<and> sorted_wrt (DCompare_SourceComboInfos sv)
           (map ((!) (info_objects st)) (dSourceComboInfos st))
      \<and> distinct (map ((!) (info_objects st)) (dSourceComboInfoSet st)))"

text \<open>The comparison is a strict total order on a set of contents: two infos of the set
  that it does not order are equal in value.\<close>

definition strict_total_order_on :: "'a set \<Rightarrow> ('a \<Rightarrow> 'a \<Rightarrow> bool) \<Rightarrow> bool" where
  "strict_total_order_on A lt =
     ((\<forall>a\<in>A. \<not> lt a a)
      \<and> (\<forall>a\<in>A. \<forall>b\<in>A. \<forall>c\<in>A. lt a b \<and> lt b c \<longrightarrow> lt a c)
      \<and> (\<forall>a\<in>A. \<forall>b\<in>A. lt a b \<or> lt b a \<or> a = b))"

section \<open>Particles for comboing\<close>

text \<open>The loop of \<^verbatim>\<open>Get_ShowersByBeamBunch\<close> (lines 1960-1977) on the map of one vertex-z
  bin. \<^verbatim>\<open>vector<int>(*locBunchIterator)\<close> is the vector of that many zeros (a negative
  count throws \<^verbatim>\<open>std::length_error\<close>); \<^verbatim>\<open>Build_ParticleIterators\<close> writes only the
  resume iterators of particles, which the model does not hold, but its argument
  \<^verbatim>\<open>locShowersByBunch[locBeamBunches]\<close> makes the entry.\<close>

fun Get_ShowersByBeamBunch_loop ::
  "int list \<Rightarrow> int list \<Rightarrow> int list \<Rightarrow> (int list \<rightharpoonup> JObject list)
     \<Rightarrow> error + (int list \<rightharpoonup> JObject list)" where
  "Get_ShowersByBeamBunch_loop locBeamBunches locBunchesSoFar [] m = Inr m"
| "Get_ShowersByBeamBunch_loop locBeamBunches locBunchesSoFar (b # rest) m =
     (let m1 = map_emplace m locBunchesSoFar [];
          locComboShowers = map_value m1 locBunchesSoFar []
      in if b < 0 then Inl LengthError
         else
           (let m2 = map_emplace m1 (replicate (nat b) 0) [];
                locBunchShowers = map_value m2 (replicate (nat b) 0) [];
                locBunchesSoFar' = locBunchesSoFar @ [b]
            in if locBunchShowers = []
               then Get_ShowersByBeamBunch_loop locBeamBunches locBunchesSoFar' rest
                      (map_emplace m2 locBunchesSoFar' locComboShowers)
               else Get_ShowersByBeamBunch_loop locBeamBunches locBunchesSoFar' rest
                      (map_emplace
                         (map_emplace m2 locBunchesSoFar'
                            (std_set_union (<) locComboShowers locBunchShowers))
                         locBeamBunches [])))"

definition Get_ShowersByBeamBunch ::
  "int list \<Rightarrow> (int list \<rightharpoonup> JObject list)
     \<Rightarrow> error + (JObject list \<times> (int list \<rightharpoonup> JObject list))" where
  "Get_ShowersByBeamBunch locBeamBunches locShowersByBunch =
     (case locBeamBunches of
        [] \<Rightarrow> Inl DereferenceOfEnd
      | b0 # rest \<Rightarrow>
          (case Get_ShowersByBeamBunch_loop locBeamBunches [b0] rest locShowersByBunch of
             Inl e \<Rightarrow> Inl e
           | Inr m \<Rightarrow> Inr (map_value m locBeamBunches [], map_emplace m locBeamBunches [])))"

text \<open>The lookup both photon branches of \<^verbatim>\<open>Get_ParticlesForComboing\<close> end with: the
  showers cached under the exact bunch-set key, else \<^verbatim>\<open>Get_ShowersByBeamBunch\<close>.\<close>

definition Get_ShowersForBunches ::
  "DSourceComboer \<Rightarrow> VertexZBin \<Rightarrow> int list \<Rightarrow> error + (JObject list \<times> DSourceComboer)" where
  "Get_ShowersForBunches st locVertexZBin locBeamBunches =
     (case dShowersByBeamBunchByZBin st locVertexZBin locBeamBunches of
        Some showers \<Rightarrow> Inr (showers, st)
      | None \<Rightarrow>
          (case Get_ShowersByBeamBunch locBeamBunches
                  (dShowersByBeamBunchByZBin st locVertexZBin) of
             Inl e \<Rightarrow> Inl e
           | Inr (showers, m) \<Rightarrow>
               Inr (showers,
                    st \<lparr> dShowersByBeamBunchByZBin :=
                           (dShowersByBeamBunchByZBin st) (locVertexZBin := m) \<rparr>)))"

text \<open>All showers: \<^verbatim>\<open>dShowersByBeamBunchByZBin[Get_VertexZIndex_Unknown()][{}]\<close>.\<close>

definition Get_AllShowers :: "DSourceComboer \<Rightarrow> JObject list \<times> DSourceComboer" where
  "Get_AllShowers st =
     (map_value (dShowersByBeamBunchByZBin st ZUnknown) [] [],
      st \<lparr> dShowersByBeamBunchByZBin := (dShowersByBeamBunchByZBin st)
             (ZUnknown := map_emplace (dShowersByBeamBunchByZBin st ZUnknown) [] []) \<rparr>)"

text \<open>\<^verbatim>\<open>Get_ParticlesForComboing\<close> (lines 1923-1953).\<close>

definition Get_ParticlesForComboing ::
  "services \<Rightarrow> DSourceComboer \<Rightarrow> Particle_t \<Rightarrow> ComboingStage_t \<Rightarrow> int list \<Rightarrow> VertexZBin
     \<Rightarrow> error + (JObject list \<times> DSourceComboer)" where
  "Get_ParticlesForComboing sv st locPID locComboingStage locBeamBunches locVertexZBin =
     (if ParticleCharge sv locPID \<noteq> 0 then Inr (dTracksByPID st locPID, st)
      else if locPID \<noteq> Gamma then Inr (Get_AllShowers st)
      else if locComboingStage = d_MixedStage_ZIndependent
      then Get_ShowersForBunches st ZIndependent locBeamBunches
      else if locBeamBunches = [] then Inr (Get_AllShowers st)
      else Get_ShowersForBunches st locVertexZBin locBeamBunches)"

section \<open>Combos, memo tables and beam bunches\<close>

text \<open>Modelled from the spec: \<^verbatim>\<open>DSourceCombo::Get_SourceParticles\<close> gives the leaf members
  of the combo itself or, with the flag set, those of the entire chain of sub-combos.\<close>

fun Get_SourceParticles :: "DSourceCombo \<Rightarrow> bool \<Rightarrow> (Particle_t \<times> JObject) list" where
  "Get_SourceParticles (DSourceCombo ps ds z) locEntireChainFlag =
     (if \<not> locEntireChainFlag then ps
      else ps @ concat (map (\<lambda>(u, cs). concat (map (\<lambda>c. Get_SourceParticles c True) cs)) ds))"

text \<open>Modelled from the spec: \<^verbatim>\<open>DAnalysis::Get_SourceParticles\<close> drops the kinds of a list
  of (kind, particle) pairs and keeps every particle (kind \<^verbatim>\<open>Unknown\<close>, the default) or the
  particles of the given kind.\<close>

definition DAnalysis_Get_SourceParticles ::
  "(Particle_t \<times> JObject) list \<Rightarrow> Particle_t \<Rightarrow> JObject list" where
  "DAnalysis_Get_SourceParticles locSourceParticles locPID =
     map snd (filter (\<lambda>(k, p). locPID = Unknown \<or> k = locPID) locSourceParticles)"

text \<open>Modelled from the spec: \<^verbatim>\<open>Get_CommonRFBunches\<close> of the timing collaborator is the
  intersection of two bunch sets, the empty set being the sentinel "no constraint".\<close>

definition Get_CommonRFBunches :: "int list \<Rightarrow> int list \<Rightarrow> int list" where
  "Get_CommonRFBunches locRFBunches1 locRFBunches2 =
     (if locRFBunches1 = [] then locRFBunches2
      else if locRFBunches2 = [] then locRFBunches1
      else filter (\<lambda>b. b \<in> set locRFBunches2) locRFBunches1)"

text \<open>The \<^verbatim>\<open>operator<\<close> of uses, the order of the keys of a sub-combo map: a pair of a use
  and a count is compared by the use first, so two pairs with the same count compare as
  their uses do.\<close>

definition less_combo_use :: "services \<Rightarrow> DSourceComboUse \<Rightarrow> DSourceComboUse \<Rightarrow> bool" where
  "less_combo_use sv u u' = less_decay_pair sv (u, 0) (u', 0)"

text \<open>The sub-combo map of a combo: \<^verbatim>\<open>emplace\<close> and the range \<^verbatim>\<open>insert\<close> of a
  \<^verbatim>\<open>std::map\<close> keep the entry of a key that is already there, and put a new entry at
  the place of its key.\<close>

definition combos_emplace ::
  "services \<Rightarrow> (DSourceComboUse \<times> DSourceCombo list) list \<Rightarrow> DSourceComboUse
     \<Rightarrow> DSourceCombo list \<Rightarrow> (DSourceComboUse \<times> DSourceCombo list) list" where
  "combos_emplace sv ds k v =
     (if k \<in> fst ` set ds then ds
      else (let n = length (takeWhile (\<lambda>e. less_combo_use sv (fst e) k) ds)
            in take n ds @ [(k, v)] @ drop n ds))"

definition combos_insert_range ::
  "services \<Rightarrow> (DSourceComboUse \<times> DSourceCombo list) list
     \<Rightarrow> (DSourceComboUse \<times> DSourceCombo list) list
     \<Rightarrow> (DSourceComboUse \<times> DSourceCombo list) list" where
  "combos_insert_range sv ds es = foldl (\<lambda>d (k, v). combos_emplace sv d k v) ds es"

text \<open>A loop whose body may end in undefined behaviour.\<close>

fun fold_err :: "('a \<Rightarrow> 's \<Rightarrow> error + 's) \<Rightarrow> 'a list \<Rightarrow> 's \<Rightarrow> error + 's" where
  "fold_err f [] s = Inr s"
| "fold_err f (x # xs) s = (case f x s of Inl e \<Rightarrow> Inl e | Inr s' \<Rightarrow> fold_err f xs s')"

text \<open>\<^verbatim>\<open>*(table[use])\<close>: the vector a table holds for a use. A missing key gets a null
  pointer, and dereferencing a null pointer is undefined.\<close>

definition vector_of :: "DSourceComboer \<Rightarrow> nat \<Rightarrow> DSourceComboUse \<Rightarrow> error + nat" where
  "vector_of st tbl use =
     (case dSourceCombosByUse st tbl use of
        Some (Some a) \<Rightarrow> Inr a
      | _ \<Rightarrow> Inl NullPointerDereference)"

definition table_emplace ::
  "DSourceComboer \<Rightarrow> nat \<Rightarrow> DSourceComboUse \<Rightarrow> nat option \<Rightarrow> DSourceComboer" where
  "table_emplace st tbl use ptr =
     st \<lparr> dSourceCombosByUse := (dSourceCombosByUse st)
            (tbl := map_emplace (dSourceCombosByUse st tbl) use ptr) \<rparr>"

text \<open>\<^verbatim>\<open>dResourcePool_SourceComboVector.Get_Resource()\<close> hands out an empty vector.\<close>

definition Get_Resource_vector :: "DSourceComboer \<Rightarrow> nat \<times> DSourceComboer" where
  "Get_Resource_vector st =
     (length (vector_objects st), st \<lparr> vector_objects := vector_objects st @ [[]] \<rparr>)"

text \<open>\<^verbatim>\<open>table.emplace(use, dResourcePool_SourceComboVector.Get_Resource())\<close>.\<close>

definition init_results :: "DSourceComboer \<Rightarrow> nat \<Rightarrow> DSourceComboUse \<Rightarrow> DSourceComboer" where
  "init_results st tbl use =
     (let (a, st1) = Get_Resource_vector st in table_emplace st1 tbl use (Some a))"

definition push_back :: "DSourceComboer \<Rightarrow> nat \<Rightarrow> DSourceCombo \<Rightarrow> DSourceComboer" where
  "push_back st a c =
     st \<lparr> vector_objects := (vector_objects st) [a := vector_objects st ! a @ [c]] \<rparr>"

text \<open>\<^verbatim>\<open>table[use]->push_back(combo)\<close>.\<close>

definition push_back_result ::
  "DSourceComboer \<Rightarrow> nat \<Rightarrow> DSourceComboUse \<Rightarrow> DSourceCombo \<Rightarrow> error + DSourceComboer" where
  "push_back_result st tbl use c =
     (case vector_of st tbl use of Inl e \<Rightarrow> Inl e | Inr a \<Rightarrow> Inr (push_back st a c))"

text \<open>One turn of the loop over the bunches in \<^verbatim>\<open>Register_ValidRFBunches\<close>
  (lines 1998-2003); an iterator is the position in its vector.\<close>

definition register_beam_bunch ::
  "nat \<Rightarrow> DSourceComboUse \<Rightarrow> DSourceCombo \<Rightarrow> DSourceComboer \<Rightarrow> int \<Rightarrow> DSourceComboer" where
  "register_beam_bunch bbtbl use combo st locBeamBunch =
     (let locComboVector =
            map_value (dSourceCombosByBeamBunchByUse st bbtbl use) [locBeamBunch] [] @ [combo];
          key = (combo, fst (snd use))
      in st \<lparr> dSourceCombosByBeamBunchByUse := (dSourceCombosByBeamBunchByUse st)
                (bbtbl := (dSourceCombosByBeamBunchByUse st bbtbl)
                   (use := (dSourceCombosByBeamBunchByUse st bbtbl use)
                      ([locBeamBunch] \<mapsto> locComboVector))),
              dResumeSearchAfterIterators_Combos := (dResumeSearchAfterIterators_Combos st)
                (key := map_emplace (dResumeSearchAfterIterators_Combos st key) [locBeamBunch]
                          (length locComboVector - 1)) \<rparr>)"

text \<open>\<^verbatim>\<open>Register_ValidRFBunches\<close> (lines 1983-2010).\<close>

definition Register_ValidRFBunches ::
  "services \<Rightarrow> DSourceComboer \<Rightarrow> DSourceComboUse \<Rightarrow> DSourceCombo \<Rightarrow> int list
     \<Rightarrow> ComboingStage_t \<Rightarrow> DSourceCombo option \<Rightarrow> error + DSourceComboer" where
  "Register_ValidRFBunches sv st locSourceComboUse locSourceCombo locRFBunches locComboingStage
       locChargedCombo_WithNow =
     (let locComboInfo = snd (snd locSourceComboUse);
          locVertexZBin = fst (snd locSourceComboUse);
          st1 = st \<lparr> dValidRFBunches_ByCombo :=
                       map_emplace (dValidRFBunches_ByCombo st) locSourceCombo locRFBunches \<rparr>;
          st2 = (if locComboingStage \<noteq> d_ChargedStage
                 then foldl (register_beam_bunch
                        (Get_SourceCombosByBeamBunchByUse sv
                           (dComboInfoChargeContent st1 locComboInfo) locChargedCombo_WithNow)
                        locSourceComboUse locSourceCombo) st1 locRFBunches
                 else st1)
      in if locRFBunches = []
         then (case vector_of st2
                      (Get_CombosSoFar sv locComboingStage
                         (dComboInfoChargeContent st2 locComboInfo) locChargedCombo_WithNow)
                      locSourceComboUse of
                 Inl e \<Rightarrow> Inl e
               | Inr a \<Rightarrow>
                   if vector_objects st2 ! a = [] then Inl PrevOfBegin
                   else Inr (st2 \<lparr> dResumeSearchAfterIterators_Combos :=
                                (dResumeSearchAfterIterators_Combos st2)
                                  ((locSourceCombo, locVertexZBin) :=
                                     map_emplace
                                       (dResumeSearchAfterIterators_Combos st2
                                          (locSourceCombo, locVertexZBin))
                                       [] (length (vector_objects st2 ! a) - 1)) \<rparr>))
         else Inr st2)"

text \<open>The resume iterators \<^verbatim>\<open>Copy_ZIndependentMixedResults\<close> enters for the combo at
  position \<open>i\<close> of the copied vector (lines 2088-2095).\<close>

definition copy_resume_iterators ::
  "VertexZBin \<Rightarrow> DSourceComboer \<Rightarrow> nat \<times> DSourceCombo \<Rightarrow> DSourceComboer" where
  "copy_resume_iterators locVertexZBin st ic =
     (let (i, combo) = ic;
          locRFBunches = map_value (dValidRFBunches_ByCombo st) combo [];
          st1 = st \<lparr> dValidRFBunches_ByCombo :=
                       map_emplace (dValidRFBunches_ByCombo st) combo [] \<rparr>;
          keys = (if locRFBunches = [] then [[]] else map (\<lambda>b. [b]) locRFBunches)
      in st1 \<lparr> dResumeSearchAfterIterators_Combos := (dResumeSearchAfterIterators_Combos st1)
                 ((combo, locVertexZBin) :=
                    foldl (\<lambda>m k. map_emplace m k i)
                      (dResumeSearchAfterIterators_Combos st1 (combo, locVertexZBin)) keys) \<rparr>)"

text \<open>\<^verbatim>\<open>Copy_ZIndependentMixedResults\<close> (lines 2055-2096).\<close>

definition Copy_ZIndependentMixedResults ::
  "services \<Rightarrow> DSourceComboer \<Rightarrow> DSourceComboUse \<Rightarrow> DSourceCombo option
     \<Rightarrow> error + DSourceComboer" where
  "Copy_ZIndependentMixedResults sv st locComboUseToCreate locChargedCombo_WithNow =
     (let locVertexZBin = fst (snd locComboUseToCreate);
          locComboInfo = snd (snd locComboUseToCreate);
          locChargeContent = dComboInfoChargeContent st locComboInfo;
          tbl = Get_CombosSoFar sv d_MixedStage locChargeContent locChargedCombo_WithNow;
          locComboUseFCAL = (fst locComboUseToCreate, ZIndependent, locComboInfo)
      in case vector_of st tbl locComboUseFCAL of
           Inl e \<Rightarrow> Inl e
         | Inr fcal \<Rightarrow>
             (case vector_of st tbl locComboUseToCreate of
                Inl e \<Rightarrow> Inl e
              | Inr both \<Rightarrow>
                  (let locBothComboVector = vector_objects st ! fcal;
                       bbtbl = Get_SourceCombosByBeamBunchByUse sv locChargeContent
                                 locChargedCombo_WithNow;
                       bb = dSourceCombosByBeamBunchByUse st bbtbl;
                       st1 = st \<lparr> vector_objects :=
                                    (vector_objects st) [both := locBothComboVector],
                                  dSourceCombosByBeamBunchByUse :=
                                    (dSourceCombosByBeamBunchByUse st)
                                      (bbtbl := bb (locComboUseToCreate :=
                                         (\<lambda>k. case bb locComboUseToCreate k of
                                                Some v \<Rightarrow> Some v
                                              | None \<Rightarrow>
                                                  if length k = 1 then bb locComboUseFCAL k
                                                  else None))) \<rparr>
                   in Inr (foldl (copy_resume_iterators locVertexZBin) st1
                             (zip [0 ..< length locBothComboVector] locBothComboVector)))))"

text \<open>\<^verbatim>\<open>Get_CombosByBeamBunch\<close> (lines 2029-2053) on the map of one use; the loop is that of
  \<^verbatim>\<open>Get_ShowersByBeamBunch\<close>, on vectors of combos in the order of their addresses.
  \<^verbatim>\<open>Build_ComboIterators\<close> is not among the sources; of its call the model keeps what the
  argument \<^verbatim>\<open>locCombosByBunch[locBeamBunches]\<close> does.\<close>

fun Get_CombosByBeamBunch_loop ::
  "services \<Rightarrow> int list \<Rightarrow> int list \<Rightarrow> int list \<Rightarrow> (int list \<rightharpoonup> DSourceCombo list)
     \<Rightarrow> error + (int list \<rightharpoonup> DSourceCombo list)" where
  "Get_CombosByBeamBunch_loop sv locBeamBunches locBunchesSoFar [] m = Inr m"
| "Get_CombosByBeamBunch_loop sv locBeamBunches locBunchesSoFar (b # rest) m =
     (let m1 = map_emplace m locBunchesSoFar [];
          locComboShowers = map_value m1 locBunchesSoFar []
      in if b < 0 then Inl LengthError
         else
           (let m2 = map_emplace m1 (replicate (nat b) 0) [];
                locBunchShowers = map_value m2 (replicate (nat b) 0) [];
                locBunchesSoFar' = locBunchesSoFar @ [b]
            in if locBunchShowers = []
               then Get_CombosByBeamBunch_loop sv locBeamBunches locBunchesSoFar' rest
                      (map_emplace m2 locBunchesSoFar' locComboShowers)
               else Get_CombosByBeamBunch_loop sv locBeamBunches locBunchesSoFar' rest
                      (map_emplace
                         (map_emplace m2 locBunchesSoFar'
                            (std_set_union (less_combo_address sv) locComboShowers
                               locBunchShowers))
                         locBeamBunches [])))"

definition Get_CombosByBeamBunch ::
  "services \<Rightarrow> (int list \<rightharpoonup> DSourceCombo list) \<Rightarrow> int list
     \<Rightarrow> error + (DSourceCombo list \<times> (int list \<rightharpoonup> DSourceCombo list))" where
  "Get_CombosByBeamBunch sv locCombosByBunch locBeamBunches =
     (case locBeamBunches of
        [] \<Rightarrow> Inl DereferenceOfEnd
      | b0 # rest \<Rightarrow>
          (case Get_CombosByBeamBunch_loop sv locBeamBunches [b0] rest locCombosByBunch of
             Inl e \<Rightarrow> Inl e
           | Inr m \<Rightarrow> Inr (map_value m locBeamBunches [], map_emplace m locBeamBunches [])))"

text \<open>\<^verbatim>\<open>Get_CombosForComboing\<close> (lines 2012-2027).\<close>

definition Get_CombosForComboing ::
  "services \<Rightarrow> DSourceComboer \<Rightarrow> DSourceComboUse \<Rightarrow> ComboingStage_t \<Rightarrow> int list
     \<Rightarrow> DSourceCombo option \<Rightarrow> error + (DSourceCombo list \<times> DSourceComboer)" where
  "Get_CombosForComboing sv st locComboUse locComboingStage locBeamBunches
       locChargedCombo_WithPrevious =
     (let locChargeContent = dComboInfoChargeContent st (snd (snd locComboUse))
      in if locBeamBunches = [] \<or> locChargeContent = d_Charged
         then (case vector_of st
                      (Get_CombosSoFar sv locComboingStage locChargeContent
                         locChargedCombo_WithPrevious) locComboUse of
                 Inl e \<Rightarrow> Inl e
               | Inr a \<Rightarrow> Inr (vector_objects st ! a, st))
         else
           (let bbtbl = Get_SourceCombosByBeamBunchByUse sv locChargeContent
                          locChargedCombo_WithPrevious;
                bb = dSourceCombosByBeamBunchByUse st bbtbl
            in case bb locComboUse locBeamBunches of
                 Some combos \<Rightarrow> Inr (combos, st)
               | None \<Rightarrow>
                   (case Get_CombosByBeamBunch sv (bb locComboUse) locBeamBunches of
                      Inl e \<Rightarrow> Inl e
                    | Inr (combos, m) \<Rightarrow>
                        Inr (combos,
                             st \<lparr> dSourceCombosByBeamBunchByUse :=
                                    (dSourceCombosByBeamBunchByUse st)
                                      (bbtbl := bb (locComboUse := m)) \<rparr>))))"

text \<open>\<^verbatim>\<open>Get_Presiding_ChargedCombo\<close> (lines 2127-2167); \<open>None\<close> is the null pointer.\<close>

definition Get_Presiding_ChargedCombo ::
  "services \<Rightarrow> DSourceComboer \<Rightarrow> DSourceCombo option \<Rightarrow> DSourceComboUse \<Rightarrow> ComboingStage_t
     \<Rightarrow> nat \<Rightarrow> error + DSourceCombo option" where
  "Get_Presiding_ChargedCombo sv st locChargedCombo_Presiding locNextComboUse locComboingStage
       locInstance =
     (if locComboingStage = d_ChargedStage then Inr None
      else case locChargedCombo_Presiding of
        None \<Rightarrow> Inr None
      | Some presiding \<Rightarrow>
          if Get_ChargeContent sv (info_objects st) (snd (snd locNextComboUse)) \<noteq> d_AllCharges
          then Inr None
          else
            (case (if locComboingStage = d_MixedStage_ZIndependent then Some locNextComboUse
                   else dZDependentUseToIndependentMap st locNextComboUse) of
               None \<Rightarrow> Inl DereferenceOfEnd
             | Some locUseToFind \<Rightarrow>
                 (case map_of (dFurtherDecayCombos presiding) locUseToFind of
                    None \<Rightarrow> Inr (Some presiding)
                  | Some locNextChargedComboVector \<Rightarrow>
                      if locComboingStage = d_MixedStage_ZIndependent
                      then (if 0 < locInstance \<and> locInstance \<le> length locNextChargedComboVector
                            then Inr (Some (locNextChargedComboVector ! (locInstance - 1)))
                            else Inl OutOfRange)
                      else
                        (let same_bin =
                               filter (\<lambda>c. Get_VertexZBin sv False c = fst (snd locNextComboUse))
                                 locNextChargedComboVector
                         in if 0 < locInstance \<and> locInstance \<le> length same_bin
                            then Inr (Some (same_bin ! (locInstance - 1)))
                            else Inr None))))"

text \<open>\<^verbatim>\<open>Get_PromoteFlag\<close> (lines 2212-2229): \<^verbatim>\<open>front()\<close> of an empty vector and a null
  info are undefined.\<close>

definition Get_PromoteFlag ::
  "services \<Rightarrow> DSourceComboer \<Rightarrow> Particle_t \<Rightarrow> nat option \<Rightarrow> nat option \<Rightarrow> error + bool" where
  "Get_PromoteFlag sv st locDecayPID_UseToCheck locComboInfo_UseToCreate locComboInfo_UseToCheck =
     (if locDecayPID_UseToCheck \<noteq> Unknown then Inr False
      else case (locComboInfo_UseToCheck, locComboInfo_UseToCreate) of
        (Some chk, Some crt) \<Rightarrow>
          (case dFurtherDecays (info_objects st ! chk) of
             d # ds \<Rightarrow>
               Inr (std_binary_search (less_decay_pair sv)
                      (dFurtherDecays (info_objects st ! crt)) d)
           | [] \<Rightarrow>
               (case dNumParticles (info_objects st ! chk) of
                  [] \<Rightarrow> Inl EmptyVectorAccess
                | n # ns \<Rightarrow>
                    Inr (std_binary_search (less_particle_pair sv)
                           (dNumParticles (info_objects st ! crt)) n)))
      | _ \<Rightarrow> Inl NullPointerDereference)"

section \<open>Vertical comboing of particles\<close>

text \<open>The body of the inner loop of the size-2 branch of \<^verbatim>\<open>Combo_Vertically_NParticles\<close>
  (lines 1367-1384), for the first particle with its bunches and one second particle.\<close>

definition NParticles_pair_body ::
  "services \<Rightarrow> DSourceComboUse \<Rightarrow> ComboingStage_t \<Rightarrow> Particle_t \<Rightarrow> JObject \<Rightarrow> int list
     \<Rightarrow> JObject \<Rightarrow> DSourceComboer \<Rightarrow> error + DSourceComboer" where
  "NParticles_pair_body sv locComboUseToCreate locComboingStage locPID locFirst locRFBunches_First
       locSecond st =
     (let locVertexZBin = fst (snd locComboUseToCreate);
          locIsZIndependent =
            (locComboingStage = d_MixedStage_ZIndependent
             \<or> (Get_IsComboingZIndependent sv locFirst locPID
                 \<and> Get_IsComboingZIndependent sv locSecond locPID))
      in if locComboingStage = d_MixedStage \<and> locIsZIndependent then Inr st
         else
           (let locValidRFBunches =
                  (if locPID \<noteq> Gamma then []
                   else Get_CommonRFBunches locRFBunches_First
                          (Get_ValidRFBunches sv locSecond locVertexZBin))
            in if locPID = Gamma \<and> locValidRFBunches = [] then Inr st
               else
                 (let locCombo =
                        DSourceCombo [(locPID, locFirst), (locPID, locSecond)] []
                          locIsZIndependent
                  in case push_back_result st
                            (Get_CombosSoFar sv locComboingStage d_Neutral None)
                            locComboUseToCreate locCombo of
                       Inl e \<Rightarrow> Inl e
                     | Inr st1 \<Rightarrow>
                         (case Register_ValidRFBunches sv st1 locComboUseToCreate locCombo
                                 locValidRFBunches locComboingStage None of
                            Inl e \<Rightarrow> Inl e
                          | Inr st2 \<Rightarrow>
                              Inr (st2 \<lparr> dResumeSearchAfterMap_Particles :=
                                          (dResumeSearchAfterMap_Particles st2)
                                            (locCombo \<mapsto> locSecond) \<rparr>)))))"

text \<open>The two loops (lines 1362-1386): the first iterator stops at the last particle, the
  second runs from the next particle to the end.\<close>

fun NParticles_pairs ::
  "services \<Rightarrow> DSourceComboUse \<Rightarrow> ComboingStage_t \<Rightarrow> Particle_t \<Rightarrow> JObject list
     \<Rightarrow> DSourceComboer \<Rightarrow> error + DSourceComboer" where
  "NParticles_pairs sv use stage pid [] st = Inr st"
| "NParticles_pairs sv use stage pid [p] st = Inr st"
| "NParticles_pairs sv use stage pid (p # q # ps) st =
     (case fold_err
             (NParticles_pair_body sv use stage pid p
                (if pid = Gamma then Get_ValidRFBunches sv p (fst (snd use)) else []))
             (q # ps) st of
        Inl e \<Rightarrow> Inl e
      | Inr st' \<Rightarrow> NParticles_pairs sv use stage pid (q # ps) st')"

text \<open>Modelled from the spec: \<^verbatim>\<open>Get_ResumeAtIterator_Particles\<close> gives the candidates
  strictly after the last candidate used in the (N-1)-grouping, the one remembered at its
  creation in \<^verbatim>\<open>dResumeSearchAfterMap_Particles\<close>.\<close>

definition Get_ResumeAtIterator_Particles ::
  "DSourceComboer \<Rightarrow> DSourceCombo \<Rightarrow> JObject list \<Rightarrow> error + JObject list" where
  "Get_ResumeAtIterator_Particles st locSourceCombo locParticles =
     (case dResumeSearchAfterMap_Particles st locSourceCombo of
        None \<Rightarrow> Inl DereferenceOfEnd
      | Some locPreviousObject \<Rightarrow>
          Inr (drop 1 (dropWhile (\<lambda>p. p \<noteq> locPreviousObject) locParticles)))"

text \<open>The body of the inner loop of the N-1 to N extension (lines 1407-1425).\<close>

definition NParticles_extend_body ::
  "services \<Rightarrow> DSourceComboUse \<Rightarrow> ComboingStage_t \<Rightarrow> Particle_t \<Rightarrow> DSourceCombo \<Rightarrow> int list
     \<Rightarrow> JObject \<Rightarrow> DSourceComboer \<Rightarrow> error + DSourceComboer" where
  "NParticles_extend_body sv locComboUseToCreate locComboingStage locPID locCombo_NMinus1
       locValidRFBunches_NMinus1 locParticle st =
     (let locVertexZBin = fst (snd locComboUseToCreate);
          locIsZIndependent =
            (locComboingStage = d_MixedStage_ZIndependent
             \<or> (dIsComboingZIndependent locCombo_NMinus1
                 \<and> Get_IsComboingZIndependent sv locParticle locPID))
      in if locComboingStage = d_MixedStage \<and> locIsZIndependent then Inr st
         else
           (let locValidRFBunches =
                  (if locPID \<noteq> Gamma then []
                   else Get_CommonRFBunches locValidRFBunches_NMinus1
                          (Get_ValidRFBunches sv locParticle locVertexZBin));
                locCombo =
                  DSourceCombo
                    (Get_SourceParticles locCombo_NMinus1 False @ [(locPID, locParticle)]) []
                    locIsZIndependent
            in case push_back_result st (Get_CombosSoFar sv locComboingStage d_Neutral None)
                      locComboUseToCreate locCombo of
                 Inl e \<Rightarrow> Inl e
               | Inr st1 \<Rightarrow>
                   (case Register_ValidRFBunches sv st1 locComboUseToCreate locCombo
                           locValidRFBunches locComboingStage None of
                      Inl e \<Rightarrow> Inl e
                    | Inr st2 \<Rightarrow>
                        Inr (st2 \<lparr> dResumeSearchAfterMap_Particles :=
                                    (dResumeSearchAfterMap_Particles st2)
                                      (locCombo \<mapsto> locParticle) \<rparr>))))"

text \<open>One (N-1)-combo of the outer loop (lines 1394-1426).\<close>

definition NParticles_extend ::
  "services \<Rightarrow> DSourceComboUse \<Rightarrow> ComboingStage_t \<Rightarrow> Particle_t \<Rightarrow> DSourceCombo
     \<Rightarrow> DSourceComboer \<Rightarrow> error + DSourceComboer" where
  "NParticles_extend sv locComboUseToCreate locComboingStage locPID locCombo_NMinus1 st =
     (let locValidRFBunches_NMinus1 =
            map_value (dValidRFBunches_ByCombo st) locCombo_NMinus1 [];
          st1 = st \<lparr> dValidRFBunches_ByCombo :=
                       map_emplace (dValidRFBunches_ByCombo st) locCombo_NMinus1 [] \<rparr>
      in case Get_ParticlesForComboing sv st1 locPID locComboingStage
                locValidRFBunches_NMinus1 (fst (snd locComboUseToCreate)) of
           Inl e \<Rightarrow> Inl e
         | Inr (locParticles, st2) \<Rightarrow>
             (case Get_ResumeAtIterator_Particles st2 locCombo_NMinus1 locParticles of
                Inl e \<Rightarrow> Inl e
              | Inr rest \<Rightarrow>
                  fold_err
                    (NParticles_extend_body sv locComboUseToCreate locComboingStage locPID
                       locCombo_NMinus1 locValidRFBunches_NMinus1)
                    rest st2))"

text \<open>\<^verbatim>\<open>Combo_Vertically_NParticles\<close> (lines 1335-1428). \<^verbatim>\<open>back()\<close> of an empty vector,
  a null info and \<^verbatim>\<open>std::prev\<close> of the end of an empty vector are undefined.\<close>

definition Combo_Vertically_NParticles ::
  "services \<Rightarrow> DSourceComboUse \<Rightarrow> DSourceComboUse \<Rightarrow> ComboingStage_t \<Rightarrow> DSourceComboer
     \<Rightarrow> error + DSourceComboer" where
  "Combo_Vertically_NParticles sv locComboUseToCreate locNMinus1ComboUse locComboingStage st =
     (case snd (snd locComboUseToCreate) of
        None \<Rightarrow> Inl NullPointerDereference
      | Some locComboInfo \<Rightarrow>
          if dNumParticles (info_objects st ! locComboInfo) = [] then Inl EmptyVectorAccess
          else
            (let (locPID, locNumParticles) = last (dNumParticles (info_objects st ! locComboInfo));
                 locVertexZBin = fst (snd locComboUseToCreate);
                 tbl = Get_CombosSoFar sv locComboingStage d_Neutral None
             in case (if locComboingStage = d_MixedStage
                      then Copy_ZIndependentMixedResults sv st locComboUseToCreate None
                      else Inr (init_results st tbl locComboUseToCreate)) of
                  Inl e \<Rightarrow> Inl e
                | Inr st1 \<Rightarrow>
                    if locNumParticles = 2
                    then (case Get_ParticlesForComboing sv st1 locPID locComboingStage []
                                 locVertexZBin of
                            Inl e \<Rightarrow> Inl e
                          | Inr (locParticles, st2) \<Rightarrow>
                              if locParticles = [] then Inl PrevOfBegin
                              else NParticles_pairs sv locComboUseToCreate locComboingStage
                                     locPID locParticles st2)
                    else (case vector_of st1 tbl locNMinus1ComboUse of
                            Inl e \<Rightarrow> Inl e
                          | Inr a \<Rightarrow>
                              fold_err
                                (NParticles_extend sv locComboUseToCreate locComboingStage
                                   locPID)
                                (vector_objects st1 ! a) st1)))"

text \<open>One particle kind of the loop of \<^verbatim>\<open>Combo_Vertically_AllParticles\<close> (lines 1288-1332),
  with the function itself for the call on the N-1 grouping. The counts are
  \<^verbatim>\<open>unsigned char\<close>: N - 1 of the count 0 is stored as 255.\<close>

definition AllParticles_body ::
  "(DSourceComboUse \<Rightarrow> ComboingStage_t \<Rightarrow> DSourceComboer \<Rightarrow> error + DSourceComboer)
     \<Rightarrow> services \<Rightarrow> DSourceComboUse \<Rightarrow> ComboingStage_t \<Rightarrow> (Particle_t \<times> nat) list
     \<Rightarrow> (DSourceComboUse \<times> nat) list \<Rightarrow> Particle_t \<times> nat \<Rightarrow> DSourceComboer
     \<Rightarrow> error + DSourceComboer" where
  "AllParticles_body self sv locComboUseToCreate locComboingStage locNumParticlesNeeded
       locFurtherDecays locParticlePair st =
     (let (locPID, locNumPIDNeeded) = locParticlePair;
          locVertexZBin = fst (snd locComboUseToCreate);
          tbl = Get_CombosSoFar sv locComboingStage d_Neutral None
      in if locNumPIDNeeded = 1 then Inr st
         else if locComboingStage = d_ChargedStage \<and> ParticleCharge sv locPID = 0 then Inr st
         else
           (let (locNeededGroupingUse, st1) =
                  (if length locNumParticlesNeeded > 1 \<or> locFurtherDecays \<noteq> []
                   then (let (i, st') =
                               GetOrMake_SourceComboInfo sv st [(locPID, locNumPIDNeeded)] []
                         in ((Unknown, locVertexZBin, Some i), st'))
                   else (locComboUseToCreate, st))
            in if dSourceCombosByUse st1 tbl locNeededGroupingUse \<noteq> None then Inr st1
               else if locNumPIDNeeded = 2
               then Combo_Vertically_NParticles sv locNeededGroupingUse (Unknown, ZBin 0, None)
                      locComboingStage st1
               else
                 (let (i1, st2) =
                        GetOrMake_SourceComboInfo sv st1
                          [(locPID, (locNumPIDNeeded + 255) mod 256)] [];
                      locNMinus1ComboUse = (Unknown, locVertexZBin, Some i1)
                  in case (if dSourceCombosByUse st2 tbl locNMinus1ComboUse \<noteq> None
                           then self locNMinus1ComboUse locComboingStage st2
                           else Inr st2) of
                       Inl e \<Rightarrow> Inl e
                     | Inr st3 \<Rightarrow>
                         Combo_Vertically_NParticles sv locNeededGroupingUse
                           locNMinus1ComboUse locComboingStage st3)))"

text \<open>\<^verbatim>\<open>Combo_Vertically_AllParticles\<close> (lines 1277-1333). The recursion is bounded by a
  counter: without it the function need not return.\<close>

fun Combo_Vertically_AllParticles ::
  "nat \<Rightarrow> services \<Rightarrow> DSourceComboUse \<Rightarrow> ComboingStage_t \<Rightarrow> DSourceComboer
     \<Rightarrow> error + DSourceComboer" where
  "Combo_Vertically_AllParticles 0 sv locComboUseToCreate locComboingStage st = Inl OutOfFuel"
| "Combo_Vertically_AllParticles (Suc fuel) sv locComboUseToCreate locComboingStage st =
     (case snd (snd locComboUseToCreate) of
        None \<Rightarrow> Inl NullPointerDereference
      | Some locComboInfo \<Rightarrow>
          fold_err
            (AllParticles_body (Combo_Vertically_AllParticles fuel sv) sv locComboUseToCreate
               locComboingStage (dNumParticles (info_objects st ! locComboInfo))
               (dFurtherDecays (info_objects st ! locComboInfo)))
            (dNumParticles (info_objects st ! locComboInfo)) st)"

section \<open>Horizontal comboing\<close>

text \<open>The combos of the all-but-1 use the two horizontal functions loop over: the vector
  the table holds, or the local vector that holds the charged combo (a null pointer there is
  dereferenced by the first turn of the loop).\<close>

definition AllBut1_combos ::
  "DSourceComboer \<Rightarrow> bool \<Rightarrow> nat \<Rightarrow> DSourceComboUse \<Rightarrow> DSourceCombo option
     \<Rightarrow> error + DSourceCombo list" where
  "AllBut1_combos st locGetFromSoFarFlag tbl locAllBut1ComboUse locChargedCombo_WithNow =
     (if locGetFromSoFarFlag
      then (case vector_of st tbl locAllBut1ComboUse of
              Inl e \<Rightarrow> Inl e
            | Inr a \<Rightarrow> Inr (vector_objects st ! a))
      else (case locChargedCombo_WithNow of
              None \<Rightarrow> Inl NullPointerDereference
            | Some c \<Rightarrow> Inr [c]))"

text \<open>The body of the inner loop of \<^verbatim>\<open>Combo_Horizontally_AddParticle\<close> (lines 1896-1916).\<close>

definition AddParticle_body ::
  "services \<Rightarrow> DSourceComboUse \<Rightarrow> ComboingStage_t \<Rightarrow> Particle_t \<Rightarrow> DSourceCombo
     \<Rightarrow> JObject list \<Rightarrow> int list \<Rightarrow> JObject \<Rightarrow> DSourceComboer \<Rightarrow> error + DSourceComboer" where
  "AddParticle_body sv locComboUseToCreate locComboingStage locPID locCombo_AllBut1
       locUsedParticles_AllBut1 locValidRFBunches_AllBut1 locParticle st =
     (let locIsZIndependent =
            (locComboingStage = d_MixedStage_ZIndependent
             \<or> (dIsComboingZIndependent locCombo_AllBut1
                 \<and> Get_IsComboingZIndependent sv locParticle locPID))
      in if locComboingStage = d_MixedStage \<and> locIsZIndependent then Inr st
         else if std_binary_search (<) locUsedParticles_AllBut1 locParticle then Inr st
         else
           (let locValidRFBunches =
                  (if locPID \<noteq> Gamma then locValidRFBunches_AllBut1
                   else Get_CommonRFBunches locValidRFBunches_AllBut1
                          (Get_ValidRFBunches sv locParticle (fst (snd locComboUseToCreate))));
                locCombo =
                  DSourceCombo
                    (Get_SourceParticles locCombo_AllBut1 True @ [(locPID, locParticle)])
                    (dFurtherDecayCombos locCombo_AllBut1) locIsZIndependent
            in case push_back_result st (Get_CombosSoFar sv locComboingStage d_Neutral None)
                      locComboUseToCreate locCombo of
                 Inl e \<Rightarrow> Inl e
               | Inr st1 \<Rightarrow>
                   Register_ValidRFBunches sv st1 locComboUseToCreate locCombo
                     locValidRFBunches locComboingStage None))"

text \<open>One all-but-1 combo of the outer loop (lines 1875-1918).\<close>

definition AddParticle_outer ::
  "services \<Rightarrow> DSourceComboUse \<Rightarrow> ComboingStage_t \<Rightarrow> Particle_t \<Rightarrow> DSourceCombo
     \<Rightarrow> DSourceComboer \<Rightarrow> error + DSourceComboer" where
  "AddParticle_outer sv locComboUseToCreate locComboingStage locPID locCombo_AllBut1 st =
     (let locUsedParticles_AllBut1 =
            sort (DAnalysis_Get_SourceParticles (Get_SourceParticles locCombo_AllBut1 True)
                    locPID);
          locValidRFBunches_AllBut1 =
            map_value (dValidRFBunches_ByCombo st) locCombo_AllBut1 [];
          st1 = st \<lparr> dValidRFBunches_ByCombo :=
                       map_emplace (dValidRFBunches_ByCombo st) locCombo_AllBut1 [] \<rparr>
      in case Get_ParticlesForComboing sv st1 locPID locComboingStage
                locValidRFBunches_AllBut1 (fst (snd locComboUseToCreate)) of
           Inl e \<Rightarrow> Inl e
         | Inr (locParticles, st2) \<Rightarrow>
             fold_err
               (AddParticle_body sv locComboUseToCreate locComboingStage locPID
                  locCombo_AllBut1 locUsedParticles_AllBut1 locValidRFBunches_AllBut1)
               locParticles st2)"

text \<open>\<^verbatim>\<open>Combo_Horizontally_AddParticle\<close> (lines 1843-1919).\<close>

definition Combo_Horizontally_AddParticle ::
  "services \<Rightarrow> DSourceComboer \<Rightarrow> DSourceComboUse \<Rightarrow> DSourceComboUse \<Rightarrow> Particle_t
     \<Rightarrow> ComboingStage_t \<Rightarrow> DSourceCombo option \<Rightarrow> error + DSourceComboer" where
  "Combo_Horizontally_AddParticle sv st locComboUseToCreate locAllBut1ComboUse locPID
       locComboingStage locChargedCombo_Presiding =
     (let tbl = Get_CombosSoFar sv locComboingStage d_Neutral None;
          locChargedCombo_WithNow = Get_ChargedCombo_WithNow sv locChargedCombo_Presiding;
          locChargeContent_AllBut1 = dComboInfoChargeContent st (snd (snd locAllBut1ComboUse));
          locGetFromSoFarFlag =
            (locComboingStage = d_ChargedStage \<or> locChargeContent_AllBut1 \<noteq> d_Charged);
          st0 = (if locGetFromSoFarFlag then table_emplace st tbl locAllBut1ComboUse None
                 else st)
      in if locComboingStage = d_ChargedStage \<and> ParticleCharge sv locPID = 0
         then Inr (st0 \<lparr> dSourceCombosByUse := (dSourceCombosByUse st0)
                           (tbl := (dSourceCombosByUse st0 tbl)
                              (locComboUseToCreate :=
                                 dSourceCombosByUse st0 tbl locAllBut1ComboUse)) \<rparr>)
         else
           (case (if locComboingStage = d_MixedStage
                  then Copy_ZIndependentMixedResults sv st0 locComboUseToCreate None
                  else Inr (init_results st0 tbl locComboUseToCreate)) of
              Inl e \<Rightarrow> Inl e
            | Inr st1 \<Rightarrow>
                (case AllBut1_combos st1 locGetFromSoFarFlag tbl locAllBut1ComboUse
                        locChargedCombo_WithNow of
                   Inl e \<Rightarrow> Inl e
                 | Inr locCombos_AllBut1 \<Rightarrow>
                     fold_err
                       (AddParticle_outer sv locComboUseToCreate locComboingStage locPID)
                       locCombos_AllBut1 st1)))"

text \<open>The members of the combo \<^verbatim>\<open>Combo_Horizontally_AddCombo\<close> makes of an all-but-1 combo
  and a combo to add (lines 1788-1834): expanding the all-but-1 combo (with or without
  promoting the contents of the combo to add), or a new combo that promotes the all-but-1
  combo, promotes the combo to add, or holds the two side by side.\<close>

definition AddCombo_Set_Members ::
  "services \<Rightarrow> DSourceComboUse \<Rightarrow> DSourceComboUse \<Rightarrow> bool \<Rightarrow> bool \<Rightarrow> bool \<Rightarrow> DSourceCombo \<Rightarrow> DSourceCombo
     \<Rightarrow> bool \<Rightarrow> DSourceCombo" where
  "AddCombo_Set_Members sv locAllBut1ComboUse locSourceComboUseToAdd locExpandAllBut1Flag
       locPromoteToAddFlag locPromoteAllBut1Flag locCombo_AllBut1 locDecayCombo_ToAdd
       locIsZIndependent =
     (if locExpandAllBut1Flag
      then (if locPromoteToAddFlag
            then DSourceCombo
                   (Get_SourceParticles locCombo_AllBut1 False
                      @ Get_SourceParticles locDecayCombo_ToAdd False)
                   (combos_insert_range sv (dFurtherDecayCombos locCombo_AllBut1)
                      (dFurtherDecayCombos locDecayCombo_ToAdd))
                   locIsZIndependent
            else DSourceCombo (Get_SourceParticles locCombo_AllBut1 False)
                   (combos_emplace sv (dFurtherDecayCombos locCombo_AllBut1)
                      locSourceComboUseToAdd [locDecayCombo_ToAdd])
                   locIsZIndependent)
      else if locPromoteAllBut1Flag
      then DSourceCombo
             (Get_SourceParticles locDecayCombo_ToAdd False
                @ Get_SourceParticles locCombo_AllBut1 False)
             (combos_insert_range sv (dFurtherDecayCombos locDecayCombo_ToAdd)
                (dFurtherDecayCombos locCombo_AllBut1))
             locIsZIndependent
      else if locPromoteToAddFlag
      then DSourceCombo
             (Get_SourceParticles locCombo_AllBut1 False
                @ Get_SourceParticles locDecayCombo_ToAdd False)
             (combos_insert_range sv (dFurtherDecayCombos locCombo_AllBut1)
                (dFurtherDecayCombos locDecayCombo_ToAdd))
             locIsZIndependent
      else DSourceCombo []
             (combos_emplace sv (combos_emplace sv [] locAllBut1ComboUse [locCombo_AllBut1])
                locSourceComboUseToAdd [locDecayCombo_ToAdd])
             locIsZIndependent)"

text \<open>The body of the loop that combos with the charged combo on a mixed stage
  (lines 1706-1738). The combo made holds the pointer \<^verbatim>\<open>locChargedCombo_WithNow\<close>; the
  model stops where that pointer is null.\<close>

definition AddCombo_charged_body ::
  "services \<Rightarrow> DSourceComboUse \<Rightarrow> DSourceComboUse \<Rightarrow> DSourceComboUse \<Rightarrow> ComboingStage_t
     \<Rightarrow> DSourceCombo option \<Rightarrow> bool \<Rightarrow> nat \<Rightarrow> DSourceCombo \<Rightarrow> DSourceComboer
     \<Rightarrow> error + DSourceComboer" where
  "AddCombo_charged_body sv locComboUseToCreate locAllBut1ComboUse locSourceComboUseToAdd
       locComboingStage locChargedCombo_WithNow locExpandAllBut1Flag tblSave locCombo_AllBut1 st =
     (let locIsZIndependent = dIsComboingZIndependent locCombo_AllBut1
      in if locComboingStage = d_MixedStage \<and> locIsZIndependent then Inr st
         else
           (let locValidRFBunches = map_value (dValidRFBunches_ByCombo st) locCombo_AllBut1 [];
                st1 = st \<lparr> dValidRFBunches_ByCombo :=
                             map_emplace (dValidRFBunches_ByCombo st) locCombo_AllBut1 [] \<rparr>
            in case locChargedCombo_WithNow of
                 None \<Rightarrow> Inl NullPointerDereference
               | Some charged \<Rightarrow>
                   (let locCombo =
                          (if locExpandAllBut1Flag
                           then DSourceCombo (Get_SourceParticles locCombo_AllBut1 False)
                                  (combos_emplace sv (dFurtherDecayCombos locCombo_AllBut1)
                                     locSourceComboUseToAdd [charged])
                                  locIsZIndependent
                           else DSourceCombo []
                                  (combos_emplace sv
                                     (combos_emplace sv [] locAllBut1ComboUse [locCombo_AllBut1])
                                     locSourceComboUseToAdd [charged])
                                  locIsZIndependent)
                    in case push_back_result st1 tblSave locComboUseToCreate locCombo of
                         Inl e \<Rightarrow> Inl e
                       | Inr st2 \<Rightarrow>
                           Register_ValidRFBunches sv st2 locComboUseToCreate locCombo
                             locValidRFBunches locComboingStage locChargedCombo_WithNow)))"

text \<open>The body of the inner loop of the main part (lines 1768-1839).\<close>

definition AddCombo_body ::
  "services \<Rightarrow> DSourceComboUse \<Rightarrow> DSourceComboUse \<Rightarrow> DSourceComboUse \<Rightarrow> ComboingStage_t
     \<Rightarrow> DSourceCombo option \<Rightarrow> bool \<Rightarrow> bool \<Rightarrow> bool \<Rightarrow> nat \<Rightarrow> DSourceCombo \<Rightarrow> JObject list
     \<Rightarrow> int list \<Rightarrow> DSourceCombo \<Rightarrow> DSourceComboer \<Rightarrow> error + DSourceComboer" where
  "AddCombo_body sv locComboUseToCreate locAllBut1ComboUse locSourceComboUseToAdd
       locComboingStage locChargedCombo_WithNow locExpandAllBut1Flag locPromoteToAddFlag
       locPromoteAllBut1Flag tblSave locCombo_AllBut1 locUsedParticles_AllBut1
       locValidRFBunches_AllBut1 locDecayCombo_ToAdd st =
     (let locIsZIndependent =
            (dIsComboingZIndependent locCombo_AllBut1
             \<and> dIsComboingZIndependent locDecayCombo_ToAdd)
      in if locComboingStage = d_MixedStage \<and> locIsZIndependent then Inr st
         else if list_ex (std_binary_search (<) locUsedParticles_AllBut1)
                   (DAnalysis_Get_SourceParticles
                      (Get_SourceParticles locDecayCombo_ToAdd True) Unknown)
         then Inr st
         else
           (let locValidRFBunches =
                  (if locComboingStage \<noteq> d_ChargedStage
                   then Get_CommonRFBunches locValidRFBunches_AllBut1
                          (map_value (dValidRFBunches_ByCombo st) locDecayCombo_ToAdd [])
                   else []);
                st1 = (if locComboingStage \<noteq> d_ChargedStage
                       then st \<lparr> dValidRFBunches_ByCombo :=
                                   map_emplace (dValidRFBunches_ByCombo st)
                                     locDecayCombo_ToAdd [] \<rparr>
                       else st);
                locCombo =
                  AddCombo_Set_Members sv locAllBut1ComboUse locSourceComboUseToAdd
                    locExpandAllBut1Flag locPromoteToAddFlag locPromoteAllBut1Flag
                    locCombo_AllBut1 locDecayCombo_ToAdd locIsZIndependent
            in case push_back_result st1 tblSave locComboUseToCreate locCombo of
                 Inl e \<Rightarrow> Inl e
               | Inr st2 \<Rightarrow>
                   Register_ValidRFBunches sv st2 locComboUseToCreate locCombo
                     locValidRFBunches locComboingStage locChargedCombo_WithNow))"

text \<open>One all-but-1 combo of the outer loop of the main part (lines 1751-1840).\<close>

definition AddCombo_outer ::
  "services \<Rightarrow> DSourceComboUse \<Rightarrow> DSourceComboUse \<Rightarrow> DSourceComboUse \<Rightarrow> ComboingStage_t
     \<Rightarrow> DSourceCombo option \<Rightarrow> DSourceCombo option \<Rightarrow> bool \<Rightarrow> bool \<Rightarrow> bool \<Rightarrow> nat
     \<Rightarrow> DSourceCombo \<Rightarrow> DSourceComboer \<Rightarrow> error + DSourceComboer" where
  "AddCombo_outer sv locComboUseToCreate locAllBut1ComboUse locSourceComboUseToAdd
       locComboingStage locChargedCombo_WithNow locChargedCombo_WithPrevious
       locExpandAllBut1Flag locPromoteToAddFlag locPromoteAllBut1Flag tblSave
       locCombo_AllBut1 st =
     (let locValidRFBunches_AllBut1 =
            map_value (dValidRFBunches_ByCombo st) locCombo_AllBut1 [];
          st1 = st \<lparr> dValidRFBunches_ByCombo :=
                       map_emplace (dValidRFBunches_ByCombo st) locCombo_AllBut1 [] \<rparr>
      in case Get_CombosForComboing sv st1 locSourceComboUseToAdd locComboingStage
                locValidRFBunches_AllBut1 locChargedCombo_WithPrevious of
           Inl e \<Rightarrow> Inl e
         | Inr (locDecayCombos_ToAdd, st2) \<Rightarrow>
             fold_err
               (AddCombo_body sv locComboUseToCreate locAllBut1ComboUse
                  locSourceComboUseToAdd locComboingStage locChargedCombo_WithNow
                  locExpandAllBut1Flag locPromoteToAddFlag locPromoteAllBut1Flag tblSave
                  locCombo_AllBut1
                  (sort (DAnalysis_Get_SourceParticles
                           (Get_SourceParticles locCombo_AllBut1 True) Unknown))
                  locValidRFBunches_AllBut1)
               locDecayCombos_ToAdd st2)"

text \<open>\<^verbatim>\<open>Combo_Horizontally_AddCombo\<close> (lines 1665-1841).\<close>

definition Combo_Horizontally_AddCombo ::
  "services \<Rightarrow> DSourceComboer \<Rightarrow> DSourceComboUse \<Rightarrow> DSourceComboUse \<Rightarrow> DSourceComboUse
     \<Rightarrow> ComboingStage_t \<Rightarrow> DSourceCombo option \<Rightarrow> bool \<Rightarrow> error + DSourceComboer" where
  "Combo_Horizontally_AddCombo sv st locComboUseToCreate locAllBut1ComboUse
       locSourceComboUseToAdd locComboingStage locChargedCombo_Presiding locExpandAllBut1Flag =
     (let locComboInfo_AllBut1 = snd (snd locAllBut1ComboUse);
          locChargeContent_AllBut1 = dComboInfoChargeContent st locComboInfo_AllBut1;
          locChargedCombo_WithNow = Get_ChargedCombo_WithNow sv locChargedCombo_Presiding;
          tblSave = Get_CombosSoFar sv locComboingStage
                      (dComboInfoChargeContent st (snd (snd locComboUseToCreate)))
                      locChargedCombo_WithNow;
          locGetFromSoFarFlag =
            (locComboingStage = d_ChargedStage \<or> locChargeContent_AllBut1 \<noteq> d_Charged);
          tblSoFar = Get_CombosSoFar sv locComboingStage locChargeContent_AllBut1
                       locChargedCombo_WithNow;
          st0 = (if locGetFromSoFarFlag then table_emplace st tblSoFar locAllBut1ComboUse None
                 else st);
          locChargeContent = dComboInfoChargeContent st (snd (snd locSourceComboUseToAdd))
      in if locComboingStage = d_ChargedStage \<and> locChargeContent = d_Neutral
         then Inr (table_emplace st0 tblSave locComboUseToCreate
                     (case dSourceCombosByUse st0 tblSoFar locAllBut1ComboUse of
                        Some ptr \<Rightarrow> ptr | None \<Rightarrow> None))
         else
           (case (if locComboingStage = d_MixedStage
                  then Copy_ZIndependentMixedResults sv st0 locComboUseToCreate
                         locChargedCombo_WithNow
                  else Inr (init_results st0 tblSave locComboUseToCreate)) of
              Inl e \<Rightarrow> Inl e
            | Inr st1 \<Rightarrow>
                (case (if locComboingStage \<noteq> d_ChargedStage \<and> locChargeContent = d_Charged
                       then (case AllBut1_combos st1 locGetFromSoFarFlag tblSoFar
                                    locAllBut1ComboUse locChargedCombo_WithNow of
                               Inl e \<Rightarrow> Inl e
                             | Inr locCombos_AllBut1 \<Rightarrow>
                                 fold_err
                                   (AddCombo_charged_body sv locComboUseToCreate
                                      locAllBut1ComboUse locSourceComboUseToAdd
                                      locComboingStage locChargedCombo_WithNow
                                      locExpandAllBut1Flag tblSave)
                                   locCombos_AllBut1 st1)
                       else Inr st1) of
                   Inl e \<Rightarrow> Inl e
                 | Inr st2 \<Rightarrow>
                     (case Get_PromoteFlag sv st2 (fst locSourceComboUseToAdd)
                             (snd (snd locComboUseToCreate))
                             (snd (snd locSourceComboUseToAdd)) of
                        Inl e \<Rightarrow> Inl e
                      | Inr locPromoteToAddFlag \<Rightarrow>
                          (case Get_PromoteFlag sv st2 (fst locAllBut1ComboUse)
                                  (snd (snd locComboUseToCreate)) locComboInfo_AllBut1 of
                             Inl e \<Rightarrow> Inl e
                           | Inr locPromoteAllBut1Flag \<Rightarrow>
                               (case Get_Presiding_ChargedCombo sv st2
                                       locChargedCombo_Presiding locSourceComboUseToAdd
                                       locComboingStage 1 of
                                  Inl e \<Rightarrow> Inl e
                                | Inr presiding \<Rightarrow>
                                    (case AllBut1_combos st2 locGetFromSoFarFlag tblSoFar
                                            locAllBut1ComboUse locChargedCombo_WithNow of
                                       Inl e \<Rightarrow> Inl e
                                     | Inr locCombos_AllBut1 \<Rightarrow>
                                         fold_err
                                           (AddCombo_outer sv locComboUseToCreate
                                              locAllBut1ComboUse locSourceComboUseToAdd
                                              locComboingStage locChargedCombo_WithNow
                                              (Get_ChargedCombo_WithNow sv presiding)
                                              locExpandAllBut1Flag locPromoteToAddFlag
                                              locPromoteAllBut1Flag tblSave)
                                           locCombos_AllBut1 st2)))))))"

section \<open>Combos of a use with a decaying particle\<close>

text \<open>\<^verbatim>\<open>(*locCombosByBeamBunch)[key].push_back(combo)\<close>.\<close>

definition beam_bunch_push_back ::
  "nat \<Rightarrow> DSourceComboUse \<Rightarrow> DSourceCombo \<Rightarrow> DSourceComboer \<Rightarrow> int list \<Rightarrow> DSourceComboer" where
  "beam_bunch_push_back bbtbl use combo st key =
     st \<lparr> dSourceCombosByBeamBunchByUse := (dSourceCombosByBeamBunchByUse st)
            (bbtbl := (dSourceCombosByBeamBunchByUse st bbtbl)
               (use := (dSourceCombosByBeamBunchByUse st bbtbl use)
                  (key \<mapsto> map_value (dSourceCombosByBeamBunchByUse st bbtbl use) key []
                            @ [combo]))) \<rparr>"

text \<open>The body of the loop that places the invariant mass cut (lines 1034-1050).\<close>

definition Create_SourceCombos_cut_body ::
  "services \<Rightarrow> DSourceComboUse \<Rightarrow> ComboingStage_t \<Rightarrow> nat \<Rightarrow> nat \<Rightarrow> DSourceCombo
     \<Rightarrow> DSourceComboer \<Rightarrow> error + DSourceComboer" where
  "Create_SourceCombos_cut_body sv locComboUseToCreate locComboingStage tbl bbtbl
       locSourceCombo st =
     (if \<not> Cut_InvariantMass_NoMassiveNeutrals sv locSourceCombo (fst locComboUseToCreate)
             (fst (snd locComboUseToCreate))
      then Inr st
      else case push_back_result st tbl locComboUseToCreate locSourceCombo of
        Inl e \<Rightarrow> Inl e
      | Inr st1 \<Rightarrow>
          if locComboingStage = d_ChargedStage then Inr st1
          else
            (let locBeamBunches = map_value (dValidRFBunches_ByCombo st1) locSourceCombo [];
                 st2 = st1 \<lparr> dValidRFBunches_ByCombo :=
                               map_emplace (dValidRFBunches_ByCombo st1) locSourceCombo [] \<rparr>
             in Inr (foldl (beam_bunch_push_back bbtbl locComboUseToCreate locSourceCombo) st2
                       (if locBeamBunches = [] then [[]]
                        else map (\<lambda>b. [b]) locBeamBunches))))"

text \<open>The branch for an unknown vertex-z bin on the all-showers stage (lines 1004-1027):
  the combos of the unknown-decay use that come after the FCAL-only ones are appended, in the
  vector and for every bunch key of the unknown-decay use. An offset past the end of a vector
  of one bunch key is read as its end.\<close>

definition Create_SourceCombos_unknown_zbin ::
  "DSourceComboer \<Rightarrow> DSourceComboUse \<Rightarrow> DSourceComboUse \<Rightarrow> nat \<Rightarrow> nat \<Rightarrow> nat option
     \<Rightarrow> error + DSourceComboer" where
  "Create_SourceCombos_unknown_zbin st locComboUseToCreate locUnknownComboUse tbl bbtbl
       locSourceCombos =
     (let locComboUseFCAL = (Unknown, ZIndependent, snd (snd locComboUseToCreate))
      in case vector_of st tbl locComboUseFCAL of
           Inl e \<Rightarrow> Inl e
         | Inr fcal \<Rightarrow>
             (case vector_of st tbl locComboUseToCreate of
                Inl e \<Rightarrow> Inl e
              | Inr both \<Rightarrow>
                  (case locSourceCombos of
                     None \<Rightarrow> Inl NullPointerDereference
                   | Some src \<Rightarrow>
                       if length (vector_objects st ! fcal) > length (vector_objects st ! src)
                       then Inl OutOfRange
                       else
                         (let bb = dSourceCombosByBeamBunchByUse st bbtbl;
                              bb_fcal = bb locComboUseFCAL;
                              bb_both = bb locComboUseToCreate;
                              bb_unknown = bb locUnknownComboUse
                          in Inr (st \<lparr> vector_objects := (vector_objects st)
                                          [both := vector_objects st ! both
                                             @ drop (length (vector_objects st ! fcal))
                                                 (vector_objects st ! src)],
                                        dSourceCombosByBeamBunchByUse :=
                                          (dSourceCombosByBeamBunchByUse st)
                                            (bbtbl := bb
                                               (locComboUseFCAL :=
                                                  (\<lambda>rf. case bb_unknown rf of
                                                         None \<Rightarrow> bb_fcal rf
                                                       | Some combos \<Rightarrow>
                                                           Some (map_value bb_fcal rf [])),
                                                locComboUseToCreate :=
                                                  (\<lambda>rf. case bb_unknown rf of
                                                         None \<Rightarrow> bb_both rf
                                                       | Some combos \<Rightarrow>
                                                           Some (map_value bb_both rf []
                                                                 @ drop (length
                                                                     (map_value bb_fcal rf []))
                                                                     combos)))) \<rparr>)))))"

text \<open>\<^verbatim>\<open>Create_SourceCombos\<close> (lines 948-1051). \<^verbatim>\<open>Create_SourceCombos_Unknown\<close>, which
  runs the whole vertical and horizontal comboing, is the first argument. The loop over the
  combos of the unknown-decay use reads the vector as it is when the loop starts.\<close>

definition Create_SourceCombos ::
  "(DSourceComboUse \<Rightarrow> ComboingStage_t \<Rightarrow> DSourceCombo option \<Rightarrow> DSourceComboer
      \<Rightarrow> error + DSourceComboer)
     \<Rightarrow> services \<Rightarrow> DSourceComboUse \<Rightarrow> ComboingStage_t \<Rightarrow> DSourceCombo option
     \<Rightarrow> DSourceComboer \<Rightarrow> error + DSourceComboer" where
  "Create_SourceCombos Create_SourceCombos_Unknown sv locComboUseToCreate locComboingStage
       locChargedCombo_Presiding st =
     (let locDecayPID = fst locComboUseToCreate;
          locVertexZBin = fst (snd locComboUseToCreate);
          locSourceComboInfo = snd (snd locComboUseToCreate);
          locUnknownComboUse = (Unknown, locVertexZBin, locSourceComboInfo)
      in case Create_SourceCombos_Unknown locUnknownComboUse locComboingStage
                locChargedCombo_Presiding st of
           Inl e \<Rightarrow> Inl e
         | Inr st1 \<Rightarrow>
             if locDecayPID = Unknown then Inr st1
             else
               (let locChargedCombo_WithNow =
                      Get_ChargedCombo_WithNow sv locChargedCombo_Presiding;
                    locInfoChargeContent = dComboInfoChargeContent st1 locSourceComboInfo;
                    tbl = Get_CombosSoFar sv locComboingStage locInfoChargeContent
                            locChargedCombo_WithNow;
                    bbtbl = Get_SourceCombosByBeamBunchByUse sv locInfoChargeContent
                              locChargedCombo_WithNow;
                    st2 = table_emplace st1 tbl locUnknownComboUse None;
                    locSourceCombos =
                      (case dSourceCombosByUse st2 tbl locUnknownComboUse of
                         Some ptr \<Rightarrow> ptr | None \<Rightarrow> None)
                in if locComboingStage = d_ChargedStage \<and> locInfoChargeContent \<noteq> d_Charged
                   then Inr (table_emplace st2 tbl locComboUseToCreate locSourceCombos)
                   else if Get_HasMassiveNeutrals sv (info_objects st2) locSourceComboInfo
                   then (if locComboingStage = d_ChargedStage then Inl NullPointerDereference
                         else
                           (let st3 = table_emplace st2 tbl locComboUseToCreate locSourceCombos
                            in Inr (st3 \<lparr> dSourceCombosByBeamBunchByUse :=
                                           (dSourceCombosByBeamBunchByUse st3)
                                             (bbtbl := (dSourceCombosByBeamBunchByUse st3 bbtbl)
                                                (locComboUseToCreate :=
                                                   dSourceCombosByBeamBunchByUse st3 bbtbl
                                                     locUnknownComboUse)) \<rparr>)))
                   else
                     (case (if locComboingStage = d_MixedStage
                            then Copy_ZIndependentMixedResults sv st2 locComboUseToCreate
                                   locChargedCombo_WithNow
                            else Inr (init_results st2 tbl locComboUseToCreate)) of
                        Inl e \<Rightarrow> Inl e
                      | Inr st3 \<Rightarrow>
                          if locComboingStage = d_MixedStage \<and> locVertexZBin = ZUnknown
                          then Create_SourceCombos_unknown_zbin st3 locComboUseToCreate
                                 locUnknownComboUse tbl bbtbl locSourceCombos
                          else
                            (let st4 = init_results st3 tbl locComboUseToCreate
                             in case locSourceCombos of
                                  None \<Rightarrow> Inl NullPointerDereference
                                | Some src \<Rightarrow>
                                    fold_err
                                      (Create_SourceCombos_cut_body sv locComboUseToCreate
                                         locComboingStage tbl bbtbl)
                                      (vector_objects st4 ! src) st4))))"

section \<open>Vertical comboing of decays\<close>

text \<open>One decay of the loop of \<^verbatim>\<open>Combo_Vertically_AllDecays\<close> (lines 1104-1161).
  \<^verbatim>\<open>Create_SourceCombos\<close>, \<^verbatim>\<open>Combo_Vertically_NDecays\<close> and the function itself (for the
  call on the N-1 grouping) are arguments.\<close>

definition AllDecays_body ::
  "(DSourceComboUse \<Rightarrow> ComboingStage_t \<Rightarrow> DSourceCombo option \<Rightarrow> DSourceComboer
      \<Rightarrow> error + DSourceComboer)
     \<Rightarrow> (DSourceComboUse \<Rightarrow> DSourceComboUse \<Rightarrow> DSourceComboUse \<Rightarrow> ComboingStage_t
          \<Rightarrow> DSourceCombo option \<Rightarrow> DSourceComboer \<Rightarrow> error + DSourceComboer)
     \<Rightarrow> (DSourceComboUse \<Rightarrow> ComboingStage_t \<Rightarrow> DSourceCombo option \<Rightarrow> DSourceComboer
          \<Rightarrow> error + DSourceComboer)
     \<Rightarrow> services \<Rightarrow> DSourceComboUse \<Rightarrow> ComboingStage_t \<Rightarrow> DSourceCombo option \<Rightarrow> nat
     \<Rightarrow> (Particle_t \<times> nat) list \<Rightarrow> (DSourceComboUse \<times> nat) list
     \<Rightarrow> DSourceComboUse \<times> nat \<Rightarrow> DSourceComboer \<Rightarrow> error + DSourceComboer" where
  "AllDecays_body Create_SourceCombos_fn Combo_Vertically_NDecays_fn self sv
       locComboUseToCreate locComboingStage locChargedCombo_Presiding tbl
       locNumParticlesNeeded locFurtherDecays locFurtherDecayPair st =
     (let (locSourceComboDecayUse, locNumDecaysNeeded) = locFurtherDecayPair;
          locChargedCombo_WithNow = Get_ChargedCombo_WithNow sv locChargedCombo_Presiding;
          locVertexZBin = fst (snd locComboUseToCreate);
          locDecayChargeContent =
            dComboInfoChargeContent st (snd (snd locSourceComboDecayUse))
      in if locComboingStage = d_ChargedStage \<and> locDecayChargeContent = d_Neutral then Inr st
         else if locNumDecaysNeeded = 1
         then (if locComboingStage \<noteq> d_ChargedStage \<and> locDecayChargeContent = d_Charged
               then Inr st
               else if dSourceCombosByUse st tbl locSourceComboDecayUse \<noteq> None
               then (case Get_Presiding_ChargedCombo sv st locChargedCombo_Presiding
                             locSourceComboDecayUse locComboingStage 1 of
                       Inl e \<Rightarrow> Inl e
                     | Inr locChargedCombo_NextPresiding \<Rightarrow>
                         Create_SourceCombos_fn locSourceComboDecayUse locComboingStage
                           locChargedCombo_NextPresiding st)
               else Inr st)
         else
           (let (locNeededGroupingUse, st1) =
                  (if length locFurtherDecays > 1 \<or> locNumParticlesNeeded \<noteq> []
                   then (let (i, st') =
                               GetOrMake_SourceComboInfo sv st []
                                 [(locSourceComboDecayUse, locNumDecaysNeeded)]
                         in ((Unknown, locVertexZBin, Some i), st'))
                   else (locComboUseToCreate, st))
            in if dSourceCombosByUse st1 tbl locNeededGroupingUse \<noteq> None then Inr st1
               else
                 (let (locNMinus1ComboUse, st2) =
                        (if locNumDecaysNeeded > 2
                         then (let (i, st') =
                                     GetOrMake_SourceComboInfo sv st1 []
                                       [(locSourceComboDecayUse, locNumDecaysNeeded - 1)]
                               in ((Unknown, locVertexZBin, Some i), st'))
                         else (locSourceComboDecayUse, st1))
                  in case (if dSourceCombosByUse st2 tbl locNMinus1ComboUse = None
                           then self locNMinus1ComboUse locComboingStage
                                  locChargedCombo_WithNow st2
                           else Inr st2) of
                       Inl e \<Rightarrow> Inl e
                     | Inr st3 \<Rightarrow>
                         Combo_Vertically_NDecays_fn locNeededGroupingUse locNMinus1ComboUse
                           locSourceComboDecayUse locComboingStage locChargedCombo_WithNow
                           st3)))"

text \<open>\<^verbatim>\<open>Combo_Vertically_AllDecays\<close> (lines 1090-1162), the recursion bounded by a
  counter.\<close>

fun Combo_Vertically_AllDecays ::
  "nat
     \<Rightarrow> (DSourceComboUse \<Rightarrow> ComboingStage_t \<Rightarrow> DSourceCombo option \<Rightarrow> DSourceComboer
          \<Rightarrow> error + DSourceComboer)
     \<Rightarrow> (DSourceComboUse \<Rightarrow> DSourceComboUse \<Rightarrow> DSourceComboUse \<Rightarrow> ComboingStage_t
          \<Rightarrow> DSourceCombo option \<Rightarrow> DSourceComboer \<Rightarrow> error + DSourceComboer)
     \<Rightarrow> services \<Rightarrow> DSourceComboUse \<Rightarrow> ComboingStage_t \<Rightarrow> DSourceCombo option
     \<Rightarrow> DSourceComboer \<Rightarrow> error + DSourceComboer" where
  "Combo_Vertically_AllDecays 0 Create_SourceCombos_fn Combo_Vertically_NDecays_fn sv
       locComboUseToCreate locComboingStage locChargedCombo_Presiding st = Inl OutOfFuel"
| "Combo_Vertically_AllDecays (Suc fuel) Create_SourceCombos_fn Combo_Vertically_NDecays_fn sv
       locComboUseToCreate locComboingStage locChargedCombo_Presiding st =
     (case snd (snd locComboUseToCreate) of
        None \<Rightarrow> Inl NullPointerDereference
      | Some locComboInfo \<Rightarrow>
          fold_err
            (AllDecays_body Create_SourceCombos_fn Combo_Vertically_NDecays_fn
               (Combo_Vertically_AllDecays fuel Create_SourceCombos_fn
                  Combo_Vertically_NDecays_fn sv)
               sv locComboUseToCreate locComboingStage locChargedCombo_Presiding
               (Get_CombosSoFar sv locComboingStage
                  (dComboInfoChargeContent st (Some locComboInfo))
                  (Get_ChargedCombo_WithNow sv locChargedCombo_Presiding))
               (dNumParticles (info_objects st ! locComboInfo))
               (dFurtherDecays (info_objects st ! locComboInfo)))
            (dFurtherDecays (info_objects st ! locComboInfo)) st)"

section \<open>Notions for the properties\<close>

text \<open>The combos a table holds for a use, when the pointer is not null.\<close>

definition stored_combos :: "DSourceComboer \<Rightarrow> nat \<Rightarrow> DSourceComboUse \<Rightarrow> DSourceCombo list option" where
  "stored_combos st tbl use =
     (case vector_of st tbl use of Inl e \<Rightarrow> None | Inr a \<Rightarrow> Some (vector_objects st ! a))"

text \<open>What the bookkeeping of bunches and resume iterators leaves alone.\<close>

definition same_results :: "DSourceComboer \<Rightarrow> DSourceComboer \<Rightarrow> bool" where
  "same_results st st' =
     (vector_objects st' = vector_objects st
      \<and> dSourceCombosByUse st' = dSourceCombosByUse st
      \<and> dComboInfoChargeContent st' = dComboInfoChargeContent st
      \<and> info_objects st' = info_objects st
      \<and> dTracksByPID st' = dTracksByPID st)"

text \<open>All pairs of a list, first member before second, in lexicographic order of the
  positions.\<close>

fun all_pairs :: "'a list \<Rightarrow> ('a \<times> 'a) list" where
  "all_pairs [] = []"
| "all_pairs (p # ps) = map (Pair p) ps @ all_pairs ps"

text \<open>The combo the size-2 branch makes of a pair, or none when the pair is skipped.\<close>

definition NParticles_pair_combos ::
  "services \<Rightarrow> DSourceComboUse \<Rightarrow> ComboingStage_t \<Rightarrow> Particle_t \<Rightarrow> JObject \<times> JObject
     \<Rightarrow> DSourceCombo list" where
  "NParticles_pair_combos sv use stage pid pq =
     (let z = (stage = d_MixedStage_ZIndependent
               \<or> (Get_IsComboingZIndependent sv (fst pq) pid
                   \<and> Get_IsComboingZIndependent sv (snd pq) pid))
      in if stage = d_MixedStage \<and> z then []
         else if pid = Gamma
                 \<and> Get_CommonRFBunches (Get_ValidRFBunches sv (fst pq) (fst (snd use)))
                      (Get_ValidRFBunches sv (snd pq) (fst (snd use))) = []
         then []
         else [DSourceCombo [(pid, fst pq), (pid, snd pq)] [] z])"

text \<open>The content of a request for an info.\<close>

definition info_of :: "(Particle_t \<times> nat) list \<times> (DSourceComboUse \<times> nat) list \<Rightarrow> DSourceComboInfo" where
  "info_of r = \<lparr> dNumParticles = fst r, dFurtherDecays = snd r \<rparr>"

text \<open>A sequence of requests to one of the two functions, each on the state the one before
  left: the pointers returned, in order, and the last state.\<close>

fun requests_in_turn ::
  "(DSourceComboer \<Rightarrow> (Particle_t \<times> nat) list \<Rightarrow> (DSourceComboUse \<times> nat) list
      \<Rightarrow> nat \<times> DSourceComboer)
     \<Rightarrow> DSourceComboer \<Rightarrow> ((Particle_t \<times> nat) list \<times> (DSourceComboUse \<times> nat) list) list
     \<Rightarrow> nat list \<times> DSourceComboer" where
  "requests_in_turn f st [] = ([], st)"
| "requests_in_turn f st (r # rs) =
     (case f st (fst r) (snd r) of
        (p, st1) \<Rightarrow> (case requests_in_turn f st1 rs of (ps, st2) \<Rightarrow> (p # ps, st2)))"

text \<open>What one request leaves: the pointer returned is registered and designates the
  content asked for, a pointer registered before with that content is the one returned and
  then nothing changes, objects made before and pointers registered before stay.\<close>

definition interned ::
  "(DSourceComboer \<Rightarrow> nat list) \<Rightarrow> services \<Rightarrow> DSourceComboer \<Rightarrow> DSourceComboInfo
     \<Rightarrow> nat \<times> DSourceComboer \<Rightarrow> bool" where
  "interned reg sv st v r =
     (case r of (p, st') \<Rightarrow>
        p \<in> set (reg st') \<and> p < length (info_objects st') \<and> info_objects st' ! p = v
        \<and> (\<exists>ext. info_objects st' = info_objects st @ ext \<and> set ext \<subseteq> {v})
        \<and> set (reg st) \<subseteq> set (reg st')
        \<and> registry_ok sv st'
        \<and> (\<forall>q\<in>set (reg st). info_objects st ! q = v \<longrightarrow> p = q \<and> st' = st))"

section \<open>Example events\<close>

text \<open>The kinds of particles in the order of their declaration above.\<close>

fun Particle_rank :: "Particle_t \<Rightarrow> nat" where
  "Particle_rank Unknown = 0"
| "Particle_rank Gamma = 1"
| "Particle_rank PiPlus = 2"
| "Particle_rank PiMinus = 3"
| "Particle_rank KPlus = 4"
| "Particle_rank KMinus = 5"
| "Particle_rank Proton = 6"
| "Particle_rank Neutron = 7"
| "Particle_rank KLong = 8"
| "Particle_rank Pi0 = 9"
| "Particle_rank Eta = 10"

text \<open>The place of the info of a use among the info objects, 0 for the null pointer.\<close>

definition info_rank :: "DSourceComboUse \<Rightarrow> nat" where
  "info_rank use = (case snd (snd use) of None \<Rightarrow> 0 | Some i \<Rightarrow> Suc i)"

text \<open>The electric charges of the kinds of particles, in units of the elementary charge.\<close>

definition example_charge :: "Particle_t \<Rightarrow> int" where
  "example_charge p =
     (if p \<in> {PiPlus, KPlus, Proton} then 1 else if p \<in> {PiMinus, KMinus} then - 1 else 0)"

text \<open>Collaborators for the examples: the electric charges of the particle kinds, infos
  compared by their number of particles (a strict total order on the infos the examples
  meet), the charge content of a new info read off its particles (the new infos of the
  examples have no decays) and no massive neutral in it, the charged stage in table 0 and the
  mixed stages in table 1, no charged combo, every particle vertex-z independent, no cut.
  Pairs of a kind and a number are compared by the kind, then the number; pairs of a use and
  a number by the info of the use, then the number (the uses of one example have different
  infos). No example compares two combos.\<close>

definition example_services :: services where
  "example_services =
     \<lparr> ParticleCharge = example_charge,
       DCompare_SourceComboInfos =
         (\<lambda>a b. sum_list (map snd (dNumParticles a)) < sum_list (map snd (dNumParticles b))),
       Get_ChargeContent =
         (\<lambda>h p. case p of
                  None \<Rightarrow> d_Neutral
                | Some i \<Rightarrow>
                    (let charges = map (example_charge \<circ> fst) (dNumParticles (h ! i))
                     in if list_all (\<lambda>q. q = 0) charges then d_Neutral
                        else if list_all (\<lambda>q. q \<noteq> 0) charges then d_Charged
                        else d_AllCharges)),
       Get_HasMassiveNeutrals = (\<lambda>h p. False),
       Get_ValidRFBunches = (\<lambda>p z. []),
       Get_IsComboingZIndependent = (\<lambda>p q. True),
       Get_CombosSoFar = (\<lambda>s c x. if s = d_ChargedStage then 0 else 1),
       Get_SourceCombosByBeamBunchByUse = (\<lambda>c x. 0),
       Get_ChargedCombo_WithNow = (\<lambda>x. None),
       Get_VertexZBin = (\<lambda>b c. ZUnknown),
       Cut_InvariantMass_NoMassiveNeutrals = (\<lambda>c p z. True),
       less_particle_pair =
         (\<lambda>a b. Particle_rank (fst a) < Particle_rank (fst b)
                \<or> (Particle_rank (fst a) = Particle_rank (fst b) \<and> snd a < snd b)),
       less_decay_pair =
         (\<lambda>a b. info_rank (fst a) < info_rank (fst b)
                \<or> (info_rank (fst a) = info_rank (fst b) \<and> snd a < snd b)),
       less_combo_address = (\<lambda>a b. False) \<rparr>"

text \<open>The state after \<^verbatim>\<open>Reset_NewEvent\<close> of an event without particles, no info
  registered.\<close>

definition new_event :: DSourceComboer where
  "new_event =
     \<lparr> info_objects = [], dSourceComboInfoSet = [], dSourceComboInfos = [],
       dComboInfoChargeContent = (\<lambda>p. d_Neutral), dComboInfosWithMassiveNeutrals = [],
       dTracksByPID = (\<lambda>p. []), dShowersByBeamBunchByZBin = (\<lambda>z. Map.empty),
       vector_objects = [], dSourceCombosByUse = (\<lambda>n. Map.empty),
       dSourceCombosByBeamBunchByUse = (\<lambda>n u. Map.empty), dValidRFBunches_ByCombo = Map.empty,
       dResumeSearchAfterIterators_Combos = (\<lambda>k. Map.empty),
       dResumeSearchAfterMap_Combos = Map.empty, dResumeSearchAfterMap_Particles = Map.empty,
       dZDependentUseToIndependentMap = Map.empty \<rparr>"

text \<open>A registry that holds the info "1 pi+" in the set and in the vector.\<close>

definition event_one_info :: DSourceComboer where
  "event_one_info =
     new_event \<lparr> info_objects := [\<lparr> dNumParticles = [(PiPlus, 1)], dFurtherDecays = [] \<rparr>],
                 dSourceComboInfoSet := [0], dSourceComboInfos := [0] \<rparr>"

text \<open>Requests for "2 photons", "2 photons, 1 proton", "2 photons" again and "1 pi+".\<close>

definition example_requests ::
  "((Particle_t \<times> nat) list \<times> (DSourceComboUse \<times> nat) list) list" where
  "example_requests =
     [([(Gamma, 2)], []), ([(Gamma, 2), (Proton, 1)], []), ([(Gamma, 2)], []), ([(PiPlus, 1)], [])]"

text \<open>Two showers in vertex-z bin 0: shower 10 is valid for bunch 1 only, shower 20 for
  bunch 2 only.\<close>

definition event_two_bunches :: DSourceComboer where
  "event_two_bunches =
     new_event \<lparr> dShowersByBeamBunchByZBin :=
       (\<lambda>z. if z = ZBin 0 then [[1] \<mapsto> [10], [2] \<mapsto> [20]] else Map.empty) \<rparr>"

text \<open>A charged-stage event with one track, 7, that has a pi+ and a proton hypothesis. The
  infos are "pi+" (0) and "pi+, proton" (1); the combo of track 7 as a pi+ is built.\<close>

definition event_one_track :: DSourceComboer where
  "event_one_track =
     new_event \<lparr> info_objects :=
         [\<lparr> dNumParticles = [(PiPlus, 1)], dFurtherDecays = [] \<rparr>,
          \<lparr> dNumParticles = [(PiPlus, 1), (Proton, 1)], dFurtherDecays = [] \<rparr>],
       dComboInfoChargeContent := (\<lambda>p. d_Charged),
       dTracksByPID := (\<lambda>p. if p = PiPlus \<or> p = Proton then [7] else []),
       vector_objects := [[DSourceCombo [(PiPlus, 7)] [] True]],
       dSourceCombosByUse :=
         (\<lambda>n. if n = 0 then [(Unknown, ZIndependent, Some 0) \<mapsto> Some 0] else Map.empty) \<rparr>"

text \<open>An event on the z-independent mixed stage for a use "one photon and one pi0". The
  infos are "2 photons" (0), "1 photon" (1) and "1 photon, 1 pi0" (2). Built so far: the
  combo of photon 10, valid for the bunches -1 and 1, and the pi0 combo of the photons 20 and
  21, valid for bunch 0 only.\<close>

definition combo_photon_10 :: DSourceCombo where
  "combo_photon_10 = DSourceCombo [(Gamma, 10)] [] True"

definition combo_pi0_20_21 :: DSourceCombo where
  "combo_pi0_20_21 = DSourceCombo [(Gamma, 20), (Gamma, 21)] [] True"

definition event_photon_and_pi0 :: DSourceComboer where
  "event_photon_and_pi0 =
     new_event \<lparr> info_objects :=
         [\<lparr> dNumParticles = [(Gamma, 2)], dFurtherDecays = [] \<rparr>,
          \<lparr> dNumParticles = [(Gamma, 1)], dFurtherDecays = [] \<rparr>,
          \<lparr> dNumParticles = [(Gamma, 1)],
            dFurtherDecays = [((Pi0, ZIndependent, Some 0), 1)] \<rparr>],
       vector_objects := [[combo_photon_10], [combo_pi0_20_21]],
       dSourceCombosByUse :=
         (\<lambda>n. if n = 1
              then [(Unknown, ZIndependent, Some 1) \<mapsto> Some 0,
                    (Pi0, ZIndependent, Some 0) \<mapsto> Some 1]
              else Map.empty),
       dSourceCombosByBeamBunchByUse :=
         (\<lambda>n u. if n = 0 \<and> u = (Unknown, ZIndependent, Some 1)
                then [[- 1] \<mapsto> [combo_photon_10], [1] \<mapsto> [combo_photon_10]]
                else if n = 0 \<and> u = (Pi0, ZIndependent, Some 0)
                then [[0] \<mapsto> [combo_pi0_20_21]]
                else Map.empty),
       dValidRFBunches_ByCombo := [combo_photon_10 \<mapsto> [- 1, 1], combo_pi0_20_21 \<mapsto> [0]] \<rparr>"

text \<open>An event on the z-independent mixed stage for a use "one pi0" (info 1) of the pi0 use
  with info "2 photons" (0): first with nothing built, then with the pi0 combos built.\<close>

definition event_pi0_needed :: DSourceComboer where
  "event_pi0_needed =
     new_event \<lparr> info_objects :=
         [\<lparr> dNumParticles = [(Gamma, 2)], dFurtherDecays = [] \<rparr>,
          \<lparr> dNumParticles = [], dFurtherDecays = [((Pi0, ZIndependent, Some 0), 1)] \<rparr>] \<rparr>"

definition event_pi0_built :: DSourceComboer where
  "event_pi0_built =
     event_pi0_needed \<lparr> vector_objects := [[combo_pi0_20_21]],
       dSourceCombosByUse :=
         (\<lambda>n. if n = 1 then [(Pi0, ZIndependent, Some 0) \<mapsto> Some 0] else Map.empty) \<rparr>"

text \<open>A charged-stage event with three pi+ tracks for the use "3 pi+" (info 0).\<close>

definition event_three_pions :: DSourceComboer where
  "event_three_pions =
     new_event \<lparr> info_objects := [\<lparr> dNumParticles = [(PiPlus, 3)], dFurtherDecays = [] \<rparr>],
       dSourceComboInfos := [0],
       dComboInfoChargeContent := (\<lambda>p. d_Charged),
       dTracksByPID := (\<lambda>p. if p = PiPlus then [1, 2, 3] else []) \<rparr>"

text \<open>An event without showers, the grouping of two photons registered as info 0.\<close>

definition event_no_photons :: DSourceComboer where
  "event_no_photons =
     new_event \<lparr> info_objects := [\<lparr> dNumParticles = [(Gamma, 2)], dFurtherDecays = [] \<rparr>],
                 dSourceComboInfoSet := [0],
                 dShowersByBeamBunchByZBin := (\<lambda>z. [[] \<mapsto> []]) \<rparr>"

text \<open>An event with the four showers 1, 2, 3 and 4, all valid for bunch 0.\<close>

definition services_bunch_0 :: services where
  "services_bunch_0 = example_services \<lparr> Get_ValidRFBunches := (\<lambda>p z. [0]) \<rparr>"

definition event_four_photons :: DSourceComboer where
  "event_four_photons =
     new_event \<lparr> info_objects := [\<lparr> dNumParticles = [(Gamma, 2)], dFurtherDecays = [] \<rparr>],
                 dSourceComboInfoSet := [0],
                 dShowersByBeamBunchByZBin := (\<lambda>z. [[] \<mapsto> [1, 2, 3, 4]]) \<rparr>"

text \<open>A charged-stage event for the decay eta -> photon, pi+, pi- (info 0, of all charges):
  the combo of its tracks, pi+ 1 and pi- 2, is built for the unknown-decay use.\<close>

definition combo_pip_1_pim_2 :: DSourceCombo where
  "combo_pip_1_pim_2 = DSourceCombo [(PiPlus, 1), (PiMinus, 2)] [] True"

definition event_eta_tracks :: DSourceComboer where
  "event_eta_tracks =
     new_event \<lparr> info_objects :=
         [\<lparr> dNumParticles = [(Gamma, 1), (PiPlus, 1), (PiMinus, 1)], dFurtherDecays = [] \<rparr>],
       dComboInfoChargeContent := (\<lambda>p. d_AllCharges),
       vector_objects := [[combo_pip_1_pim_2]],
       dSourceCombosByUse :=
         (\<lambda>n. if n = 0 then [(Unknown, ZUnknown, Some 0) \<mapsto> Some 0] else Map.empty) \<rparr>"

text \<open>An invariant mass cut that no combo with track 2 passes.\<close>

definition services_cut :: services where
  "services_cut =
     example_services \<lparr> Cut_InvariantMass_NoMassiveNeutrals :=
       (\<lambda>c p z. 2 \<notin> set (map snd (Get_SourceParticles c True))) \<rparr>"

text \<open>An event on the z-independent mixed stage for the decay pi0 -> 2 photons (info 0): the
  three pairs of the photons 1, 2 and 3 are built for the unknown-decay use.\<close>

definition event_three_pairs :: DSourceComboer where
  "event_three_pairs =
     new_event \<lparr> info_objects := [\<lparr> dNumParticles = [(Gamma, 2)], dFurtherDecays = [] \<rparr>],
       vector_objects :=
         [[DSourceCombo [(Gamma, 1), (Gamma, 2)] [] True,
           DSourceCombo [(Gamma, 1), (Gamma, 3)] [] True,
           DSourceCombo [(Gamma, 2), (Gamma, 3)] [] True]],
       dSourceCombosByUse :=
         (\<lambda>n. if n = 1 then [(Unknown, ZIndependent, Some 0) \<mapsto> Some 0] else Map.empty) \<rparr>"

text \<open>The unknown-decay use is built already: nothing more to build.\<close>

definition already_built ::
  "DSourceComboUse \<Rightarrow> ComboingStage_t \<Rightarrow> DSourceCombo option \<Rightarrow> DSourceComboer
     \<Rightarrow> error + DSourceComboer" where
  "already_built use stage presiding st = Inr st"

text \<open>An event on the z-independent mixed stage for two pi0 and an eta that decays to three
  pi0. The infos are "2 photons" (0), "3 pi0" (1), "2 pi0" (2) and "2 pi0, 1 eta" (3). Built
  so far: one grouping of 2 pi0, of the photons 1 to 4, and one eta, of the photons 5 to 10;
  as \<^verbatim>\<open>Combo_Vertically_NDecays\<close> makes them, both hold their pi0 combos under the pi0
  use.\<close>

definition pi0_use :: DSourceComboUse where
  "pi0_use = (Pi0, ZIndependent, Some 0)"

definition eta_use :: DSourceComboUse where
  "eta_use = (Eta, ZIndependent, Some 1)"

definition combo_two_pi0 :: DSourceCombo where
  "combo_two_pi0 =
     DSourceCombo []
       [(pi0_use, [DSourceCombo [(Gamma, 1), (Gamma, 2)] [] True,
                   DSourceCombo [(Gamma, 3), (Gamma, 4)] [] True])] True"

definition combo_eta_three_pi0 :: DSourceCombo where
  "combo_eta_three_pi0 =
     DSourceCombo []
       [(pi0_use, [DSourceCombo [(Gamma, 5), (Gamma, 6)] [] True,
                   DSourceCombo [(Gamma, 7), (Gamma, 8)] [] True,
                   DSourceCombo [(Gamma, 9), (Gamma, 10)] [] True])] True"

definition event_two_pi0_and_eta :: DSourceComboer where
  "event_two_pi0_and_eta =
     new_event \<lparr> info_objects :=
         [\<lparr> dNumParticles = [(Gamma, 2)], dFurtherDecays = [] \<rparr>,
          \<lparr> dNumParticles = [], dFurtherDecays = [(pi0_use, 3)] \<rparr>,
          \<lparr> dNumParticles = [], dFurtherDecays = [(pi0_use, 2)] \<rparr>,
          \<lparr> dNumParticles = [], dFurtherDecays = [(pi0_use, 2), (eta_use, 1)] \<rparr>],
       vector_objects := [[combo_two_pi0], [combo_eta_three_pi0]],
       dSourceCombosByUse :=
         (\<lambda>n. if n = 1
              then [(Unknown, ZIndependent, Some 2) \<mapsto> Some 0, eta_use \<mapsto> Some 1]
              else Map.empty) \<rparr>"

section \<open>Properties\<close>

subsection \<open>The vertex-z binning\<close>

lemma binning_range_low_edge:
  "binning_range_low c u n = (m, low) \<Longrightarrow> low = c - real m * 10 \<and> n < m"
proof (induction c u n rule: binning_range_low.induct)
  case (1 c u n)
  show ?case
  proof (cases "c - real (n + 1) * 10 + 10 > u")
    case True
    with "1.prems" have "binning_range_low c u (n + 1) = (m, low)"
      by (subst (asm) binning_range_low.simps) simp
    with "1.IH" True show ?thesis
      by fastforce
  next
    case False
    with "1.prems" show ?thesis
      by (subst (asm) binning_range_low.simps) auto
  qed
qed

lemma binning_center_is_edge:
  "\<exists>m::nat. 0 < m \<and>
     dTargetCenterZ (DSourceComboer_binning L) =
       dPhotonVertexZRangeLow (DSourceComboer_binning L)
         + real m * dPhotonVertexZBinWidth (DSourceComboer_binning L)"
proof -
  obtain m low where r: "binning_range_low 65 (65 - L / 2) 0 = (m, low)"
    by (cases "binning_range_low 65 (65 - L / 2) 0") auto
  from binning_range_low_edge [OF r] have "low = 65 - real m * 10" and "0 < m"
    by auto
  with r show ?thesis
    by (auto simp: DSourceComboer_binning_def GetTargetZ_def GetTargetLength_def Let_def
        intro!: exI [of _ m])
qed

text \<open>
  Claim C9. The claim: after construction the target centre coincides with the centre of one of
  the photon vertex-z bins, that is, target centre = range low + (k + 1/2) * bin width for an
  integer k. The constructor sets the range low to the target centre minus a whole number of
  bin widths, so the target centre is always a bin edge and never a bin centre, whatever
  value the target length holds: the comment of the source ("make sure that the center of
  the target is the center of a bin") is not met.
\<close>

theorem C9_target_center_is_never_a_bin_center:
  "\<not> (\<exists>k::int.
        dTargetCenterZ (DSourceComboer_binning L) =
          dPhotonVertexZRangeLow (DSourceComboer_binning L)
            + (of_int k + 1 / 2) * dPhotonVertexZBinWidth (DSourceComboer_binning L))"
proof
  assume "\<exists>k::int.
        dTargetCenterZ (DSourceComboer_binning L) =
          dPhotonVertexZRangeLow (DSourceComboer_binning L)
            + (of_int k + 1 / 2) * dPhotonVertexZBinWidth (DSourceComboer_binning L)"
  then obtain k :: int where k:
    "dTargetCenterZ (DSourceComboer_binning L) =
       dPhotonVertexZRangeLow (DSourceComboer_binning L)
         + (of_int k + 1 / 2) * dPhotonVertexZBinWidth (DSourceComboer_binning L)"
    by blast
  obtain m :: nat where m:
    "dTargetCenterZ (DSourceComboer_binning L) =
       dPhotonVertexZRangeLow (DSourceComboer_binning L)
         + real m * dPhotonVertexZBinWidth (DSourceComboer_binning L)"
    using binning_center_is_edge [of L] by blast
  have w: "dPhotonVertexZBinWidth (DSourceComboer_binning L) = 10"
    by (simp add: DSourceComboer_binning_def Let_def split: prod.splits)
  from k m w have "real m * 10 = (of_int k + 1 / 2) * 10"
    by simp
  then have "real_of_int (2 * int m) = real_of_int (2 * k + 1)"
    by simp
  then have "2 * int m = 2 * k + 1"
    by (simp only: of_int_eq_iff)
  then show False
    by presburger
qed

subsection \<open>Interning of combo infos\<close>

lemma takeWhile_length_mono:
  "(\<And>x. x \<in> set xs \<Longrightarrow> P x \<Longrightarrow> Q x) \<Longrightarrow> length (takeWhile P xs) \<le> length (takeWhile Q xs)"
  by (induction xs) auto

lemma strict_total_order_on_asym:
  "strict_total_order_on A lt \<Longrightarrow> a \<in> A \<Longrightarrow> b \<in> A \<Longrightarrow> lt a b \<Longrightarrow> \<not> lt b a"
  unfolding strict_total_order_on_def by blast

lemma strict_total_order_on_subset:
  "strict_total_order_on A lt \<Longrightarrow> B \<subseteq> A \<Longrightarrow> strict_total_order_on B lt"
  unfolding strict_total_order_on_def by blast

lemma std_lower_le_upper:
  assumes "strict_total_order_on (insert v (set xs)) lt"
  shows "std_lower_bound lt xs v \<le> std_upper_bound lt xs v"
  unfolding std_lower_bound_def std_upper_bound_def
  using strict_total_order_on_asym [OF assms] by (intro takeWhile_length_mono) blast

lemma std_equal_range_found:
  assumes ord: "strict_total_order_on (insert v (set xs)) lt"
    and ne: "std_lower_bound lt xs v \<noteq> std_upper_bound lt xs v"
  shows "std_lower_bound lt xs v < length xs \<and> xs ! std_lower_bound lt xs v = v"
proof -
  let ?l = "std_lower_bound lt xs v" and ?u = "std_upper_bound lt xs v"
  have lu: "?l < ?u"
    using std_lower_le_upper [OF ord] ne by simp
  have ul: "?u \<le> length xs"
    by (simp add: std_upper_bound_def length_takeWhile_le)
  from lu ul have l: "?l < length xs" by simp
  have n1: "\<not> lt (xs ! ?l) v"
    using l nth_length_takeWhile [of "\<lambda>x. lt x v" xs] by (simp add: std_lower_bound_def)
  have "takeWhile (\<lambda>x. \<not> lt v x) xs ! ?l = xs ! ?l"
    using lu by (simp add: std_upper_bound_def takeWhile_nth)
  moreover have "takeWhile (\<lambda>x. \<not> lt v x) xs ! ?l \<in> set (takeWhile (\<lambda>x. \<not> lt v x) xs)"
    using lu by (simp add: std_upper_bound_def)
  ultimately have n2: "\<not> lt v (xs ! ?l)"
    using set_takeWhileD by fastforce
  have "xs ! ?l \<in> insert v (set xs)"
    using l by simp
  with n1 n2 ord have "xs ! ?l = v"
    unfolding strict_total_order_on_def by blast
  with l show ?thesis by simp
qed

lemma sorted_wrt_insert_lower:
  assumes ord: "strict_total_order_on (insert v (set xs)) lt"
    and eq: "std_lower_bound lt xs v = std_upper_bound lt xs v"
    and srt: "sorted_wrt lt xs"
  shows "sorted_wrt lt (take (std_lower_bound lt xs v) xs @ [v] @ drop (std_lower_bound lt xs v) xs)"
proof -
  let ?P = "\<lambda>x. lt x v" and ?Q = "\<lambda>x. \<not> lt v x"
  let ?n = "std_lower_bound lt xs v"
  have t: "take ?n xs = takeWhile ?P xs"
    unfolding std_lower_bound_def by (rule takeWhile_eq_take [symmetric])
  have d: "drop ?n xs = dropWhile ?Q xs"
    unfolding eq std_upper_bound_def by (rule dropWhile_eq_drop [symmetric])
  have below: "\<And>x. x \<in> set (take ?n xs) \<Longrightarrow> lt x v"
    unfolding t by (auto dest: set_takeWhileD)
  have above: "lt v y" if "y \<in> set (drop ?n xs)" for y
  proof (cases "dropWhile ?Q xs")
    case Nil
    with that d show ?thesis by simp
  next
    case (Cons y0 ys)
    have y0: "lt v y0"
      using hd_dropWhile [of ?Q xs] Cons by simp
    have "sorted_wrt lt (drop ?n xs)"
      using srt by (simp add: sorted_wrt_drop)
    with Cons d have ys: "\<forall>y\<in>set ys. lt y0 y" by simp
    have mem: "y0 \<in> set xs" "y \<in> set xs"
      using Cons d that by (metis in_set_dropD list.set_intros(1))+
    show ?thesis
    proof (cases "y = y0")
      case True with y0 show ?thesis by simp
    next
      case False
      with that d Cons have "y \<in> set ys" by simp
      with ys have "lt y0 y" by blast
      with y0 mem ord show ?thesis
        unfolding strict_total_order_on_def by (meson insertCI)
    qed
  qed
  have "sorted_wrt lt (take ?n xs)" "sorted_wrt lt (drop ?n xs)"
    using srt by (simp_all add: sorted_wrt_take sorted_wrt_drop)
  moreover have "\<forall>x\<in>set (take ?n xs). \<forall>y\<in>set (drop ?n xs). lt x y"
    using srt by (metis append_take_drop_id sorted_wrt_append)
  ultimately show ?thesis
    using below above by (auto simp: sorted_wrt_append)
qed

lemma map_nth_append_valid:
  "list_all (\<lambda>p. p < length h) ps \<Longrightarrow> map ((!) (h @ [v])) ps = map ((!) h) ps"
  by (induction ps) (auto simp: nth_append)

lemma distinct_insert_at:
  assumes "distinct xs" and "v \<notin> set xs"
  shows "distinct (take n xs @ [v] @ drop n xs)"
proof -
  have "set (take n xs) \<inter> set (drop n xs) = {}"
    using assms(1) by (rule set_take_disj_set_drop_if_distinct) simp
  then show ?thesis
    using assms by (auto dest: in_set_takeD in_set_dropD)
qed

lemma sorted_wrt_irrefl_distinct:
  "sorted_wrt lt xs \<Longrightarrow> (\<And>x. x \<in> set xs \<Longrightarrow> \<not> lt x x) \<Longrightarrow> distinct xs"
  by (induction xs) auto

lemma set_insert_at: "set (take n xs @ [v] @ drop n xs) = insert v (set xs)"
proof -
  have "set (take n xs) \<union> set (drop n xs) = set xs"
    by (metis append_take_drop_id set_append)
  then show ?thesis by auto
qed

lemma std_equal_range_present:
  assumes ord: "strict_total_order_on (insert v (set xs)) lt"
    and srt: "sorted_wrt lt xs"
    and mem: "v \<in> set xs"
  shows "std_lower_bound lt xs v \<noteq> std_upper_bound lt xs v"
proof -
  from mem obtain ys zs where xs: "xs = ys @ v # zs"
    by (auto dest: split_list)
  have irr: "\<not> lt v v"
    using ord unfolding strict_total_order_on_def by blast
  have below: "\<And>y. y \<in> set ys \<Longrightarrow> lt y v"
    using srt by (simp add: xs sorted_wrt_append)
  have "\<And>y. y \<in> set ys \<Longrightarrow> \<not> lt v y"
    using strict_total_order_on_asym [OF ord] below by (auto simp: xs)
  then have u: "takeWhile (\<lambda>x. \<not> lt v x) xs = ys @ takeWhile (\<lambda>x. \<not> lt v x) (v # zs)"
    by (simp add: xs takeWhile_append2)
  have l: "takeWhile (\<lambda>x. lt x v) xs = ys"
    using below irr by (simp add: xs takeWhile_append2)
  show ?thesis
    using irr by (simp add: std_lower_bound_def std_upper_bound_def l u)
qed

lemma GetOrMake_SourceComboInfo_step:
  assumes ord: "strict_total_order_on (insert v (set (info_objects st)))
                  (DCompare_SourceComboInfos sv)"
    and ok: "registry_ok sv st"
    and v: "v = \<lparr> dNumParticles = np, dFurtherDecays = fd \<rparr>"
  shows "interned dSourceComboInfos sv st v (GetOrMake_SourceComboInfo sv st np fd)"
proof -
  let ?lt = "DCompare_SourceComboInfos sv"
  let ?h = "info_objects st" and ?ps = "dSourceComboInfos st"
  let ?xs = "map ((!) ?h) ?ps"
  let ?n = "std_lower_bound ?lt ?xs v"
  have valid: "list_all (\<lambda>p. p < length ?h) ?ps"
    and valid_set: "list_all (\<lambda>p. p < length ?h) (dSourceComboInfoSet st)"
    and srt: "sorted_wrt ?lt ?xs" and dist: "distinct (map ((!) ?h) (dSourceComboInfoSet st))"
    using ok by (simp_all add: registry_ok_def)
  have sub: "set ?xs \<subseteq> set ?h"
    using valid by (auto simp: list_all_iff)
  have ord': "strict_total_order_on (insert v (set ?xs)) ?lt"
    using strict_total_order_on_subset [OF ord] sub by blast
  have "\<And>x. x \<in> set ?xs \<Longrightarrow> \<not> ?lt x x"
    using ord' unfolding strict_total_order_on_def by blast
  with srt have dxs: "distinct ?xs"
    by (rule sorted_wrt_irrefl_distinct)
  show ?thesis
  proof (cases "?n = std_upper_bound ?lt ?xs v")
    case False
    from std_equal_range_found [OF ord' False]
    have n: "?n < length ?ps" and c: "?xs ! ?n = v" by simp_all
    from n valid have pv: "?ps ! ?n < length ?h"
      by (simp add: list_all_length)
    from c n have cv: "?h ! (?ps ! ?n) = v" by simp
    have uniq: "?ps ! ?n = q" if q: "q \<in> set ?ps" and qc: "?h ! q = v" for q
    proof -
      from q obtain j where j: "j < length ?ps" "?ps ! j = q"
        by (auto simp: in_set_conv_nth)
      then have "?xs ! j = ?xs ! ?n"
        using qc c by simp
      moreover have "j < length ?xs" "?n < length ?xs"
        using j(1) n by simp_all
      ultimately have "j = ?n"
        using dxs by (simp only: nth_eq_iff_index_eq)
      with j show ?thesis by simp
    qed
    have r: "GetOrMake_SourceComboInfo sv st np fd = (?ps ! ?n, st)"
      using False by (simp add: GetOrMake_SourceComboInfo_def Let_def v)
    show ?thesis
      unfolding r interned_def using n pv cv ok uniq by auto
  next
    case True
    let ?p = "length ?h"
    let ?h' = "?h @ [v]"
    let ?ps' = "take ?n ?ps @ [?p] @ drop ?n ?ps"
    have absent: "v \<notin> set ?xs"
      using std_equal_range_present [OF ord' srt] True by blast
    have v1: "list_all (\<lambda>p. p < length ?h) (take ?n ?ps)" "list_all (\<lambda>p. p < length ?h) (drop ?n ?ps)"
      using valid by (auto simp: list_all_iff dest: in_set_takeD in_set_dropD)
    then have xs': "map ((!) ?h') ?ps' = take ?n ?xs @ [v] @ drop ?n ?xs"
      by (simp add: take_map drop_map map_nth_append_valid)
    have srt': "sorted_wrt ?lt (map ((!) ?h') ?ps')"
      unfolding xs' by (rule sorted_wrt_insert_lower [OF ord' True srt])
    have valid': "list_all (\<lambda>p. p < length ?h') ?ps'"
      using v1 by (auto simp: list_all_iff less_SucI)
    have valid_set': "list_all (\<lambda>p. p < length ?h') (dSourceComboInfoSet st)"
      using valid_set by (auto simp: list_all_iff)
    have dist': "distinct (map ((!) ?h') (dSourceComboInfoSet st))"
      using dist valid_set by (simp add: map_nth_append_valid)
    have subset: "set ?ps \<subseteq> set ?ps'"
      by (simp only: set_insert_at) blast
    obtain st' where r: "GetOrMake_SourceComboInfo sv st np fd = (?p, st')"
      and h': "info_objects st' = ?h'" and ps': "dSourceComboInfos st' = ?ps'"
      and set': "dSourceComboInfoSet st' = dSourceComboInfoSet st"
      using True by (simp add: GetOrMake_SourceComboInfo_def Let_def v)
    have ok': "registry_ok sv st'"
      using srt' valid' valid_set' dist' by (simp add: registry_ok_def h' ps' set')
    have none: "\<And>q. q \<in> set ?ps \<Longrightarrow> ?h ! q \<noteq> v"
      using absent by auto
    show ?thesis
      unfolding r interned_def using ok' subset none by (auto simp: h' ps')
  qed
qed

lemma MakeOrGet_SourceComboInfo_step:
  assumes ord: "strict_total_order_on (insert v (set (info_objects st)))
                  (DCompare_SourceComboInfos sv)"
    and ok: "registry_ok sv st"
    and v: "v = \<lparr> dNumParticles = np, dFurtherDecays = fd \<rparr>"
  shows "interned dSourceComboInfoSet sv st v (MakeOrGet_SourceComboInfo sv st np fd)"
proof -
  let ?lt = "DCompare_SourceComboInfos sv"
  let ?h = "info_objects st" and ?ps = "dSourceComboInfoSet st"
  let ?E = "\<lambda>h p. \<not> ?lt (h ! p) v \<and> \<not> ?lt v (h ! p)"
  have valid: "list_all (\<lambda>p. p < length ?h) (dSourceComboInfos st)"
    and valid_set: "list_all (\<lambda>p. p < length ?h) ?ps"
    and srt: "sorted_wrt ?lt (map ((!) ?h) (dSourceComboInfos st))"
    and dist: "distinct (map ((!) ?h) ?ps)"
    using ok by (simp_all add: registry_ok_def)
  have irr: "\<not> ?lt v v"
    using ord unfolding strict_total_order_on_def by blast
  show ?thesis
  proof (cases "find (?E ?h) ?ps")
    case (Some p)
    then have p: "p \<in> set ?ps" and e: "?E ?h p"
      by (auto simp: find_Some_iff)
    from p valid_set have pv: "p < length ?h"
      by (simp add: list_all_iff)
    then have "?h ! p \<in> insert v (set ?h)" by simp
    with e ord have pc: "?h ! p = v"
      unfolding strict_total_order_on_def by blast
    have inj: "inj_on ((!) ?h) (set ?ps)"
      using dist by (simp add: distinct_map)
    have uniq: "\<forall>q\<in>set ?ps. ?h ! q = v \<longrightarrow> p = q \<and> st = st"
    proof (intro ballI impI conjI refl)
      fix q assume q: "q \<in> set ?ps" and qc: "?h ! q = v"
      have "?h ! p = ?h ! q"
        by (simp only: pc qc)
      with inj show "p = q"
        using p q by (rule inj_onD)
    qed
    have r: "MakeOrGet_SourceComboInfo sv st np fd = (p, st)"
      using Some by (simp add: MakeOrGet_SourceComboInfo_def Let_def v)
    have e0: "\<exists>ext. ?h = ?h @ ext \<and> set ext \<subseteq> {v}"
      by (rule exI [of _ "[]"]) simp
    show ?thesis
      unfolding r interned_def prod.case
    proof (intro conjI)
      show "p \<in> set ?ps" by (rule p)
      show "p < length ?h" by (rule pv)
      show "?h ! p = v" by (rule pc)
      show "\<exists>ext. ?h = ?h @ ext \<and> set ext \<subseteq> {v}" by (rule e0)
      show "set ?ps \<subseteq> set ?ps" by (rule subset_refl)
      show "registry_ok sv st" by (rule ok)
      show "\<forall>q\<in>set ?ps. ?h ! q = v \<longrightarrow> p = q \<and> st = st" by (rule uniq)
    qed
  next
    case None
    let ?p = "length ?h"
    let ?h' = "?h @ [v]"
    let ?n = "std_lower_bound ?lt (map ((!) ?h) ?ps) v"
    let ?ps' = "take ?n ?ps @ [?p] @ drop ?n ?ps"
    from None have none: "\<And>q. q \<in> set ?ps \<Longrightarrow> \<not> ?E ?h q"
      by (auto simp: find_None_iff)
    have same: "\<And>q. q \<in> set ?ps \<Longrightarrow> ?h' ! q = ?h ! q"
      using valid_set by (simp add: list_all_iff nth_append)
    have absent: "\<And>q. q \<in> set ?ps \<Longrightarrow> ?h ! q \<noteq> v"
      using none irr by auto
    then have notin: "v \<notin> set (map ((!) ?h) ?ps)"
      by auto
    have "map ((!) ?h') ?ps' = take ?n (map ((!) ?h) ?ps) @ [v] @ drop ?n (map ((!) ?h) ?ps)"
      using same by (auto simp: take_map drop_map dest: in_set_takeD in_set_dropD)
    moreover have "distinct (take ?n (map ((!) ?h) ?ps) @ [v] @ drop ?n (map ((!) ?h) ?ps))"
      using dist notin by (rule distinct_insert_at)
    ultimately have dist': "distinct (map ((!) ?h') ?ps')" by simp
    have valid_set': "list_all (\<lambda>p. p < length ?h') ?ps'"
      using valid_set by (auto simp: list_all_iff less_SucI dest: in_set_takeD in_set_dropD)
    have valid': "list_all (\<lambda>p. p < length ?h') (dSourceComboInfos st)"
      using valid by (auto simp: list_all_iff)
    have srt': "sorted_wrt ?lt (map ((!) ?h') (dSourceComboInfos st))"
      using srt valid by (simp add: map_nth_append_valid)
    have subset: "set ?ps \<subseteq> set ?ps'"
      by (simp only: set_insert_at) blast
    obtain st' where r: "MakeOrGet_SourceComboInfo sv st np fd = (?p, st')"
      and h': "info_objects st' = ?h'" and ps': "dSourceComboInfoSet st' = ?ps'"
      and vec': "dSourceComboInfos st' = dSourceComboInfos st"
      using None by (simp add: MakeOrGet_SourceComboInfo_def Let_def v)
    have ok': "registry_ok sv st'"
      using srt' valid' valid_set' dist' by (simp add: registry_ok_def h' ps' vec')
    have in': "?p \<in> set ?ps'"
      by simp
    have pv': "?p < length ?h'"
      by simp
    have pc': "?h' ! ?p = v"
      by simp
    have e1: "\<exists>ext. ?h' = ?h @ ext \<and> set ext \<subseteq> {v}"
      by (rule exI [of _ "[v]"]) simp
    have none': "\<forall>q\<in>set ?ps. ?h ! q = v \<longrightarrow> ?p = q \<and> st' = st"
      using absent by blast
    show ?thesis
      unfolding r interned_def prod.case h' ps'
    proof (intro conjI)
      show "?p \<in> set ?ps'" by (rule in')
      show "?p < length ?h'" by (rule pv')
      show "?h' ! ?p = v" by (rule pc')
      show "\<exists>ext. ?h' = ?h @ ext \<and> set ext \<subseteq> {v}" by (rule e1)
      show "set ?ps \<subseteq> set ?ps'" by (rule subset)
      show "registry_ok sv st'" by (rule ok')
      show "\<forall>q\<in>set ?ps. ?h ! q = v \<longrightarrow> ?p = q \<and> st' = st" by (rule none')
    qed
  qed
qed

lemma info_of_inject: "info_of r = info_of r' \<Longrightarrow> r = r'"
  by (simp add: info_of_def prod_eq_iff)

lemma requests_in_turn_interned:
  assumes step: "\<forall>st r. strict_total_order_on (insert (info_of r) (set (info_objects st))) lt
                   \<longrightarrow> registry_ok sv st \<longrightarrow> interned reg sv st (info_of r) (f st (fst r) (snd r))"
    and valid: "\<forall>st q. registry_ok sv st \<longrightarrow> q \<in> set (reg st) \<longrightarrow> q < length (info_objects st)"
    and ord: "strict_total_order_on (set (map info_of rs) \<union> set (info_objects st)) lt"
    and ok: "registry_ok sv st"
  shows "case requests_in_turn f st rs of (ps, st') \<Rightarrow>
           length ps = length rs
           \<and> (\<forall>i<length rs. ps ! i \<in> set (reg st') \<and> ps ! i < length (info_objects st')
                  \<and> info_objects st' ! (ps ! i) = info_of (rs ! i))
           \<and> (\<forall>i<length rs. \<forall>q\<in>set (reg st). info_objects st ! q = info_of (rs ! i) \<longrightarrow> ps ! i = q)
           \<and> (\<forall>i<length rs. \<forall>j<length rs. rs ! i = rs ! j \<longrightarrow> ps ! i = ps ! j)
           \<and> set (reg st) \<subseteq> set (reg st')
           \<and> (\<exists>ext. info_objects st' = info_objects st @ ext \<and> set ext \<subseteq> set (map info_of rs))
           \<and> registry_ok sv st'"
  using ord ok
proof (induction rs arbitrary: st)
  case Nil
  then show ?case by simp
next
  case (Cons r rs)
  obtain p st1 where c1: "f st (fst r) (snd r) = (p, st1)"
    by (cases "f st (fst r) (snd r)")
  obtain ps st2 where c2: "requests_in_turn f st1 rs = (ps, st2)"
    by (cases "requests_in_turn f st1 rs")
  have ord0: "strict_total_order_on (insert (info_of r) (set (info_objects st))) lt"
    by (rule strict_total_order_on_subset [OF Cons.prems(1)]) auto
  note S = step [rule_format, OF ord0 Cons.prems(2), unfolded c1 interned_def prod.case]
  note p1 = S [THEN conjunct1] S [THEN conjunct2, THEN conjunct1] S [THEN conjunct2, THEN conjunct2, THEN conjunct1]
  note reg1 = S [THEN conjunct2, THEN conjunct2, THEN conjunct2, THEN conjunct2, THEN conjunct1]
  note ok1 = S [THEN conjunct2, THEN conjunct2, THEN conjunct2, THEN conjunct2, THEN conjunct2, THEN conjunct1]
  note found1 = S [THEN conjunct2, THEN conjunct2, THEN conjunct2, THEN conjunct2, THEN conjunct2, THEN conjunct2, rule_format, THEN conjunct1]
  obtain ext1 where h1: "info_objects st1 = info_objects st @ ext1" "set ext1 \<subseteq> {info_of r}"
    using S [THEN conjunct2, THEN conjunct2, THEN conjunct2, THEN conjunct1] by (elim exE conjE)
  have ord1: "strict_total_order_on (set (map info_of rs) \<union> set (info_objects st1)) lt"
    by (rule strict_total_order_on_subset [OF Cons.prems(1)]) (use h1 in auto)
  note IH = Cons.IH [OF ord1 ok1, unfolded c2 prod.case]
  note len = IH [THEN conjunct1]
  note A = IH [THEN conjunct2, THEN conjunct1, rule_format]
  note B = IH [THEN conjunct2, THEN conjunct2, THEN conjunct1, rule_format]
  note E = IH [THEN conjunct2, THEN conjunct2, THEN conjunct2, THEN conjunct1, rule_format]
  note reg2 = IH [THEN conjunct2, THEN conjunct2, THEN conjunct2, THEN conjunct2, THEN conjunct1]
  note ok2 = IH [THEN conjunct2, THEN conjunct2, THEN conjunct2, THEN conjunct2, THEN conjunct2, THEN conjunct2]
  obtain ext2 where h2: "info_objects st2 = info_objects st1 @ ext2"
      "set ext2 \<subseteq> set (map info_of rs)"
    using IH [THEN conjunct2, THEN conjunct2, THEN conjunct2, THEN conjunct2, THEN conjunct2, THEN conjunct1] by (elim exE conjE)
  have keep1: "info_objects st1 ! q = info_objects st ! q" if "q \<in> set (reg st)" for q
    using valid [rule_format, OF Cons.prems(2) that] by (simp add: h1 nth_append)
  have keep2: "info_objects st2 ! q = info_objects st1 ! q" if "q < length (info_objects st1)" for q
    using that by (simp add: h2 nth_append)
  have run: "requests_in_turn f st (r # rs) = (p # ps, st2)"
    by (simp add: c1 c2)
  have A': "(p # ps) ! i \<in> set (reg st2) \<and> (p # ps) ! i < length (info_objects st2)
              \<and> info_objects st2 ! ((p # ps) ! i) = info_of ((r # rs) ! i)"
    if "i < length (r # rs)" for i
  proof (cases i)
    case 0
    show ?thesis
      using p1 reg2 keep2 [OF p1(2)] by (auto simp: 0 h2)
  next
    case (Suc k)
    with that A [of k] show ?thesis by simp
  qed
  have B': "(p # ps) ! i = q"
    if "i < length (r # rs)" "q \<in> set (reg st)" "info_objects st ! q = info_of ((r # rs) ! i)"
    for i q
  proof (cases i)
    case 0
    with that found1 [of q] show ?thesis by simp
  next
    case (Suc k)
    have "q \<in> set (reg st1)" using that(2) reg1 by blast
    moreover have "info_objects st1 ! q = info_of (rs ! k)"
      using keep1 [OF that(2)] that(3) by (simp add: Suc)
    ultimately show ?thesis
      using B [of k q] that(1) by (simp add: Suc)
  qed
  have first: "ps ! k = p" if "k < length rs" "rs ! k = r" for k
    using B [of k p] p1 that by simp
  have E': "(p # ps) ! i = (p # ps) ! j"
    if "i < length (r # rs)" "j < length (r # rs)" "(r # rs) ! i = (r # rs) ! j" for i j
  proof (cases i)
    case 0
    show ?thesis
    proof (cases j)
      case 0
      with \<open>i = 0\<close> show ?thesis by simp
    next
      case (Suc k)
      with that \<open>i = 0\<close> first [of k] show ?thesis by simp
    qed
  next
    case (Suc k)
    show ?thesis
    proof (cases j)
      case 0
      with that \<open>i = Suc k\<close> first [of k] show ?thesis by simp
    next
      case (Suc l)
      with that \<open>i = Suc k\<close> E [of k l] show ?thesis by simp
    qed
  qed
  have ext: "\<exists>ext. info_objects st2 = info_objects st @ ext \<and> set ext \<subseteq> set (map info_of (r # rs))"
    using h1 h2 by (intro exI [of _ "ext1 @ ext2"]) auto
  have P1: "length (p # ps) = length (r # rs)"
    using len by simp
  have P2: "\<forall>i<length (r # rs). (p # ps) ! i \<in> set (reg st2)
              \<and> (p # ps) ! i < length (info_objects st2)
              \<and> info_objects st2 ! ((p # ps) ! i) = info_of ((r # rs) ! i)"
    using A' by blast
  have P3: "\<forall>i<length (r # rs). \<forall>q\<in>set (reg st).
              info_objects st ! q = info_of ((r # rs) ! i) \<longrightarrow> (p # ps) ! i = q"
    using B' by blast
  have P4: "\<forall>i<length (r # rs). \<forall>j<length (r # rs).
              (r # rs) ! i = (r # rs) ! j \<longrightarrow> (p # ps) ! i = (p # ps) ! j"
    using E' by blast
  have P5: "set (reg st) \<subseteq> set (reg st2)"
    using reg1 reg2 by blast
  show ?case
    unfolding run prod.case
    apply (intro conjI)
          apply (rule P1)
         apply (rule P2)
        apply (rule P3)
       apply (rule P4)
      apply (rule P5)
     apply (rule ext)
    apply (rule ok2)
    done
qed

lemma registry_ok_valid:
  assumes "registry_ok sv st"
  shows "q \<in> set (dSourceComboInfos st) \<Longrightarrow> q < length (info_objects st)"
    and "q \<in> set (dSourceComboInfoSet st) \<Longrightarrow> q < length (info_objects st)"
  using assms by (simp_all add: registry_ok_def list_all_iff)

lemma registry_ok_distinct:
  assumes ord: "strict_total_order_on A (DCompare_SourceComboInfos sv)"
    and sub: "set (info_objects st) \<subseteq> A"
    and ok: "registry_ok sv st"
  shows "distinct (map ((!) (info_objects st)) (dSourceComboInfos st))"
    and "distinct (map ((!) (info_objects st)) (dSourceComboInfoSet st))"
proof -
  have "set (map ((!) (info_objects st)) (dSourceComboInfos st)) \<subseteq> A"
    using ok sub by (auto simp: registry_ok_def list_all_iff)
  then have "\<And>x. x \<in> set (map ((!) (info_objects st)) (dSourceComboInfos st)) \<Longrightarrow>
               \<not> DCompare_SourceComboInfos sv x x"
    using ord unfolding strict_total_order_on_def by blast
  moreover have "sorted_wrt (DCompare_SourceComboInfos sv)
                   (map ((!) (info_objects st)) (dSourceComboInfos st))"
    using ok by (simp add: registry_ok_def)
  ultimately show "distinct (map ((!) (info_objects st)) (dSourceComboInfos st))"
    by (rule sorted_wrt_irrefl_distinct [rotated])
  show "distinct (map ((!) (info_objects st)) (dSourceComboInfoSet st))"
    using ok by (simp add: registry_ok_def)
qed

lemma requests_in_turn_summary:
  assumes step: "\<forall>st r. strict_total_order_on (insert (info_of r) (set (info_objects st))) lt
                   \<longrightarrow> registry_ok sv st \<longrightarrow> interned reg sv st (info_of r) (f st (fst r) (snd r))"
    and valid: "\<forall>st q. registry_ok sv st \<longrightarrow> q \<in> set (reg st) \<longrightarrow> q < length (info_objects st)"
    and ord: "strict_total_order_on (set (map info_of rs) \<union> set (info_objects st)) lt"
    and ok: "registry_ok sv st"
  shows "case requests_in_turn f st rs of (ps, st') \<Rightarrow>
           length ps = length rs
           \<and> (\<forall>i<length rs. \<forall>j<length rs. (ps ! i = ps ! j) = (rs ! i = rs ! j))
           \<and> (\<forall>i<length rs. ps ! i \<in> set (reg st') \<and> ps ! i < length (info_objects st')
                  \<and> info_objects st' ! (ps ! i) = info_of (rs ! i))
           \<and> (\<forall>i<length rs. \<forall>q\<in>set (reg st). info_objects st ! q = info_of (rs ! i) \<longrightarrow> ps ! i = q)
           \<and> set (reg st) \<subseteq> set (reg st')
           \<and> take (length (info_objects st)) (info_objects st') = info_objects st
           \<and> set (info_objects st') \<subseteq> set (map info_of rs) \<union> set (info_objects st)
           \<and> registry_ok sv st'"
proof -
  obtain ps st' where run: "requests_in_turn f st rs = (ps, st')"
    by (cases "requests_in_turn f st rs")
  note R = requests_in_turn_interned [where lt = lt and sv = sv and reg = reg and f = f,
    OF step valid ord ok, unfolded run prod.case]
  note len = R [THEN conjunct1]
  note A = R [THEN conjunct2, THEN conjunct1]
  note B = R [THEN conjunct2, THEN conjunct2, THEN conjunct1]
  note E = R [THEN conjunct2, THEN conjunct2, THEN conjunct2, THEN conjunct1, rule_format]
  note reg' = R [THEN conjunct2, THEN conjunct2, THEN conjunct2, THEN conjunct2, THEN conjunct1]
  note ext = R [THEN conjunct2, THEN conjunct2, THEN conjunct2, THEN conjunct2, THEN conjunct2,
                THEN conjunct1]
  note ok' = R [THEN conjunct2, THEN conjunct2, THEN conjunct2, THEN conjunct2, THEN conjunct2,
                THEN conjunct2]
  from ext obtain e where e: "info_objects st' = info_objects st @ e" "set e \<subseteq> set (map info_of rs)"
    by (elim exE conjE)
  have iff: "(ps ! i = ps ! j) = (rs ! i = rs ! j)" if i: "i < length rs" and j: "j < length rs" for i j
  proof
    assume "ps ! i = ps ! j"
    then have "info_of (rs ! i) = info_of (rs ! j)"
      using A [rule_format, OF i] A [rule_format, OF j] by simp
    then show "rs ! i = rs ! j"
      by (rule info_of_inject)
  next
    assume "rs ! i = rs ! j"
    with i j show "ps ! i = ps ! j"
      by (rule E)
  qed
  have P2: "\<forall>i<length rs. \<forall>j<length rs. (ps ! i = ps ! j) = (rs ! i = rs ! j)"
    using iff by blast
  have P6: "take (length (info_objects st)) (info_objects st') = info_objects st"
    by (simp add: e(1))
  have P7: "set (info_objects st') \<subseteq> set (map info_of rs) \<union> set (info_objects st)"
    using e by auto
  show ?thesis
    unfolding run prod.case
    apply (intro conjI)
           apply (rule len)
          apply (rule P2)
         apply (rule A)
        apply (rule B)
       apply (rule reg')
      apply (rule P6)
     apply (rule P7)
    apply (rule ok')
    done
qed

lemma interned_steps:
  shows "\<forall>st r. strict_total_order_on (insert (info_of r) (set (info_objects st)))
                  (DCompare_SourceComboInfos sv)
           \<longrightarrow> registry_ok sv st
           \<longrightarrow> interned dSourceComboInfos sv st (info_of r)
                 (GetOrMake_SourceComboInfo sv st (fst r) (snd r))"
    and "\<forall>st r. strict_total_order_on (insert (info_of r) (set (info_objects st)))
                  (DCompare_SourceComboInfos sv)
           \<longrightarrow> registry_ok sv st
           \<longrightarrow> interned dSourceComboInfoSet sv st (info_of r)
                 (MakeOrGet_SourceComboInfo sv st (fst r) (snd r))"
    and "\<forall>st q. registry_ok sv st \<longrightarrow> q \<in> set (dSourceComboInfos st)
           \<longrightarrow> q < length (info_objects st)"
    and "\<forall>st q. registry_ok sv st \<longrightarrow> q \<in> set (dSourceComboInfoSet st)
           \<longrightarrow> q < length (info_objects st)"
  by (intro allI impI, erule (1) GetOrMake_SourceComboInfo_step, simp add: info_of_def)
     (intro allI impI, erule (1) MakeOrGet_SourceComboInfo_step, simp add: info_of_def,
      (intro allI impI, erule registry_ok_valid, assumption)+)

lemma interned_found:
  assumes "interned reg sv st v (f st np fd)" and "q \<in> set (reg st)" and "info_objects st ! q = v"
  shows "f st np fd = (q, st)"
proof -
  obtain p st' where r: "f st np fd = (p, st')"
    by (cases "f st np fd")
  note I = assms(1) [unfolded r interned_def prod.case]
  note F = I [THEN conjunct2, THEN conjunct2, THEN conjunct2, THEN conjunct2, THEN conjunct2,
              THEN conjunct2, rule_format, OF assms(2) assms(3)]
  show ?thesis
    using F by (simp add: r)
qed

text \<open>
  Claim C7. The comparison being a strict total order on the contents met and the registry
  in the state the two functions keep (\<open>registry_ok\<close>), take any sequence of requests to
  \<^verbatim>\<open>GetOrMake_SourceComboInfo\<close>, or to \<^verbatim>\<open>MakeOrGet_SourceComboInfo\<close>, each on the state
  the one before left. Two requests of the sequence get the same pointer exactly when their
  particle counts and decay counts are equal in value, whatever is requested in between;
  every pointer returned is registered and designates an object with exactly the content
  asked for; a content that a registered pointer had before the sequence gets that pointer,
  and a single request for it returns the pointer and changes nothing; the pointers
  registered before stay registered and the objects made before stay as they are; and no
  two registered pointers have the same content.
\<close>

theorem C7_combo_info_interning:
  assumes ord: "strict_total_order_on (set (map info_of rs) \<union> set (info_objects st))
                  (DCompare_SourceComboInfos sv)"
    and ok: "registry_ok sv st"
  shows "(case requests_in_turn (GetOrMake_SourceComboInfo sv) st rs of (ps, st') \<Rightarrow>
           length ps = length rs
           \<and> (\<forall>i<length rs. \<forall>j<length rs. (ps ! i = ps ! j) = (rs ! i = rs ! j))
           \<and> (\<forall>i<length rs. ps ! i \<in> set (dSourceComboInfos st') \<and> ps ! i < length (info_objects st')
                  \<and> info_objects st' ! (ps ! i) = info_of (rs ! i))
           \<and> (\<forall>i<length rs. \<forall>q\<in>set (dSourceComboInfos st).
                  info_objects st ! q = info_of (rs ! i) \<longrightarrow> ps ! i = q)
           \<and> set (dSourceComboInfos st) \<subseteq> set (dSourceComboInfos st')
           \<and> take (length (info_objects st)) (info_objects st') = info_objects st
           \<and> registry_ok sv st'
           \<and> distinct (map ((!) (info_objects st')) (dSourceComboInfos st')))
       \<and> (case requests_in_turn (MakeOrGet_SourceComboInfo sv) st rs of (ps, st') \<Rightarrow>
           length ps = length rs
           \<and> (\<forall>i<length rs. \<forall>j<length rs. (ps ! i = ps ! j) = (rs ! i = rs ! j))
           \<and> (\<forall>i<length rs. ps ! i \<in> set (dSourceComboInfoSet st') \<and> ps ! i < length (info_objects st')
                  \<and> info_objects st' ! (ps ! i) = info_of (rs ! i))
           \<and> (\<forall>i<length rs. \<forall>q\<in>set (dSourceComboInfoSet st).
                  info_objects st ! q = info_of (rs ! i) \<longrightarrow> ps ! i = q)
           \<and> set (dSourceComboInfoSet st) \<subseteq> set (dSourceComboInfoSet st')
           \<and> take (length (info_objects st)) (info_objects st') = info_objects st
           \<and> registry_ok sv st'
           \<and> distinct (map ((!) (info_objects st')) (dSourceComboInfoSet st')))
       \<and> (\<forall>r\<in>set rs. \<forall>q\<in>set (dSourceComboInfos st).
           info_objects st ! q = info_of r \<longrightarrow> GetOrMake_SourceComboInfo sv st (fst r) (snd r) = (q, st))
       \<and> (\<forall>r\<in>set rs. \<forall>q\<in>set (dSourceComboInfoSet st).
           info_objects st ! q = info_of r \<longrightarrow> MakeOrGet_SourceComboInfo sv st (fst r) (snd r) = (q, st))"
proof (intro conjI)
  let ?lt = "DCompare_SourceComboInfos sv"
  let ?A = "set (map info_of rs) \<union> set (info_objects st)"
  have one: "strict_total_order_on (insert (info_of r) (set (info_objects st))) ?lt"
    if "r \<in> set rs" for r
    by (rule strict_total_order_on_subset [OF ord]) (use that in auto)
  show "(\<forall>r\<in>set rs. \<forall>q\<in>set (dSourceComboInfos st).
           info_objects st ! q = info_of r \<longrightarrow> GetOrMake_SourceComboInfo sv st (fst r) (snd r) = (q, st))"
  proof (intro ballI impI)
    fix r q
    assume r: "r \<in> set rs" and q: "q \<in> set (dSourceComboInfos st)"
      and c: "info_objects st ! q = info_of r"
    from interned_steps(1) [rule_format, OF one [OF r] ok] q c
    show "GetOrMake_SourceComboInfo sv st (fst r) (snd r) = (q, st)"
      by (rule interned_found)
  qed
  show "(\<forall>r\<in>set rs. \<forall>q\<in>set (dSourceComboInfoSet st).
           info_objects st ! q = info_of r \<longrightarrow> MakeOrGet_SourceComboInfo sv st (fst r) (snd r) = (q, st))"
  proof (intro ballI impI)
    fix r q
    assume r: "r \<in> set rs" and q: "q \<in> set (dSourceComboInfoSet st)"
      and c: "info_objects st ! q = info_of r"
    from interned_steps(2) [rule_format, OF one [OF r] ok] q c
    show "MakeOrGet_SourceComboInfo sv st (fst r) (snd r) = (q, st)"
      by (rule interned_found)
  qed
  show "(case requests_in_turn (GetOrMake_SourceComboInfo sv) st rs of (ps, st') \<Rightarrow>
           length ps = length rs
           \<and> (\<forall>i<length rs. \<forall>j<length rs. (ps ! i = ps ! j) = (rs ! i = rs ! j))
           \<and> (\<forall>i<length rs. ps ! i \<in> set (dSourceComboInfos st') \<and> ps ! i < length (info_objects st')
                  \<and> info_objects st' ! (ps ! i) = info_of (rs ! i))
           \<and> (\<forall>i<length rs. \<forall>q\<in>set (dSourceComboInfos st).
                  info_objects st ! q = info_of (rs ! i) \<longrightarrow> ps ! i = q)
           \<and> set (dSourceComboInfos st) \<subseteq> set (dSourceComboInfos st')
           \<and> take (length (info_objects st)) (info_objects st') = info_objects st
           \<and> registry_ok sv st'
           \<and> distinct (map ((!) (info_objects st')) (dSourceComboInfos st')))"
  proof -
    obtain ps st' where run: "requests_in_turn (GetOrMake_SourceComboInfo sv) st rs = (ps, st')"
      by (cases "requests_in_turn (GetOrMake_SourceComboInfo sv) st rs")
    note R = requests_in_turn_summary [OF interned_steps(1) interned_steps(3) ord ok,
               unfolded run prod.case]
    note sub = R [THEN conjunct2, THEN conjunct2, THEN conjunct2, THEN conjunct2, THEN conjunct2,
                  THEN conjunct2, THEN conjunct1]
    note ok' = R [THEN conjunct2, THEN conjunct2, THEN conjunct2, THEN conjunct2, THEN conjunct2,
                  THEN conjunct2, THEN conjunct2]
    show ?thesis
      unfolding run prod.case
      apply (intro conjI)
             apply (rule R [THEN conjunct1])
            apply (rule R [THEN conjunct2, THEN conjunct1])
           apply (rule R [THEN conjunct2, THEN conjunct2, THEN conjunct1])
          apply (rule R [THEN conjunct2, THEN conjunct2, THEN conjunct2, THEN conjunct1])
         apply (rule R [THEN conjunct2, THEN conjunct2, THEN conjunct2, THEN conjunct2,
                        THEN conjunct1])
        apply (rule R [THEN conjunct2, THEN conjunct2, THEN conjunct2, THEN conjunct2,
                       THEN conjunct2, THEN conjunct1])
       apply (rule ok')
      apply (rule registry_ok_distinct(1) [OF ord sub ok'])
      done
  qed
  show "(case requests_in_turn (MakeOrGet_SourceComboInfo sv) st rs of (ps, st') \<Rightarrow>
           length ps = length rs
           \<and> (\<forall>i<length rs. \<forall>j<length rs. (ps ! i = ps ! j) = (rs ! i = rs ! j))
           \<and> (\<forall>i<length rs. ps ! i \<in> set (dSourceComboInfoSet st') \<and> ps ! i < length (info_objects st')
                  \<and> info_objects st' ! (ps ! i) = info_of (rs ! i))
           \<and> (\<forall>i<length rs. \<forall>q\<in>set (dSourceComboInfoSet st).
                  info_objects st ! q = info_of (rs ! i) \<longrightarrow> ps ! i = q)
           \<and> set (dSourceComboInfoSet st) \<subseteq> set (dSourceComboInfoSet st')
           \<and> take (length (info_objects st)) (info_objects st') = info_objects st
           \<and> registry_ok sv st'
           \<and> distinct (map ((!) (info_objects st')) (dSourceComboInfoSet st')))"
  proof -
    obtain ps st' where run: "requests_in_turn (MakeOrGet_SourceComboInfo sv) st rs = (ps, st')"
      by (cases "requests_in_turn (MakeOrGet_SourceComboInfo sv) st rs")
    note R = requests_in_turn_summary [OF interned_steps(2) interned_steps(4) ord ok,
               unfolded run prod.case]
    note sub = R [THEN conjunct2, THEN conjunct2, THEN conjunct2, THEN conjunct2, THEN conjunct2,
                  THEN conjunct2, THEN conjunct1]
    note ok' = R [THEN conjunct2, THEN conjunct2, THEN conjunct2, THEN conjunct2, THEN conjunct2,
                  THEN conjunct2, THEN conjunct2]
    show ?thesis
      unfolding run prod.case
      apply (intro conjI)
             apply (rule R [THEN conjunct1])
            apply (rule R [THEN conjunct2, THEN conjunct1])
           apply (rule R [THEN conjunct2, THEN conjunct2, THEN conjunct1])
          apply (rule R [THEN conjunct2, THEN conjunct2, THEN conjunct2, THEN conjunct1])
         apply (rule R [THEN conjunct2, THEN conjunct2, THEN conjunct2, THEN conjunct2,
                        THEN conjunct1])
        apply (rule R [THEN conjunct2, THEN conjunct2, THEN conjunct2, THEN conjunct2,
                       THEN conjunct2, THEN conjunct1])
       apply (rule ok')
      apply (rule registry_ok_distinct(2) [OF ord sub ok'])
      done
  qed
qed

theorem C7_combo_info_interning_witness:
  "fst (requests_in_turn (GetOrMake_SourceComboInfo example_services) event_one_info
          example_requests) = [1, 2, 1, 0]
   \<and> fst (requests_in_turn (MakeOrGet_SourceComboInfo example_services) event_one_info
          example_requests) = [1, 2, 1, 0]
   \<and> fst (requests_in_turn (GetOrMake_SourceComboInfo example_services) event_one_info
          example_requests) ! 0
     = fst (requests_in_turn (GetOrMake_SourceComboInfo example_services) event_one_info
          example_requests) ! 2
   \<and> GetOrMake_SourceComboInfo example_services event_one_info [(PiPlus, 1)] []
     = (0, event_one_info)
   \<and> MakeOrGet_SourceComboInfo example_services event_one_info [(PiPlus, 1)] []
     = (0, event_one_info)"
proof -
  have h1: "strict_total_order_on
              (set (map info_of example_requests) \<union> set (info_objects event_one_info))
              (DCompare_SourceComboInfos example_services)"
    by (simp add: strict_total_order_on_def example_requests_def info_of_def event_one_info_def
        new_event_def example_services_def)
  have h2: "registry_ok example_services event_one_info"
    by (simp add: registry_ok_def event_one_info_def new_event_def example_services_def)
  note T = C7_combo_info_interning [OF h1 h2, unfolded case_prod_beta]
  have g: "fst (requests_in_turn (GetOrMake_SourceComboInfo example_services) event_one_info
                  example_requests) = [1, 2, 1, 0]"
    by code_simp
  have m: "fst (requests_in_turn (MakeOrGet_SourceComboInfo example_services) event_one_info
                  example_requests) = [1, 2, 1, 0]"
    by code_simp
  have "0 < length example_requests" "2 < length example_requests"
    and "example_requests ! 0 = example_requests ! 2"
    by (simp_all add: example_requests_def)
  with T [THEN conjunct1, THEN conjunct2, THEN conjunct1, rule_format, of 0 2]
  have e: "fst (requests_in_turn (GetOrMake_SourceComboInfo example_services) event_one_info
                  example_requests) ! 0
           = fst (requests_in_turn (GetOrMake_SourceComboInfo example_services) event_one_info
                  example_requests) ! 2"
    by (simp only:)
  have r: "([(PiPlus, 1)], []) \<in> set example_requests"
    and q1: "0 \<in> set (dSourceComboInfos event_one_info)"
    and q2: "0 \<in> set (dSourceComboInfoSet event_one_info)"
    and c: "info_objects event_one_info ! 0 = info_of ([(PiPlus, 1)], [])"
    by (simp_all add: example_requests_def event_one_info_def new_event_def info_of_def)
  from T [THEN conjunct2, THEN conjunct2, THEN conjunct1, rule_format, OF r q1 c]
  have f1: "GetOrMake_SourceComboInfo example_services event_one_info [(PiPlus, 1)] []
              = (0, event_one_info)"
    by simp
  from T [THEN conjunct2, THEN conjunct2, THEN conjunct2, rule_format, OF r q2 c]
  have f2: "MakeOrGet_SourceComboInfo example_services event_one_info [(PiPlus, 1)] []
              = (0, event_one_info)"
    by simp
  show ?thesis
    apply (intro conjI)
        apply (rule g)
       apply (rule m)
      apply (rule e)
     apply (rule f1)
    apply (rule f2)
    done
qed

subsection \<open>Showers by beam bunch\<close>

text \<open>
  Claim C5. For photons and a non-empty bunch constraint \<^verbatim>\<open>Get_ParticlesForComboing\<close>
  should return the union of the showers cached for each single bunch of the constraint.
  With shower 10 cached for bunch 1 and shower 20 for bunch 2, the constraint \<open>{1, 2}\<close>
  returns shower 10 alone: \<^verbatim>\<open>Get_ShowersByBeamBunch\<close> reads the showers of bunch 2 under
  the key \<^verbatim>\<open>vector<int>(2)\<close>, which is \<open>{0, 0}\<close> and not \<open>{2}\<close>.
\<close>

theorem C5_union_misses_the_second_bunch:
  "map_sum id fst
     (Get_ParticlesForComboing example_services event_two_bunches Gamma d_MixedStage [1, 2] (ZBin 0))
   = Inr [10]"
  by (simp add: Get_ParticlesForComboing_def example_services_def example_charge_def event_two_bunches_def new_event_def
      Get_ShowersForBunches_def Get_ShowersByBeamBunch_def map_emplace_def map_value_def
      eval_nat_numeral Let_def)

subsection \<open>No particle twice in a combo\<close>

text \<open>
  Claim C2. No combo should hold a detected particle twice. Track 7 has a pi+ and a proton
  hypothesis, so it is a candidate of both kinds. Adding a proton to the combo of track 7 as
  a pi+, \<^verbatim>\<open>Combo_Horizontally_AddParticle\<close> looks for the candidate among the used particles
  of the kind proton only, finds none and makes the combo of track 7 with itself.
\<close>

theorem C2_one_track_twice_in_a_combo:
  "map_sum id (\<lambda>st. stored_combos st 0 (Unknown, ZIndependent, Some 1))
     (Combo_Horizontally_AddParticle example_services event_one_track
        (Unknown, ZIndependent, Some 1) (Unknown, ZIndependent, Some 0) Proton d_ChargedStage None)
   = Inr (Some [DSourceCombo [(PiPlus, 7), (Proton, 7)] [] True])
   \<and> map snd (Get_SourceParticles (DSourceCombo [(PiPlus, 7), (Proton, 7)] [] True) True) = [7, 7]"
  by code_simp

subsection \<open>Beam bunches of a merged combo\<close>

text \<open>
  Claim C3. No combo should be made of constituents whose bunch sets have no bunch in
  common. The photon 10 is valid for the bunches -1 and 1, the pi0 of the photons 20 and 21
  for bunch 0 only. \<^verbatim>\<open>Combo_Horizontally_AddCombo\<close> asks for the pi0 combos of the bunches
  \<open>{-1, 1}\<close>; \<^verbatim>\<open>Get_CombosByBeamBunch\<close> reads those of bunch 1 under the key
  \<^verbatim>\<open>vector<int>(1)\<close>, which is \<open>{0}\<close>, the key of bunch 0, and hands the pi0 out. The merged
  combo is made and registered with the empty bunch set.
\<close>

theorem C3_combo_without_common_bunch_is_made:
  "map_sum id
     (\<lambda>st. (stored_combos st 1 (Unknown, ZIndependent, Some 2),
            dValidRFBunches_ByCombo st (DSourceCombo [(Gamma, 20), (Gamma, 21), (Gamma, 10)] [] True)))
     (Combo_Horizontally_AddCombo example_services event_photon_and_pi0
        (Unknown, ZIndependent, Some 2) (Unknown, ZIndependent, Some 1)
        (Pi0, ZIndependent, Some 0) d_MixedStage_ZIndependent None False)
   = Inr (Some [DSourceCombo [(Gamma, 20), (Gamma, 21), (Gamma, 10)] [] True], Some [])
   \<and> dValidRFBunches_ByCombo event_photon_and_pi0 combo_photon_10 = Some [- 1, 1]
   \<and> dValidRFBunches_ByCombo event_photon_and_pi0 combo_pi0_20_21 = Some [0]
   \<and> Get_CommonRFBunches [- 1, 1] [0] = []"
  by code_simp

subsection \<open>Building a use once\<close>

text \<open>
  Claim C1. \<^verbatim>\<open>Combo_Vertically_AllDecays\<close> should build the combos of a decay that is
  needed once when the table does not hold them yet, and skip the decay when it does. For the
  use "one pi0", whatever the build functions are: with the pi0 use absent from the table
  nothing is built and the state comes back unchanged; with the pi0 use present
  \<^verbatim>\<open>Create_SourceCombos\<close> is called for it again. The test of line 1120 is the opposite of
  its comment.
\<close>

theorem C1_decay_is_built_when_present_and_not_when_absent:
  "Combo_Vertically_AllDecays (Suc 0) Create_SourceCombos_fn Combo_Vertically_NDecays_fn
     example_services (Unknown, ZIndependent, Some 1) d_MixedStage_ZIndependent None
     event_pi0_needed = Inr event_pi0_needed
   \<and> Combo_Vertically_AllDecays (Suc 0) Create_SourceCombos_fn Combo_Vertically_NDecays_fn
     example_services (Unknown, ZIndependent, Some 1) d_MixedStage_ZIndependent None
     event_pi0_built
     = Create_SourceCombos_fn (Pi0, ZIndependent, Some 0) d_MixedStage_ZIndependent None
         event_pi0_built"
  by (simp add: AllDecays_body_def example_services_def example_charge_def event_pi0_needed_def event_pi0_built_def
      new_event_def Get_Presiding_ChargedCombo_def split: sum.splits)

subsection \<open>Groupings of N particles of one kind\<close>

text \<open>
  Claim C4. Vertical comboing of N candidates of one kind out of M should give the C(M, N)
  groupings. For the use "3 pi+" of an event with the three pi+ tracks 1, 2 and 3 and nothing
  built, \<^verbatim>\<open>Combo_Vertically_AllParticles\<close> does not build the groupings of 2 (the test of
  line 1327 asks that they are there already), and \<^verbatim>\<open>Combo_Vertically_NParticles\<close> then
  dereferences the null pointer the table holds for them (line 1391).
\<close>

theorem C4_three_of_three_is_not_built:
  "Combo_Vertically_AllParticles (Suc fuel) example_services (Unknown, ZIndependent, Some 0)
     d_ChargedStage event_three_pions = Inl NullPointerDereference"
  by (simp add: AllParticles_body_def example_services_def example_charge_def event_three_pions_def new_event_def
      GetOrMake_SourceComboInfo_def std_lower_bound_def std_upper_bound_def
      Combo_Vertically_NParticles_def init_results_def Get_Resource_vector_def table_emplace_def
      map_emplace_def vector_of_def Let_def)

subsection \<open>The pair loop of the size-2 branch\<close>

lemma same_results_refl [simp]: "same_results st st"
  by (simp add: same_results_def)

lemma same_results_trans: "same_results a b \<Longrightarrow> same_results b c \<Longrightarrow> same_results a c"
  by (simp add: same_results_def)

lemma register_beam_bunch_same: "same_results st (register_beam_bunch t u c st b)"
  by (simp add: same_results_def register_beam_bunch_def Let_def)

lemma foldl_register_beam_bunch_same:
  "same_results st (foldl (register_beam_bunch t u c) st bs)"
proof (induction bs arbitrary: st)
  case Nil
  show ?case by simp
next
  case (Cons b bs)
  have "same_results st (register_beam_bunch t u c st b)"
    by (rule register_beam_bunch_same)
  with Cons [of "register_beam_bunch t u c st b"] show ?case
    by (auto intro: same_results_trans)
qed

lemma Register_ValidRFBunches_same:
  "Register_ValidRFBunches sv st use c bs stage ch = Inr st' \<Longrightarrow> same_results st st'"
  using foldl_register_beam_bunch_same
    [of "st \<lparr> dValidRFBunches_ByCombo := map_emplace (dValidRFBunches_ByCombo st) c bs \<rparr>"
        "Get_SourceCombosByBeamBunchByUse sv (dComboInfoChargeContent st (snd (snd use))) ch" use c bs]
  by (auto simp: Register_ValidRFBunches_def Let_def same_results_def vector_of_def
      split: if_splits sum.splits option.splits)

lemma Register_ValidRFBunches_ok:
  assumes "bs \<noteq> [] \<or>
           (\<exists>a. dSourceCombosByUse st
                  (Get_CombosSoFar sv stage (dComboInfoChargeContent st (snd (snd use))) ch) use
                  = Some (Some a) \<and> vector_objects st ! a \<noteq> [])"
  shows "\<exists>st'. Register_ValidRFBunches sv st use c bs stage ch = Inr st'"
  using assms foldl_register_beam_bunch_same
    [of "st \<lparr> dValidRFBunches_ByCombo := map_emplace (dValidRFBunches_ByCombo st) c bs \<rparr>"
        "Get_SourceCombosByBeamBunchByUse sv (dComboInfoChargeContent st (snd (snd use))) ch" use c bs]
  by (auto simp: Register_ValidRFBunches_def Let_def same_results_def vector_of_def)

lemma NParticles_pair_body_result:
  assumes tbl: "tbl = Get_CombosSoFar sv stage d_Neutral None"
    and I: "dSourceCombosByUse st tbl use = Some (Some a)" "a < length (vector_objects st)"
    and T: "pid \<noteq> Gamma \<longrightarrow>
              Get_CombosSoFar sv stage (dComboInfoChargeContent st (snd (snd use))) None = tbl"
    and rf: "rf = (if pid = Gamma then Get_ValidRFBunches sv p (fst (snd use)) else [])"
  shows "\<exists>st'. NParticles_pair_body sv use stage pid p rf q st = Inr st'
           \<and> vector_objects st' =
               (vector_objects st)
                 [a := vector_objects st ! a @ NParticles_pair_combos sv use stage pid (p, q)]
           \<and> dSourceCombosByUse st' = dSourceCombosByUse st
           \<and> dComboInfoChargeContent st' = dComboInfoChargeContent st"
proof (cases "NParticles_pair_combos sv use stage pid (p, q) = []")
  case True
  then have "NParticles_pair_body sv use stage pid p rf q st = Inr st"
    by (auto simp: NParticles_pair_body_def NParticles_pair_combos_def Let_def rf
        split: if_splits)
  with True show ?thesis by simp
next
  case False
  define z where "z = (stage = d_MixedStage_ZIndependent
               \<or> (Get_IsComboingZIndependent sv p pid \<and> Get_IsComboingZIndependent sv q pid))"
  define c where "c = DSourceCombo [(pid, p), (pid, q)] [] z"
  define bs where "bs = (if pid \<noteq> Gamma then []
       else Get_CommonRFBunches rf (Get_ValidRFBunches sv q (fst (snd use))))"
  from False have pc: "NParticles_pair_combos sv use stage pid (p, q) = [c]"
    and nz: "\<not> (stage = d_MixedStage \<and> z)" and nb: "\<not> (pid = Gamma \<and> bs = [])"
    by (auto simp: NParticles_pair_combos_def Let_def c_def z_def bs_def rf split: if_splits)
  let ?st1 = "push_back st a c"
  have p1: "push_back_result st tbl use c = Inr ?st1"
    using I by (simp add: push_back_result_def vector_of_def)
  have v1: "vector_objects ?st1 = (vector_objects st) [a := vector_objects st ! a @ [c]]"
    and t1: "dSourceCombosByUse ?st1 = dSourceCombosByUse st"
    and c1: "dComboInfoChargeContent ?st1 = dComboInfoChargeContent st"
    by (simp_all add: push_back_def)
  have "bs \<noteq> [] \<or>
        (\<exists>a'. dSourceCombosByUse ?st1
                 (Get_CombosSoFar sv stage (dComboInfoChargeContent ?st1 (snd (snd use))) None) use
                 = Some (Some a') \<and> vector_objects ?st1 ! a' \<noteq> [])"
  proof (cases "pid = Gamma")
    case True
    with nb show ?thesis by simp
  next
    case False
    with T have "Get_CombosSoFar sv stage (dComboInfoChargeContent ?st1 (snd (snd use))) None = tbl"
      by (simp add: c1)
    moreover have "vector_objects ?st1 ! a \<noteq> []"
      using I(2) by (simp add: v1)
    ultimately show ?thesis
      using I(1) t1 by auto
  qed
  from Register_ValidRFBunches_ok [OF this]
  obtain st2 where r: "Register_ValidRFBunches sv ?st1 use c bs stage None = Inr st2"
    by blast
  from Register_ValidRFBunches_same [OF r] have s2: "same_results ?st1 st2" .
  have "NParticles_pair_body sv use stage pid p rf q st
          = Inr (st2 \<lparr> dResumeSearchAfterMap_Particles :=
                        (dResumeSearchAfterMap_Particles st2) (c \<mapsto> q) \<rparr>)"
    using nz nb p1 r
    by (auto simp: NParticles_pair_body_def Let_def z_def [symmetric] bs_def [symmetric]
        c_def [symmetric] tbl [symmetric])
  with s2 v1 t1 c1 pc show ?thesis
    by (simp add: same_results_def)
qed

lemma list_update_append_twice:
  "a < length xs \<Longrightarrow> (xs [a := u]) [a := (xs [a := u]) ! a @ w] = xs [a := u @ w]"
  by simp

lemma NParticles_seconds_result:
  assumes tbl: "tbl = Get_CombosSoFar sv stage d_Neutral None"
    and I: "dSourceCombosByUse st tbl use = Some (Some a)" "a < length (vector_objects st)"
    and T: "pid \<noteq> Gamma \<longrightarrow>
              Get_CombosSoFar sv stage (dComboInfoChargeContent st (snd (snd use))) None = tbl"
    and rf: "rf = (if pid = Gamma then Get_ValidRFBunches sv p (fst (snd use)) else [])"
  shows "\<exists>st'. fold_err (NParticles_pair_body sv use stage pid p rf) qs st = Inr st'
           \<and> vector_objects st' =
               (vector_objects st)
                 [a := vector_objects st ! a
                         @ concat (map (\<lambda>q. NParticles_pair_combos sv use stage pid (p, q)) qs)]
           \<and> dSourceCombosByUse st' = dSourceCombosByUse st
           \<and> dComboInfoChargeContent st' = dComboInfoChargeContent st"
  using I T
proof (induction qs arbitrary: st)
  case Nil
  then show ?case by simp
next
  case (Cons q qs)
  from NParticles_pair_body_result [OF tbl Cons.prems(1,2,3) rf, of q]
  obtain st1 where b: "NParticles_pair_body sv use stage pid p rf q st = Inr st1"
    and v1: "vector_objects st1 =
               (vector_objects st)
                 [a := vector_objects st ! a @ NParticles_pair_combos sv use stage pid (p, q)]"
    and t1: "dSourceCombosByUse st1 = dSourceCombosByUse st"
    and c1: "dComboInfoChargeContent st1 = dComboInfoChargeContent st"
    by blast
  have I1: "dSourceCombosByUse st1 tbl use = Some (Some a)" "a < length (vector_objects st1)"
    using Cons.prems by (simp_all add: t1 v1)
  have T1: "pid \<noteq> Gamma \<longrightarrow>
              Get_CombosSoFar sv stage (dComboInfoChargeContent st1 (snd (snd use))) None = tbl"
    using Cons.prems(3) by (simp add: c1)
  from Cons.IH [OF I1 T1]
  obtain st' where f: "fold_err (NParticles_pair_body sv use stage pid p rf) qs st1 = Inr st'"
    and v': "vector_objects st' =
               (vector_objects st1)
                 [a := vector_objects st1 ! a
                         @ concat (map (\<lambda>q. NParticles_pair_combos sv use stage pid (p, q)) qs)]"
    and t': "dSourceCombosByUse st' = dSourceCombosByUse st1"
    and c': "dComboInfoChargeContent st' = dComboInfoChargeContent st1"
    by blast
  have "fold_err (NParticles_pair_body sv use stage pid p rf) (q # qs) st = Inr st'"
    using b f by simp
  moreover have "vector_objects st' =
               (vector_objects st)
                 [a := vector_objects st ! a
                         @ concat (map (\<lambda>q. NParticles_pair_combos sv use stage pid (p, q)) (q # qs))]"
    using Cons.prems(2) by (simp add: v' v1)
  ultimately show ?case
    using t' t1 c' c1 by simp
qed

lemma NParticles_pairs_result:
  assumes tbl: "tbl = Get_CombosSoFar sv stage d_Neutral None"
    and I: "dSourceCombosByUse st tbl use = Some (Some a)" "a < length (vector_objects st)"
    and T: "pid \<noteq> Gamma \<longrightarrow>
              Get_CombosSoFar sv stage (dComboInfoChargeContent st (snd (snd use))) None = tbl"
  shows "\<exists>st'. NParticles_pairs sv use stage pid ps st = Inr st'
           \<and> vector_objects st' =
               (vector_objects st)
                 [a := vector_objects st ! a
                         @ concat (map (NParticles_pair_combos sv use stage pid) (all_pairs ps))]
           \<and> dSourceCombosByUse st' = dSourceCombosByUse st
           \<and> dComboInfoChargeContent st' = dComboInfoChargeContent st"
  using I T
proof (induction ps arbitrary: st rule: induct_list012)
  case 1
  then show ?case by simp
next
  case (2 p)
  then show ?case by simp
next
  case (3 p q ps)
  let ?rf = "if pid = Gamma then Get_ValidRFBunches sv p (fst (snd use)) else []"
  from NParticles_seconds_result [OF tbl "3.prems"(1,2,3) refl, of p "q # ps"]
  obtain st1 where f: "fold_err (NParticles_pair_body sv use stage pid p ?rf) (q # ps) st = Inr st1"
    and v1: "vector_objects st1 =
               (vector_objects st)
                 [a := vector_objects st ! a
                         @ concat (map (\<lambda>q. NParticles_pair_combos sv use stage pid (p, q)) (q # ps))]"
    and t1: "dSourceCombosByUse st1 = dSourceCombosByUse st"
    and c1: "dComboInfoChargeContent st1 = dComboInfoChargeContent st"
    by blast
  have I1: "dSourceCombosByUse st1 tbl use = Some (Some a)" "a < length (vector_objects st1)"
    using "3.prems" by (simp_all add: t1 v1)
  have T1: "pid \<noteq> Gamma \<longrightarrow>
              Get_CombosSoFar sv stage (dComboInfoChargeContent st1 (snd (snd use))) None = tbl"
    using "3.prems"(3) by (simp add: c1)
  from "3.IH"(2) [OF I1 T1]
  obtain st' where r: "NParticles_pairs sv use stage pid (q # ps) st1 = Inr st'"
    and v': "vector_objects st' =
               (vector_objects st1)
                 [a := vector_objects st1 ! a
                         @ concat (map (NParticles_pair_combos sv use stage pid) (all_pairs (q # ps)))]"
    and t': "dSourceCombosByUse st' = dSourceCombosByUse st1"
    and c': "dComboInfoChargeContent st' = dComboInfoChargeContent st1"
    by blast
  have "NParticles_pairs sv use stage pid (p # q # ps) st = Inr st'"
    using f r by simp
  moreover have "vector_objects st' =
               (vector_objects st)
                 [a := vector_objects st ! a
                         @ concat (map (NParticles_pair_combos sv use stage pid) (all_pairs (p # q # ps)))]"
    using "3.prems"(2) by (simp add: v' v1 comp_def)
  ultimately show ?case
    using t' t1 c' c1 by simp
qed

lemma Get_ShowersForBunches_same:
  "Get_ShowersForBunches st z bs = Inr (ps, st') \<Longrightarrow> same_results st st'"
  by (auto simp: Get_ShowersForBunches_def same_results_def split: option.splits sum.splits)

lemma Get_ParticlesForComboing_same:
  "Get_ParticlesForComboing sv st pid stage bs z = Inr (ps, st') \<Longrightarrow> same_results st st'"
  by (auto simp: Get_ParticlesForComboing_def Get_AllShowers_def same_results_def
      dest: Get_ShowersForBunches_same split: if_splits)

lemma init_results_new:
  assumes "dSourceCombosByUse st tbl use = None"
  shows "dSourceCombosByUse (init_results st tbl use) tbl use = Some (Some (length (vector_objects st)))"
    and "vector_objects (init_results st tbl use) = vector_objects st @ [[]]"
    and "dComboInfoChargeContent (init_results st tbl use) = dComboInfoChargeContent st"
  using assms
  by (simp_all add: init_results_def Get_Resource_vector_def table_emplace_def map_emplace_def)

text \<open>
  Claim C10. In the size-2 branch of \<^verbatim>\<open>Combo_Vertically_NParticles\<close> the bound of the
  pair loop, \<^verbatim>\<open>std::prev(locParticles.end())\<close>, is taken before any emptiness check. For a
  use "2 of one kind" that is not in the table yet, off the all-showers stage, with the
  candidates \<open>ps\<close> that \<^verbatim>\<open>Get_ParticlesForComboing\<close> returns: when \<open>ps\<close> is empty the
  function takes \<^verbatim>\<open>std::prev\<close> of the end of an empty vector, which is undefined; when
  \<open>ps\<close> is not empty the function returns, and the use holds the combos of all pairs of
  \<open>ps\<close> that pass, in the order of the pairs. So the function is well defined exactly when
  the candidate list is not empty.
\<close>

theorem C10_prev_of_end_needs_a_candidate:
  assumes info: "snd (snd use) = Some i" "dNumParticles (info_objects st ! i) \<noteq> []"
      "last (dNumParticles (info_objects st ! i)) = (pid, 2)"
    and stage: "stage \<noteq> d_MixedStage"
    and new: "dSourceCombosByUse st (Get_CombosSoFar sv stage d_Neutral None) use = None"
    and tbl: "pid \<noteq> Gamma \<longrightarrow>
              Get_CombosSoFar sv stage (dComboInfoChargeContent st (Some i)) None
                = Get_CombosSoFar sv stage d_Neutral None"
    and particles: "Get_ParticlesForComboing sv
              (init_results st (Get_CombosSoFar sv stage d_Neutral None) use) pid stage []
              (fst (snd use)) = Inr (ps, st2)"
  shows "(ps = [] \<longrightarrow>
            Combo_Vertically_NParticles sv use nm1 stage st = Inl PrevOfBegin)
       \<and> (ps \<noteq> [] \<longrightarrow>
            (\<exists>st'. Combo_Vertically_NParticles sv use nm1 stage st = Inr st'
                \<and> stored_combos st' (Get_CombosSoFar sv stage d_Neutral None) use
                    = Some (concat (map (NParticles_pair_combos sv use stage pid)
                                      (all_pairs ps)))))"
proof -
  let ?tbl = "Get_CombosSoFar sv stage d_Neutral None"
  let ?st1 = "init_results st ?tbl use"
  let ?a = "length (vector_objects st)"
  have run: "Combo_Vertically_NParticles sv use nm1 stage st =
               (if ps = [] then Inl PrevOfBegin else NParticles_pairs sv use stage pid ps st2)"
    using info stage particles by (simp add: Combo_Vertically_NParticles_def Let_def)
  from Get_ParticlesForComboing_same [OF particles] have s: "same_results ?st1 st2" .
  have I: "dSourceCombosByUse st2 ?tbl use = Some (Some ?a)" "?a < length (vector_objects st2)"
    using s init_results_new [OF new] by (simp_all add: same_results_def)
  have T: "pid \<noteq> Gamma \<longrightarrow>
             Get_CombosSoFar sv stage (dComboInfoChargeContent st2 (snd (snd use))) None = ?tbl"
    using s init_results_new(3) [OF new] tbl info(1) by (simp add: same_results_def)
  from NParticles_pairs_result [OF refl I T, of ps]
  obtain st' where r: "NParticles_pairs sv use stage pid ps st2 = Inr st'"
    and v: "vector_objects st' =
              (vector_objects st2)
                [?a := vector_objects st2 ! ?a
                        @ concat (map (NParticles_pair_combos sv use stage pid) (all_pairs ps))]"
    and t: "dSourceCombosByUse st' = dSourceCombosByUse st2"
    by blast
  have "vector_objects st2 ! ?a = []"
    using s init_results_new(2) [OF new] by (simp add: same_results_def)
  then have "stored_combos st' ?tbl use
               = Some (concat (map (NParticles_pair_combos sv use stage pid) (all_pairs ps)))"
    using I v t by (simp add: stored_combos_def vector_of_def)
  with r run show ?thesis by simp
qed

theorem C10_prev_of_end_needs_a_candidate_witness:
  "Combo_Vertically_NParticles example_services (Unknown, ZIndependent, Some 0)
      (Unknown, ZBin 0, None) d_MixedStage_ZIndependent event_no_photons = Inl PrevOfBegin
   \<and> (\<exists>st'. Combo_Vertically_NParticles services_bunch_0 (Unknown, ZIndependent, Some 0)
               (Unknown, ZBin 0, None) d_MixedStage_ZIndependent event_four_photons = Inr st'
          \<and> stored_combos st' 1 (Unknown, ZIndependent, Some 0)
              = Some [DSourceCombo [(Gamma, 1), (Gamma, 2)] [] True,
                      DSourceCombo [(Gamma, 1), (Gamma, 3)] [] True,
                      DSourceCombo [(Gamma, 1), (Gamma, 4)] [] True,
                      DSourceCombo [(Gamma, 2), (Gamma, 3)] [] True,
                      DSourceCombo [(Gamma, 2), (Gamma, 4)] [] True,
                      DSourceCombo [(Gamma, 3), (Gamma, 4)] [] True])"
proof
  let ?use = "(Unknown, ZIndependent, Some 0) :: DSourceComboUse"
  let ?tbl = "Get_CombosSoFar example_services d_MixedStage_ZIndependent d_Neutral None"
  have "snd (snd ?use) = Some 0"
    and "dNumParticles (info_objects event_no_photons ! 0) \<noteq> []"
    and "last (dNumParticles (info_objects event_no_photons ! 0)) = (Gamma, 2)"
    and "d_MixedStage_ZIndependent \<noteq> d_MixedStage"
    and "dSourceCombosByUse event_no_photons ?tbl ?use = None"
    and "Gamma \<noteq> Gamma \<longrightarrow>
           Get_CombosSoFar example_services d_MixedStage_ZIndependent
             (dComboInfoChargeContent event_no_photons (Some 0)) None = ?tbl"
    and "Get_ParticlesForComboing example_services (init_results event_no_photons ?tbl ?use)
           Gamma d_MixedStage_ZIndependent [] (fst (snd ?use))
         = Inr ([], init_results event_no_photons ?tbl ?use)"
    by (simp_all add: event_no_photons_def new_event_def example_services_def
        example_charge_def Get_ParticlesForComboing_def Get_ShowersForBunches_def
        init_results_def Get_Resource_vector_def table_emplace_def)
  from C10_prev_of_end_needs_a_candidate [OF this]
  show "Combo_Vertically_NParticles example_services ?use (Unknown, ZBin 0, None)
          d_MixedStage_ZIndependent event_no_photons = Inl PrevOfBegin"
    by simp
next
  let ?use = "(Unknown, ZIndependent, Some 0) :: DSourceComboUse"
  let ?tbl = "Get_CombosSoFar services_bunch_0 d_MixedStage_ZIndependent d_Neutral None"
  have t: "?tbl = 1"
    by (simp add: services_bunch_0_def example_services_def)
  have p: "concat (map (NParticles_pair_combos services_bunch_0 ?use d_MixedStage_ZIndependent
                          Gamma) (all_pairs [1, 2, 3, 4]))
             = [DSourceCombo [(Gamma, 1), (Gamma, 2)] [] True,
                DSourceCombo [(Gamma, 1), (Gamma, 3)] [] True,
                DSourceCombo [(Gamma, 1), (Gamma, 4)] [] True,
                DSourceCombo [(Gamma, 2), (Gamma, 3)] [] True,
                DSourceCombo [(Gamma, 2), (Gamma, 4)] [] True,
                DSourceCombo [(Gamma, 3), (Gamma, 4)] [] True]"
    by (simp add: NParticles_pair_combos_def services_bunch_0_def example_services_def
        Get_CommonRFBunches_def)
  have "snd (snd ?use) = Some 0"
    and "dNumParticles (info_objects event_four_photons ! 0) \<noteq> []"
    and "last (dNumParticles (info_objects event_four_photons ! 0)) = (Gamma, 2)"
    and "d_MixedStage_ZIndependent \<noteq> d_MixedStage"
    and "dSourceCombosByUse event_four_photons ?tbl ?use = None"
    and "Gamma \<noteq> Gamma \<longrightarrow>
           Get_CombosSoFar services_bunch_0 d_MixedStage_ZIndependent
             (dComboInfoChargeContent event_four_photons (Some 0)) None = ?tbl"
    and "Get_ParticlesForComboing services_bunch_0 (init_results event_four_photons ?tbl ?use)
           Gamma d_MixedStage_ZIndependent [] (fst (snd ?use))
         = Inr ([1, 2, 3, 4], init_results event_four_photons ?tbl ?use)"
    by (simp_all add: event_four_photons_def new_event_def services_bunch_0_def
        example_services_def example_charge_def Get_ParticlesForComboing_def
        Get_ShowersForBunches_def init_results_def Get_Resource_vector_def table_emplace_def)
  from C10_prev_of_end_needs_a_candidate [OF this]
  show "\<exists>st'. Combo_Vertically_NParticles services_bunch_0 ?use (Unknown, ZBin 0, None)
               d_MixedStage_ZIndependent event_four_photons = Inr st'
          \<and> stored_combos st' 1 ?use
              = Some [DSourceCombo [(Gamma, 1), (Gamma, 2)] [] True,
                      DSourceCombo [(Gamma, 1), (Gamma, 3)] [] True,
                      DSourceCombo [(Gamma, 1), (Gamma, 4)] [] True,
                      DSourceCombo [(Gamma, 2), (Gamma, 3)] [] True,
                      DSourceCombo [(Gamma, 2), (Gamma, 4)] [] True,
                      DSourceCombo [(Gamma, 3), (Gamma, 4)] [] True]"
    unfolding p t by simp
qed

subsection \<open>The combos of a decay use\<close>

lemma beam_bunch_push_back_same: "same_results st (beam_bunch_push_back bbtbl use c st key)"
  by (simp add: same_results_def beam_bunch_push_back_def)

lemma foldl_beam_bunch_push_back_same:
  "same_results st (foldl (beam_bunch_push_back bbtbl use c) st keys)"
proof (induction keys arbitrary: st)
  case Nil
  show ?case by simp
next
  case (Cons k keys)
  have "same_results st (beam_bunch_push_back bbtbl use c st k)"
    by (rule beam_bunch_push_back_same)
  with Cons [of "beam_bunch_push_back bbtbl use c st k"] show ?case
    by (auto intro: same_results_trans)
qed

lemma Create_SourceCombos_cut_body_result:
  assumes I: "dSourceCombosByUse st tbl use = Some (Some a)"
  shows "\<exists>st'. Create_SourceCombos_cut_body sv use stage tbl bbtbl c st = Inr st'
           \<and> vector_objects st' =
               (vector_objects st)
                 [a := vector_objects st ! a
                    @ filter (\<lambda>c. Cut_InvariantMass_NoMassiveNeutrals sv c (fst use) (fst (snd use)))
                        [c]]
           \<and> dSourceCombosByUse st' = dSourceCombosByUse st"
proof (cases "Cut_InvariantMass_NoMassiveNeutrals sv c (fst use) (fst (snd use))")
  case False
  then show ?thesis
    by (simp add: Create_SourceCombos_cut_body_def)
next
  case True
  let ?st1 = "push_back st a c"
  have p: "push_back_result st tbl use c = Inr ?st1"
    using I by (simp add: push_back_result_def vector_of_def)
  show ?thesis
  proof (cases "stage = d_ChargedStage")
    case True
    with \<open>Cut_InvariantMass_NoMassiveNeutrals sv c (fst use) (fst (snd use))\<close> p show ?thesis
      by (simp add: Create_SourceCombos_cut_body_def push_back_def)
  next
    case False
    let ?st2 = "?st1 \<lparr> dValidRFBunches_ByCombo :=
                         map_emplace (dValidRFBunches_ByCombo ?st1) c [] \<rparr>"
    let ?keys = "if map_value (dValidRFBunches_ByCombo ?st1) c [] = [] then [[]]
                 else map (\<lambda>b. [b]) (map_value (dValidRFBunches_ByCombo ?st1) c [])"
    have r: "Create_SourceCombos_cut_body sv use stage tbl bbtbl c st
               = Inr (foldl (beam_bunch_push_back bbtbl use c) ?st2 ?keys)"
      using False \<open>Cut_InvariantMass_NoMassiveNeutrals sv c (fst use) (fst (snd use))\<close> p
      by (simp add: Create_SourceCombos_cut_body_def Let_def)
    have "same_results ?st2 (foldl (beam_bunch_push_back bbtbl use c) ?st2 ?keys)"
      by (rule foldl_beam_bunch_push_back_same)
    with r \<open>Cut_InvariantMass_NoMassiveNeutrals sv c (fst use) (fst (snd use))\<close> show ?thesis
      by (simp add: same_results_def push_back_def)
  qed
qed

lemma Create_SourceCombos_cut_loop_result:
  assumes I: "dSourceCombosByUse st tbl use = Some (Some a)" "a < length (vector_objects st)"
  shows "\<exists>st'. fold_err (Create_SourceCombos_cut_body sv use stage tbl bbtbl) cs st = Inr st'
           \<and> vector_objects st' =
               (vector_objects st)
                 [a := vector_objects st ! a
                    @ filter (\<lambda>c. Cut_InvariantMass_NoMassiveNeutrals sv c (fst use) (fst (snd use)))
                        cs]
           \<and> dSourceCombosByUse st' = dSourceCombosByUse st"
  using I
proof (induction cs arbitrary: st)
  case Nil
  then show ?case by simp
next
  case (Cons c cs)
  let ?cut = "\<lambda>c. Cut_InvariantMass_NoMassiveNeutrals sv c (fst use) (fst (snd use))"
  from Create_SourceCombos_cut_body_result [OF Cons.prems(1), of sv stage bbtbl c]
  obtain st1 where b: "Create_SourceCombos_cut_body sv use stage tbl bbtbl c st = Inr st1"
    and v1: "vector_objects st1 = (vector_objects st) [a := vector_objects st ! a @ filter ?cut [c]]"
    and t1: "dSourceCombosByUse st1 = dSourceCombosByUse st"
    by blast
  have I1: "dSourceCombosByUse st1 tbl use = Some (Some a)" "a < length (vector_objects st1)"
    using Cons.prems by (simp_all add: t1 v1)
  from Cons.IH [OF I1]
  obtain st' where f: "fold_err (Create_SourceCombos_cut_body sv use stage tbl bbtbl) cs st1 = Inr st'"
    and v': "vector_objects st' = (vector_objects st1) [a := vector_objects st1 ! a @ filter ?cut cs]"
    and t': "dSourceCombosByUse st' = dSourceCombosByUse st1"
    by blast
  have "fold_err (Create_SourceCombos_cut_body sv use stage tbl bbtbl) (c # cs) st = Inr st'"
    using b f by simp
  moreover have "vector_objects st' =
      (vector_objects st) [a := vector_objects st ! a @ filter ?cut (c # cs)]"
    using Cons.prems(2) by (simp add: v' v1)
  ultimately show ?case
    using t' t1 by simp
qed

lemma table_emplace_present:
  "dSourceCombosByUse st tbl use = Some p \<Longrightarrow> table_emplace st tbl use q = st"
  by (simp add: table_emplace_def map_emplace_def)

lemma table_emplace_absent:
  "dSourceCombosByUse st tbl use = None \<Longrightarrow>
     dSourceCombosByUse (table_emplace st tbl use q) = (dSourceCombosByUse st) (tbl := (dSourceCombosByUse st tbl) (use \<mapsto> q))
     \<and> vector_objects (table_emplace st tbl use q) = vector_objects st"
  by (simp add: table_emplace_def map_emplace_def)

lemma init_results_present:
  "dSourceCombosByUse st tbl use = Some p \<Longrightarrow>
     dSourceCombosByUse (init_results st tbl use) = dSourceCombosByUse st
     \<and> vector_objects (init_results st tbl use) = vector_objects st @ [[]]"
  by (simp add: init_results_def Get_Resource_vector_def table_emplace_def map_emplace_def)

text \<open>
  On the charged stage the decay eta -> photon, pi+, pi- has no massive neutral, and the cut
  for the eta rejects the combo of the tracks 1 and 2; yet the eta use holds that combo:
  for an info that is not fully charged the charged stage shares the vector of the
  unknown-decay use and places no cut ("don't cut yet! we don't have the neutrals!").
\<close>

theorem C6_charged_stage_shares_without_cut:
  "map_sum id (\<lambda>st. stored_combos st 0 (Eta, ZUnknown, Some 0))
     (Create_SourceCombos already_built services_cut (Eta, ZUnknown, Some 0) d_ChargedStage None
        event_eta_tracks)
   = Inr (Some [combo_pip_1_pim_2])
   \<and> Get_HasMassiveNeutrals services_cut (info_objects event_eta_tracks) (Some 0) = False
   \<and> filter (\<lambda>c. Cut_InvariantMass_NoMassiveNeutrals services_cut c Eta ZUnknown)
        [combo_pip_1_pim_2] = []"
  by (simp add: Create_SourceCombos_def already_built_def services_cut_def example_services_def example_charge_def
      event_eta_tracks_def new_event_def combo_pip_1_pim_2_def stored_combos_def vector_of_def
      table_emplace_def map_emplace_def Let_def)

text \<open>
  Claim C6, amended. \<^verbatim>\<open>Create_SourceCombos\<close> builds the combos for the unknown-decay use
  first. Then, for a use with a decaying particle and the same info that is not in the table
  yet, off the all-showers stage: when the stage is the charged stage and the info is not
  fully charged, or the stage is a mixed stage and the info has a massive neutral, the decay
  use gets the very vector of the unknown-decay use, unchanged, and no cut is placed;
  otherwise (no massive neutral, and a fully charged info on the charged stage) the decay
  use gets a new vector that holds exactly the combos of the unknown-decay use that pass
  the invariant mass cut for the decay, the same combos in the same order, and the vector of
  the unknown-decay use is left as it is.
\<close>

theorem C6_decay_use_results:
  assumes unknown: "Create_SourceCombos_Unknown (Unknown, z, info) stage presiding st = Inr st1"
    and decay: "pid \<noteq> Unknown"
    and stage: "stage \<noteq> d_MixedStage"
    and tbl: "tbl = Get_CombosSoFar sv stage (dComboInfoChargeContent st1 info)
                      (Get_ChargedCombo_WithNow sv presiding)"
    and src: "dSourceCombosByUse st1 tbl (Unknown, z, info) = Some (Some src)"
      "src < length (vector_objects st1)"
    and new: "dSourceCombosByUse st1 tbl (pid, z, info) = None"
  shows "((stage = d_ChargedStage \<and> dComboInfoChargeContent st1 info \<noteq> d_Charged)
          \<or> (stage \<noteq> d_ChargedStage \<and> Get_HasMassiveNeutrals sv (info_objects st1) info)
          \<longrightarrow> (\<exists>st'. Create_SourceCombos Create_SourceCombos_Unknown sv (pid, z, info) stage
                        presiding st = Inr st'
                  \<and> dSourceCombosByUse st' tbl (pid, z, info) = Some (Some src)
                  \<and> dSourceCombosByUse st' tbl (Unknown, z, info) = Some (Some src)
                  \<and> vector_objects st' = vector_objects st1))
       \<and> ((stage = d_ChargedStage \<longrightarrow> dComboInfoChargeContent st1 info = d_Charged)
          \<and> \<not> Get_HasMassiveNeutrals sv (info_objects st1) info
          \<longrightarrow> (\<exists>st' a. Create_SourceCombos Create_SourceCombos_Unknown sv (pid, z, info) stage
                          presiding st = Inr st'
                  \<and> dSourceCombosByUse st' tbl (pid, z, info) = Some (Some a) \<and> a \<noteq> src
                  \<and> vector_objects st' ! a
                      = filter (\<lambda>c. Cut_InvariantMass_NoMassiveNeutrals sv c pid z)
                          (vector_objects st1 ! src)
                  \<and> dSourceCombosByUse st' tbl (Unknown, z, info) = Some (Some src)
                  \<and> vector_objects st' ! src = vector_objects st1 ! src))"
proof (intro conjI impI)
  assume c: "(stage = d_ChargedStage \<and> dComboInfoChargeContent st1 info \<noteq> d_Charged)
          \<or> (stage \<noteq> d_ChargedStage \<and> Get_HasMassiveNeutrals sv (info_objects st1) info)"
  let ?st3 = "table_emplace st1 tbl (pid, z, info) (Some src)"
  have t3: "dSourceCombosByUse ?st3 tbl (pid, z, info) = Some (Some src)"
      "dSourceCombosByUse ?st3 tbl (Unknown, z, info) = Some (Some src)"
      "vector_objects ?st3 = vector_objects st1"
    using table_emplace_absent [OF new, of "Some src"] src(1) decay by simp_all
  from c show "\<exists>st'. Create_SourceCombos Create_SourceCombos_Unknown sv (pid, z, info) stage
                        presiding st = Inr st'
                  \<and> dSourceCombosByUse st' tbl (pid, z, info) = Some (Some src)
                  \<and> dSourceCombosByUse st' tbl (Unknown, z, info) = Some (Some src)
                  \<and> vector_objects st' = vector_objects st1"
  proof
    assume "stage = d_ChargedStage \<and> dComboInfoChargeContent st1 info \<noteq> d_Charged"
    then have "Create_SourceCombos Create_SourceCombos_Unknown sv (pid, z, info) stage
                 presiding st = Inr ?st3"
      using unknown decay src(1) new unfolding tbl
      by (simp add: Create_SourceCombos_def Let_def table_emplace_def map_emplace_def)
    with t3 show ?thesis by simp
  next
    assume "stage \<noteq> d_ChargedStage \<and> Get_HasMassiveNeutrals sv (info_objects st1) info"
    then show ?thesis
      using unknown decay src(1) new unfolding tbl
      by (simp add: Create_SourceCombos_def Let_def table_emplace_def map_emplace_def)
  qed
next
  assume c: "(stage = d_ChargedStage \<longrightarrow> dComboInfoChargeContent st1 info = d_Charged)
          \<and> \<not> Get_HasMassiveNeutrals sv (info_objects st1) info"
  let ?use = "(pid, z, info)"
  let ?a = "length (vector_objects st1)"
  let ?st3 = "init_results st1 tbl ?use"
  let ?st4 = "init_results ?st3 tbl ?use"
  let ?bbtbl = "Get_SourceCombosByBeamBunchByUse sv (dComboInfoChargeContent st1 info)
                  (Get_ChargedCombo_WithNow sv presiding)"
  have t3: "dSourceCombosByUse ?st3 tbl ?use = Some (Some ?a)"
    and v3: "vector_objects ?st3 = vector_objects st1 @ [[]]"
    and u3: "dSourceCombosByUse ?st3 tbl (Unknown, z, info) = Some (Some src)"
    using new src(1) decay
    by (simp_all add: init_results_def Get_Resource_vector_def table_emplace_def map_emplace_def)
  have t4: "dSourceCombosByUse ?st4 = dSourceCombosByUse ?st3"
    and v4: "vector_objects ?st4 = vector_objects st1 @ [[], []]"
    using init_results_present [OF t3] v3 by simp_all
  have run: "Create_SourceCombos Create_SourceCombos_Unknown sv ?use stage presiding st
               = fold_err (Create_SourceCombos_cut_body sv ?use stage tbl ?bbtbl)
                   (vector_objects ?st4 ! src) ?st4"
    using unknown decay stage src(1) new c unfolding tbl
    by (auto simp: Create_SourceCombos_def Let_def table_emplace_def map_emplace_def)
  have s4: "vector_objects ?st4 ! src = vector_objects st1 ! src"
    using src(2) by (simp add: v4 nth_append)
  have I: "dSourceCombosByUse ?st4 tbl ?use = Some (Some ?a)" "?a < length (vector_objects ?st4)"
    using t3 by (simp_all add: t4 v4)
  from Create_SourceCombos_cut_loop_result [OF I, of sv stage ?bbtbl "vector_objects ?st4 ! src"]
  obtain st' where f: "fold_err (Create_SourceCombos_cut_body sv ?use stage tbl ?bbtbl)
                         (vector_objects ?st4 ! src) ?st4 = Inr st'"
    and v': "vector_objects st' =
               (vector_objects ?st4)
                 [?a := vector_objects ?st4 ! ?a
                    @ filter (\<lambda>c. Cut_InvariantMass_NoMassiveNeutrals sv c pid z)
                        (vector_objects ?st4 ! src)]"
    and t': "dSourceCombosByUse st' = dSourceCombosByUse ?st4"
    by auto
  have a: "vector_objects st' ! ?a
             = filter (\<lambda>c. Cut_InvariantMass_NoMassiveNeutrals sv c pid z) (vector_objects st1 ! src)"
    by (simp add: v' s4) (simp add: v4 nth_append)
  have b: "vector_objects st' ! src = vector_objects st1 ! src"
    using src(2) by (simp add: v' s4)
  show "\<exists>st' a. Create_SourceCombos Create_SourceCombos_Unknown sv (pid, z, info) stage
                          presiding st = Inr st'
                  \<and> dSourceCombosByUse st' tbl (pid, z, info) = Some (Some a) \<and> a \<noteq> src
                  \<and> vector_objects st' ! a
                      = filter (\<lambda>c. Cut_InvariantMass_NoMassiveNeutrals sv c pid z)
                          (vector_objects st1 ! src)
                  \<and> dSourceCombosByUse st' tbl (Unknown, z, info) = Some (Some src)
                  \<and> vector_objects st' ! src = vector_objects st1 ! src"
    using run f t' t4 t3 u3 a b src(2) by auto
qed

theorem C6_decay_use_results_witness:
  "(\<exists>st' a. Create_SourceCombos already_built services_cut (Pi0, ZIndependent, Some 0)
               d_MixedStage_ZIndependent None event_three_pairs = Inr st'
       \<and> dSourceCombosByUse st' 1 (Pi0, ZIndependent, Some 0) = Some (Some a) \<and> a \<noteq> 0
       \<and> vector_objects st' ! a = [DSourceCombo [(Gamma, 1), (Gamma, 3)] [] True]
       \<and> dSourceCombosByUse st' 1 (Unknown, ZIndependent, Some 0) = Some (Some 0)
       \<and> vector_objects st' ! 0
           = [DSourceCombo [(Gamma, 1), (Gamma, 2)] [] True,
              DSourceCombo [(Gamma, 1), (Gamma, 3)] [] True,
              DSourceCombo [(Gamma, 2), (Gamma, 3)] [] True])
   \<and> (\<exists>st'. Create_SourceCombos already_built services_cut (Eta, ZUnknown, Some 0)
               d_ChargedStage None event_eta_tracks = Inr st'
       \<and> dSourceCombosByUse st' 0 (Eta, ZUnknown, Some 0) = Some (Some 0)
       \<and> dSourceCombosByUse st' 0 (Unknown, ZUnknown, Some 0) = Some (Some 0)
       \<and> vector_objects st' = [[combo_pip_1_pim_2]])"
  using C6_decay_use_results [where Create_SourceCombos_Unknown = already_built
          and z = ZIndependent and info = "Some 0" and stage = d_MixedStage_ZIndependent
          and presiding = None and st = event_three_pairs and ?st1.0 = event_three_pairs
          and pid = Pi0 and tbl = 1 and sv = services_cut and src = 0]
        C6_decay_use_results [where Create_SourceCombos_Unknown = already_built
          and z = ZUnknown and info = "Some 0" and stage = d_ChargedStage
          and presiding = None and st = event_eta_tracks and ?st1.0 = event_eta_tracks
          and pid = Eta and tbl = 0 and sv = services_cut and src = 0]
  by (simp add: already_built_def services_cut_def example_services_def example_charge_def
      event_three_pairs_def event_eta_tracks_def new_event_def)

subsection \<open>The leaves of a merged combo\<close>

text \<open>
  Claim C8. The combo \<^verbatim>\<open>Combo_Horizontally_AddCombo\<close> makes of an all-but-1 combo and a
  combo to add should hold the leaves of both, whichever side is promoted. For the use
  "2 pi0, 1 eta" the grouping of 2 pi0 (photons 1 to 4) is the all-but-1 combo, the eta
  (photons 5 to 10) is added, and the contents of the all-but-1 combo are promoted (lines
  1813-1819). Both hold their pi0 combos under the pi0 use, and the range \<^verbatim>\<open>insert\<close> of
  the map keeps the entry that is there: the combo made holds the three pi0 of the eta
  only, and the photons 1 to 4 are in none of its members.
\<close>

theorem C8_merge_drops_leaves_under_a_shared_use:
  "map_sum id (\<lambda>st. stored_combos st 1 (Unknown, ZIndependent, Some 3))
     (Combo_Horizontally_AddCombo example_services event_two_pi0_and_eta
        (Unknown, ZIndependent, Some 3) (Unknown, ZIndependent, Some 2) eta_use
        d_MixedStage_ZIndependent None False)
   = Inr (Some [DSourceCombo []
                  [(pi0_use, [DSourceCombo [(Gamma, 5), (Gamma, 6)] [] True,
                              DSourceCombo [(Gamma, 7), (Gamma, 8)] [] True,
                              DSourceCombo [(Gamma, 9), (Gamma, 10)] [] True])] True])
   \<and> map snd (Get_SourceParticles
                (DSourceCombo []
                   [(pi0_use, [DSourceCombo [(Gamma, 5), (Gamma, 6)] [] True,
                               DSourceCombo [(Gamma, 7), (Gamma, 8)] [] True,
                               DSourceCombo [(Gamma, 9), (Gamma, 10)] [] True])] True) True)
     = [5, 6, 7, 8, 9, 10]
   \<and> map snd (Get_SourceParticles combo_two_pi0 True) = [1, 2, 3, 4]
   \<and> map snd (Get_SourceParticles combo_eta_three_pi0 True) = [5, 6, 7, 8, 9, 10]"
  by code_simp

end
